theory Spec2Isabelle
  imports Main "HOL-Library.List_Lexorder" "HOL-Library.Char_ord" "HOL-Library.Sublist"
begin

section \<open>Data model\<close>

text \<open>
  A Go \<^verbatim>\<open>error\<close> is modelled by its message; \<^verbatim>\<open>nil\<close> is \<open>None\<close>.
  The localisation function \<^verbatim>\<open>L\<close> is the identity (untranslated messages), so
  \<^verbatim>\<open>fmt.Errorf(L("prefix: %s"), err)\<close> is the prefix followed by the message of \<open>err\<close>.

  A \<^verbatim>\<open>map[string]string\<close> is an association list read through \<open>map_of\<close>.
  Indexing a Go map with a key it does not hold yields the empty string (\<open>getv\<close>);
  the two-valued form \<^verbatim>\<open>_, ok := m[k]\<close> is \<open>has_key\<close>.

  Go compares strings with \<^verbatim>\<open><\<close>, \<^verbatim>\<open>></\<close> byte by byte, lexicographically, a proper
  prefix being smaller. This is the order of \<open>char list\<close> given by the lexicographic
  list order over the byte order of \<open>char\<close>.
\<close>

type_synonym error = string

type_synonym facts = "(string \<times> string) list"

definition getv :: "facts \<Rightarrow> string \<Rightarrow> string" where
  "getv m k = (case map_of m k of None \<Rightarrow> [] | Some v \<Rightarrow> v)"

definition has_key :: "facts \<Rightarrow> string \<Rightarrow> bool" where
  "has_key m k = (case map_of m k of None \<Rightarrow> False | Some v \<Rightarrow> True)"

text \<open>\<^verbatim>\<open>types.ImageFlags\<close>: the fields the functions below read.\<close>

record ImageFlags =
  Name :: string
  Tag :: string
  PullPolicy :: string

text \<open>\<^verbatim>\<open>shared.NewConnection(backend, podName, podFilter)\<close>: the handle keeps its arguments.\<close>

type_synonym Connection = "string \<times> string \<times> string"

definition NewConnection :: "string \<Rightarrow> string \<Rightarrow> string \<Rightarrow> Connection" where
  "NewConnection backend podName podFilter = (backend, podName, podFilter)"

section \<open>The host: external calls and their trace\<close>

text \<open>
  Every call that leaves the orchestration code (the operating system, podman, systemd,
  the script generators) is recorded as an event holding its arguments and what it
  returned. A run of a function is a list of events in the order of the calls.
  Logging is not recorded: no log call influences control flow.
\<close>

datatype event =
    EvMkdirTemp string string string "error option"
  | EvRemoveAll string "error option"
  | EvInspectHost facts "error option"
  | EvPrepareImage string string "string list" string "error option"
  | EvGenerateInspectContainerScript string "error option"
  | EvRunContainer string string "string list" "string list" "error option"
  | EvReadInspectData string facts "error option"
  | EvSanityCheck Connection facts string "error option"
  | EvStopService string "error option"
  | EvStartService string "error option"
  | EvGeneratePgsqlVersionUpgradeScript string string string bool string "error option"
  | EvGenerateFinalizePostgresScript string bool bool bool bool bool string "error option"
  | EvGeneratePostUpgradeScript string string string "error option"
  | EvGenerateSystemdConfFile string string string "error option"
  | EvReloadDaemon bool "error option"
  | EvGenerateMigrationScript string string bool string "error option"
  | EvReadContainerData string string string string "error option"

text \<open>
  The host is a parameter. What an external call returns may depend on everything that
  happened before it, so each field takes the trace so far: a temporary directory can
  get a new name at every call, a service can fail to start after a failed migration.
  The constants of the packages \<^verbatim>\<open>shared/podman\<close> and \<^verbatim>\<open>shared/utils\<close> that the code
  reads, and the pure functions \<^verbatim>\<open>utils.ComputeImage\<close> and \<^verbatim>\<open>filepath.Dir\<close>, are fields
  as well.
\<close>

record env =
  ServerService :: string
  ServerContainerName :: string
  InspectOutputFile_Directory :: string
  InspectScriptFilename :: string
  utils_ComputeImage :: "string \<Rightarrow> string \<Rightarrow> string list \<Rightarrow> string \<times> error option"
  filepath_Dir :: "string \<Rightarrow> string"
  os_MkdirTemp :: "event list \<Rightarrow> string \<Rightarrow> string \<Rightarrow> string \<times> error option"
  os_RemoveAll :: "event list \<Rightarrow> string \<Rightarrow> error option"
  utils_InspectHost :: "event list \<Rightarrow> facts \<times> error option"
  podman_PrepareImage ::
    "event list \<Rightarrow> string \<Rightarrow> string \<Rightarrow> string list \<Rightarrow> string \<times> error option"
  utils_GenerateInspectContainerScript :: "event list \<Rightarrow> string \<Rightarrow> error option"
  podman_RunContainer ::
    "event list \<Rightarrow> string \<Rightarrow> string \<Rightarrow> string list \<Rightarrow> string list \<Rightarrow> error option"
  utils_ReadInspectData :: "event list \<Rightarrow> string \<Rightarrow> facts \<times> error option"
  adm_utils_SanityCheck :: "event list \<Rightarrow> Connection \<Rightarrow> facts \<Rightarrow> string \<Rightarrow> error option"
  podman_StopService :: "event list \<Rightarrow> string \<Rightarrow> error option"
  podman_StartService :: "event list \<Rightarrow> string \<Rightarrow> error option"
  adm_utils_GeneratePgsqlVersionUpgradeScript ::
    "event list \<Rightarrow> string \<Rightarrow> string \<Rightarrow> string \<Rightarrow> bool \<Rightarrow> string \<times> error option"
  adm_utils_GenerateFinalizePostgresScript ::
    "event list \<Rightarrow> string \<Rightarrow> bool \<Rightarrow> bool \<Rightarrow> bool \<Rightarrow> bool \<Rightarrow> bool \<Rightarrow> string \<times> error option"
  adm_utils_GeneratePostUpgradeScript ::
    "event list \<Rightarrow> string \<Rightarrow> string \<Rightarrow> string \<times> error option"
  podman_GenerateSystemdConfFile ::
    "event list \<Rightarrow> string \<Rightarrow> string \<Rightarrow> string \<Rightarrow> error option"
  podman_ReloadDaemon :: "event list \<Rightarrow> bool \<Rightarrow> error option"
  adm_utils_GenerateMigrationScript ::
    "event list \<Rightarrow> string \<Rightarrow> string \<Rightarrow> bool \<Rightarrow> string \<times> error option"
  adm_utils_ReadContainerData ::
    "event list \<Rightarrow> string \<Rightarrow> string \<times> string \<times> string \<times> error option"

text \<open>
  Each call asks the host, at the current trace, and appends its event. The callees are
  not among the sources: an argument whose meaning only the callee knows is named
  \<open>flag\<close>. In \<^verbatim>\<open>GenerateFinalizePostgresScript(scriptDir, true, schemaUpdateRequired, true,
  true, false)\<close> the second flag is the one \<^verbatim>\<open>Upgrade\<close> computes.
\<close>

definition MkdirTemp ::
  "env \<Rightarrow> string \<Rightarrow> string \<Rightarrow> event list \<Rightarrow> (string \<times> error option) \<times> event list" where
  "MkdirTemp env dir pattern t =
     (case os_MkdirTemp env t dir pattern of
        (d, err) \<Rightarrow> ((d, err), t @ [EvMkdirTemp dir pattern d err]))"

definition RemoveAll :: "env \<Rightarrow> string \<Rightarrow> event list \<Rightarrow> error option \<times> event list" where
  "RemoveAll env path t =
     (case os_RemoveAll env t path of err \<Rightarrow> (err, t @ [EvRemoveAll path err]))"

definition InspectHost :: "env \<Rightarrow> event list \<Rightarrow> (facts \<times> error option) \<times> event list" where
  "InspectHost env t =
     (case utils_InspectHost env t of (m, err) \<Rightarrow> ((m, err), t @ [EvInspectHost m err]))"

definition PrepareImage ::
  "env \<Rightarrow> string \<Rightarrow> string \<Rightarrow> string list \<Rightarrow> event list
    \<Rightarrow> (string \<times> error option) \<times> event list" where
  "PrepareImage env img pullPolicy pullArgs t =
     (case podman_PrepareImage env t img pullPolicy pullArgs of
        (prepared, err) \<Rightarrow>
          ((prepared, err), t @ [EvPrepareImage img pullPolicy pullArgs prepared err]))"

definition GenerateInspectContainerScript ::
  "env \<Rightarrow> string \<Rightarrow> event list \<Rightarrow> error option \<times> event list" where
  "GenerateInspectContainerScript env scriptDir t =
     (case utils_GenerateInspectContainerScript env t scriptDir of
        err \<Rightarrow> (err, t @ [EvGenerateInspectContainerScript scriptDir err]))"

definition RunContainer ::
  "env \<Rightarrow> string \<Rightarrow> string \<Rightarrow> string list \<Rightarrow> string list \<Rightarrow> event list
    \<Rightarrow> error option \<times> event list" where
  "RunContainer env name img extraArgs cmd t =
     (case podman_RunContainer env t name img extraArgs cmd of
        err \<Rightarrow> (err, t @ [EvRunContainer name img extraArgs cmd err]))"

definition ReadInspectData ::
  "env \<Rightarrow> string \<Rightarrow> event list \<Rightarrow> (facts \<times> error option) \<times> event list" where
  "ReadInspectData env scriptDir t =
     (case utils_ReadInspectData env t scriptDir of
        (m, err) \<Rightarrow> ((m, err), t @ [EvReadInspectData scriptDir m err]))"

definition SanityCheck ::
  "env \<Rightarrow> Connection \<Rightarrow> facts \<Rightarrow> string \<Rightarrow> event list \<Rightarrow> error option \<times> event list" where
  "SanityCheck env cnx inspectedValues serverImage t =
     (case adm_utils_SanityCheck env t cnx inspectedValues serverImage of
        err \<Rightarrow> (err, t @ [EvSanityCheck cnx inspectedValues serverImage err]))"

definition StopService :: "env \<Rightarrow> string \<Rightarrow> event list \<Rightarrow> error option \<times> event list" where
  "StopService env service t =
     (case podman_StopService env t service of err \<Rightarrow> (err, t @ [EvStopService service err]))"

definition StartService :: "env \<Rightarrow> string \<Rightarrow> event list \<Rightarrow> error option \<times> event list" where
  "StartService env service t =
     (case podman_StartService env t service of err \<Rightarrow> (err, t @ [EvStartService service err]))"

definition GeneratePgsqlVersionUpgradeScript ::
  "env \<Rightarrow> string \<Rightarrow> string \<Rightarrow> string \<Rightarrow> bool \<Rightarrow> event list
    \<Rightarrow> (string \<times> error option) \<times> event list" where
  "GeneratePgsqlVersionUpgradeScript env scriptDir oldPgsql newPgsql flag t =
     (case adm_utils_GeneratePgsqlVersionUpgradeScript env t scriptDir oldPgsql newPgsql flag of
        (name, err) \<Rightarrow>
          ((name, err),
           t @ [EvGeneratePgsqlVersionUpgradeScript scriptDir oldPgsql newPgsql flag name err]))"

definition GenerateFinalizePostgresScript ::
  "env \<Rightarrow> string \<Rightarrow> bool \<Rightarrow> bool \<Rightarrow> bool \<Rightarrow> bool \<Rightarrow> bool \<Rightarrow> event list
    \<Rightarrow> (string \<times> error option) \<times> event list" where
  "GenerateFinalizePostgresScript env scriptDir flag1 flag2 flag3 flag4 flag5 t =
     (case adm_utils_GenerateFinalizePostgresScript env t scriptDir flag1 flag2 flag3 flag4 flag5 of
        (name, err) \<Rightarrow>
          ((name, err),
           t @ [EvGenerateFinalizePostgresScript scriptDir flag1 flag2 flag3 flag4 flag5 name err]))"

definition GeneratePostUpgradeScript ::
  "env \<Rightarrow> string \<Rightarrow> string \<Rightarrow> event list \<Rightarrow> (string \<times> error option) \<times> event list" where
  "GeneratePostUpgradeScript env scriptDir hostName t =
     (case adm_utils_GeneratePostUpgradeScript env t scriptDir hostName of
        (name, err) \<Rightarrow>
          ((name, err), t @ [EvGeneratePostUpgradeScript scriptDir hostName name err]))"

definition GenerateSystemdConfFile ::
  "env \<Rightarrow> string \<Rightarrow> string \<Rightarrow> string \<Rightarrow> event list \<Rightarrow> error option \<times> event list" where
  "GenerateSystemdConfFile env serviceName sectionName content t =
     (case podman_GenerateSystemdConfFile env t serviceName sectionName content of
        err \<Rightarrow> (err, t @ [EvGenerateSystemdConfFile serviceName sectionName content err]))"

definition ReloadDaemon :: "env \<Rightarrow> bool \<Rightarrow> event list \<Rightarrow> error option \<times> event list" where
  "ReloadDaemon env flag t =
     (case podman_ReloadDaemon env t flag of err \<Rightarrow> (err, t @ [EvReloadDaemon flag err]))"

definition GenerateMigrationScript ::
  "env \<Rightarrow> string \<Rightarrow> string \<Rightarrow> bool \<Rightarrow> event list \<Rightarrow> (string \<times> error option) \<times> event list" where
  "GenerateMigrationScript env sourceFqdn user flag t =
     (case adm_utils_GenerateMigrationScript env t sourceFqdn user flag of
        (d, err) \<Rightarrow>
          ((d, err), t @ [EvGenerateMigrationScript sourceFqdn user flag d err]))"

definition ReadContainerData ::
  "env \<Rightarrow> string \<Rightarrow> event list
    \<Rightarrow> (string \<times> string \<times> string \<times> error option) \<times> event list" where
  "ReadContainerData env scriptDir t =
     (case adm_utils_ReadContainerData env t scriptDir of
        (tz, oldPg, newPg, err) \<Rightarrow>
          ((tz, oldPg, newPg, err), t @ [EvReadContainerData scriptDir tz oldPg newPg err]))"

section \<open>Inspection\<close>

text \<open>
  The registry credentials passed to the image pull. The same four lines stand in
  \<^verbatim>\<open>Inspect\<close>, \<^verbatim>\<open>RunPgsqlVersionUpgrade\<close> and \<^verbatim>\<open>RunMigration\<close>:
  \<^verbatim>\<open>--creds user:password\<close> when the host values hold both keys, nothing otherwise.
\<close>

definition sccPullArgs :: "facts \<Rightarrow> string list" where
  "sccPullArgs inspectedHostValues =
     (if has_key inspectedHostValues ''host_scc_username''
         \<and> has_key inspectedHostValues ''host_scc_password''
      then [''--creds'',
            getv inspectedHostValues ''host_scc_username'' @ '':''
              @ getv inspectedHostValues ''host_scc_password'']
      else [])"

text \<open>
  \<^verbatim>\<open>Inspect\<close> returns a pair, the mapping and the error, as the Go function does.
  \<open>Inspect_body\<close> is the function body after \<^verbatim>\<open>defer os.RemoveAll(scriptDir)\<close>;
  the deferred call runs when the body has returned, on every path, and its own
  result is dropped.
\<close>

definition Inspect_body ::
  "env \<Rightarrow> string \<Rightarrow> string \<Rightarrow> string \<Rightarrow> error option \<Rightarrow> event list
    \<Rightarrow> (facts \<times> error option) \<times> event list" where
  "Inspect_body env serverImage pullPolicy scriptDir err t =
     (case err of
        Some e \<Rightarrow> (([], Some (''failed to create temporary directory '' @ e)), t)
      | None \<Rightarrow>
     (case InspectHost env t of
        ((inspectedHostValues, Some e), t1) \<Rightarrow>
          (([], Some (''cannot inspect host values: '' @ e)), t1)
      | ((inspectedHostValues, None), t1) \<Rightarrow>
     (case PrepareImage env serverImage pullPolicy (sccPullArgs inspectedHostValues) t1 of
        ((preparedImage, Some e), t2) \<Rightarrow> (([], Some e), t2)
      | ((preparedImage, None), t2) \<Rightarrow>
     (case GenerateInspectContainerScript env scriptDir t2 of
        (Some e, t3) \<Rightarrow> (([], Some e), t3)
      | (None, t3) \<Rightarrow>
     (case RunContainer env ''uyuni-inspect'' preparedImage
             [''-v'', scriptDir @ '':'' @ InspectOutputFile_Directory env,
              ''--security-opt'', ''label:disable'']
             [InspectOutputFile_Directory env @ ''/'' @ InspectScriptFilename env] t3 of
        (Some e, t4) \<Rightarrow> (([], Some e), t4)
      | (None, t4) \<Rightarrow>
     (case ReadInspectData env scriptDir t4 of
        ((inspectResult, Some e), t5) \<Rightarrow> (([], Some (''cannot inspect data. '' @ e)), t5)
      | ((inspectResult, None), t5) \<Rightarrow> ((inspectResult, None), t5)))))))"

definition Inspect ::
  "env \<Rightarrow> string \<Rightarrow> string \<Rightarrow> event list \<Rightarrow> (facts \<times> error option) \<times> event list" where
  "Inspect env serverImage pullPolicy t =
     (case MkdirTemp env [] ''mgradm-*'' t of
        ((scriptDir, err), t1) \<Rightarrow>
     (case Inspect_body env serverImage pullPolicy scriptDir err t1 of
        (r, t2) \<Rightarrow> (r, snd (RemoveAll env scriptDir t2))))"

section \<open>The helper-container steps of an upgrade\<close>

text \<open>
  \<^verbatim>\<open>RunPgsqlVersionUpgrade\<close>. The body after \<^verbatim>\<open>defer os.RemoveAll(scriptDir)\<close>
  comes first, then the function with its deferred call.
\<close>

definition RunPgsqlVersionUpgrade_body ::
  "env \<Rightarrow> ImageFlags \<Rightarrow> ImageFlags \<Rightarrow> string \<Rightarrow> string \<Rightarrow> string \<Rightarrow> error option
    \<Rightarrow> event list \<Rightarrow> error option \<times> event list" where
  "RunPgsqlVersionUpgrade_body env img migrationImage oldPgsql newPgsql scriptDir err t =
     (case err of
        Some e \<Rightarrow> (Some (''failed to create temporary directory: '' @ e), t)
      | None \<Rightarrow>
     (if newPgsql > oldPgsql then
     (case (if Name migrationImage = []
            then utils_ComputeImage env (Name img) (Tag img)
                   [''-migration-'' @ oldPgsql @ ''-'' @ newPgsql]
            else utils_ComputeImage env (Name migrationImage) (Tag img) []) of
        (migrationImageUrl, Some e) \<Rightarrow> (Some (''failed to compute image URL: '' @ e), t)
      | (migrationImageUrl, None) \<Rightarrow>
     (case InspectHost env t of
        ((inspectedHostValues, Some e), t1) \<Rightarrow>
          (Some (''cannot inspect host values: '' @ e), t1)
      | ((inspectedHostValues, None), t1) \<Rightarrow>
     (case PrepareImage env migrationImageUrl (PullPolicy img)
             (sccPullArgs inspectedHostValues) t1 of
        ((preparedImage, Some e), t2) \<Rightarrow> (Some e, t2)
      | ((preparedImage, None), t2) \<Rightarrow>
     (case GeneratePgsqlVersionUpgradeScript env scriptDir oldPgsql newPgsql False t2 of
        ((pgsqlVersionUpgradeScriptName, Some e), t3) \<Rightarrow>
          (Some (''cannot generate PostgreSQL database version upgrade script '' @ e), t3)
      | ((pgsqlVersionUpgradeScriptName, None), t3) \<Rightarrow>
     (case RunContainer env ''uyuni-upgrade-pgsql'' preparedImage
             [''-v'', scriptDir @ '':/var/lib/uyuni-tools/'',
              ''--security-opt'', ''label:disable'']
             [''/var/lib/uyuni-tools/'' @ pgsqlVersionUpgradeScriptName] t3 of
        (Some e, t4) \<Rightarrow> (Some e, t4)
      | (None, t4) \<Rightarrow> (None, t4))))))
      else (None, t)))"

definition RunPgsqlVersionUpgrade ::
  "env \<Rightarrow> ImageFlags \<Rightarrow> ImageFlags \<Rightarrow> string \<Rightarrow> string \<Rightarrow> event list
    \<Rightarrow> error option \<times> event list" where
  "RunPgsqlVersionUpgrade env img migrationImage oldPgsql newPgsql t =
     (case MkdirTemp env [] ''mgradm-*'' t of
        ((scriptDir, err), t1) \<Rightarrow>
     (case RunPgsqlVersionUpgrade_body env img migrationImage oldPgsql newPgsql scriptDir err t1 of
        (r, t2) \<Rightarrow> (r, snd (RemoveAll env scriptDir t2))))"

text \<open>\<^verbatim>\<open>RunPgsqlFinalizeScript\<close>.\<close>

definition RunPgsqlFinalizeScript_body ::
  "env \<Rightarrow> string \<Rightarrow> bool \<Rightarrow> string \<Rightarrow> error option \<Rightarrow> event list
    \<Rightarrow> error option \<times> event list" where
  "RunPgsqlFinalizeScript_body env serverImage schemaUpdateRequired scriptDir err t =
     (case err of
        Some e \<Rightarrow> (Some (''failed to create temporary directory: '' @ e), t)
      | None \<Rightarrow>
     (case GenerateFinalizePostgresScript env scriptDir True schemaUpdateRequired True True False t of
        ((pgsqlFinalizeScriptName, Some e), t1) \<Rightarrow>
          (Some (''cannot generate PostgreSQL finalization script: '' @ e), t1)
      | ((pgsqlFinalizeScriptName, None), t1) \<Rightarrow>
     (case RunContainer env ''uyuni-finalize-pgsql'' serverImage
             [''-v'', scriptDir @ '':/var/lib/uyuni-tools/'',
              ''--security-opt'', ''label:disable'']
             [''/var/lib/uyuni-tools/'' @ pgsqlFinalizeScriptName] t1 of
        (Some e, t2) \<Rightarrow> (Some e, t2)
      | (None, t2) \<Rightarrow> (None, t2))))"

definition RunPgsqlFinalizeScript ::
  "env \<Rightarrow> string \<Rightarrow> bool \<Rightarrow> event list \<Rightarrow> error option \<times> event list" where
  "RunPgsqlFinalizeScript env serverImage schemaUpdateRequired t =
     (case MkdirTemp env [] ''mgradm-*'' t of
        ((scriptDir, err), t1) \<Rightarrow>
     (case RunPgsqlFinalizeScript_body env serverImage schemaUpdateRequired scriptDir err t1 of
        (r, t2) \<Rightarrow> (r, snd (RemoveAll env scriptDir t2))))"

text \<open>\<^verbatim>\<open>RunPostUpgradeScript\<close>.\<close>

definition RunPostUpgradeScript_body ::
  "env \<Rightarrow> string \<Rightarrow> string \<Rightarrow> error option \<Rightarrow> event list \<Rightarrow> error option \<times> event list" where
  "RunPostUpgradeScript_body env serverImage scriptDir err t =
     (case err of
        Some e \<Rightarrow> (Some (''failed to create temporary directory: '' @ e), t)
      | None \<Rightarrow>
     (case GeneratePostUpgradeScript env scriptDir ''localhost'' t of
        ((postUpgradeScriptName, Some e), t1) \<Rightarrow>
          (Some (''cannot generate PostgreSQL finalization script: '' @ e), t1)
      | ((postUpgradeScriptName, None), t1) \<Rightarrow>
     (case RunContainer env ''uyuni-post-upgrade'' serverImage
             [''-v'', scriptDir @ '':/var/lib/uyuni-tools/'',
              ''--security-opt'', ''label:disable'']
             [''/var/lib/uyuni-tools/'' @ postUpgradeScriptName] t1 of
        (Some e, t2) \<Rightarrow> (Some e, t2)
      | (None, t2) \<Rightarrow> (None, t2))))"

definition RunPostUpgradeScript ::
  "env \<Rightarrow> string \<Rightarrow> event list \<Rightarrow> error option \<times> event list" where
  "RunPostUpgradeScript env serverImage t =
     (case MkdirTemp env [] ''mgradm-*'' t of
        ((scriptDir, err), t1) \<Rightarrow>
     (case RunPostUpgradeScript_body env serverImage scriptDir err t1 of
        (r, t2) \<Rightarrow> (r, snd (RemoveAll env scriptDir t2))))"

section \<open>Remote migration\<close>

text \<open>
  \<^verbatim>\<open>RunMigration\<close> gets its script directory from
  \<^verbatim>\<open>adm_utils.GenerateMigrationScript\<close> and returns at once when that fails; the
  removal of the directory is deferred only after that check.
\<close>

definition RunMigration_body ::
  "env \<Rightarrow> string \<Rightarrow> string \<Rightarrow> string \<Rightarrow> string \<Rightarrow> string \<Rightarrow> string \<Rightarrow> event list
    \<Rightarrow> (string \<times> string \<times> string \<times> error option) \<times> event list" where
  "RunMigration_body env serverImage pullPolicy sshAuthSocket sshConfigPath sshKnownhostsPath
      scriptDir t =
     (case InspectHost env t of
        ((inspectedHostValues, Some e), t1) \<Rightarrow>
          (([], [], [], Some (''cannot inspect host values: '' @ e)), t1)
      | ((inspectedHostValues, None), t1) \<Rightarrow>
     (case PrepareImage env serverImage pullPolicy (sccPullArgs inspectedHostValues) t1 of
        ((preparedImage, Some e), t2) \<Rightarrow> (([], [], [], Some e), t2)
      | ((preparedImage, None), t2) \<Rightarrow>
     (case RunContainer env ''uyuni-migration'' preparedImage
             ([''--security-opt'', ''label:disable'',
               ''-e'', ''SSH_AUTH_SOCK'',
               ''-v'', filepath_Dir env sshAuthSocket @ '':'' @ filepath_Dir env sshAuthSocket,
               ''-v'', scriptDir @ '':/var/lib/uyuni-tools/'']
              @ (if sshConfigPath \<noteq> [] then [''-v'', sshConfigPath @ '':/tmp/ssh_config''] else [])
              @ (if sshKnownhostsPath \<noteq> []
                 then [''-v'', sshKnownhostsPath @ '':/etc/ssh/ssh_known_hosts''] else []))
             [''/var/lib/uyuni-tools/migrate.sh''] t2 of
        (Some e, t3) \<Rightarrow> (([], [], [], Some (''cannot run uyuni migration container: '' @ e)), t3)
      | (None, t3) \<Rightarrow>
     (case ReadContainerData env scriptDir t3 of
        ((tz, oldPgVersion, newPgVersion, Some e), t4) \<Rightarrow>
          (([], [], [], Some (''cannot read extracted data: '' @ e)), t4)
      | ((tz, oldPgVersion, newPgVersion, None), t4) \<Rightarrow>
          ((tz, oldPgVersion, newPgVersion, None), t4)))))"

definition RunMigration ::
  "env \<Rightarrow> string \<Rightarrow> string \<Rightarrow> string \<Rightarrow> string \<Rightarrow> string \<Rightarrow> string \<Rightarrow> string \<Rightarrow> event list
    \<Rightarrow> (string \<times> string \<times> string \<times> error option) \<times> event list" where
  "RunMigration env serverImage pullPolicy sshAuthSocket sshConfigPath sshKnownhostsPath
      sourceFqdn user t =
     (case GenerateMigrationScript env sourceFqdn user False t of
        ((scriptDir, Some e), t1) \<Rightarrow>
          (([], [], [], Some (''cannot generate migration script: '' @ e)), t1)
      | ((scriptDir, None), t1) \<Rightarrow>
     (case RunMigration_body env serverImage pullPolicy sshAuthSocket sshConfigPath
             sshKnownhostsPath scriptDir t1 of
        (r, t2) \<Rightarrow> (r, snd (RemoveAll env scriptDir t2))))"

section \<open>Upgrade\<close>

text \<open>
  \<open>Upgrade_stopped\<close> is the body of \<^verbatim>\<open>Upgrade\<close> after the statement
  \<^verbatim>\<open>defer func() { err = podman.StartService(podman.ServerService) }()\<close>.
  The first \<^verbatim>\<open>if\<close> chain either returns an error or falls through to the finalize
  step; the model computes that outcome first and continues on \<open>None\<close>.
\<close>

definition Upgrade_stopped ::
  "env \<Rightarrow> ImageFlags \<Rightarrow> ImageFlags \<Rightarrow> string \<Rightarrow> facts \<Rightarrow> event list
    \<Rightarrow> error option \<times> event list" where
  "Upgrade_stopped env img migrationImage serverImage inspectedValues t =
     (case (if getv inspectedValues ''image_pg_version''
                 > getv inspectedValues ''current_pg_version''
            then (case RunPgsqlVersionUpgrade env img migrationImage
                         (getv inspectedValues ''current_pg_version'')
                         (getv inspectedValues ''image_pg_version'') t of
                    (Some e, t1) \<Rightarrow>
                      (Some (''cannot run PostgreSQL version upgrade script: '' @ e), t1)
                  | (None, t1) \<Rightarrow> (None, t1))
            else if getv inspectedValues ''image_pg_version''
                      = getv inspectedValues ''current_pg_version''
            then (None, t)
            else (Some (''trying to downgrade postgresql from ''
                          @ getv inspectedValues ''current_pg_version'' @ '' to ''
                          @ getv inspectedValues ''image_pg_version''), t)) of
        (Some e, t1) \<Rightarrow> (Some e, t1)
      | (None, t1) \<Rightarrow>
     (case RunPgsqlFinalizeScript env serverImage
             (getv inspectedValues ''current_pg_version''
                \<noteq> getv inspectedValues ''image_pg_version'') t1 of
        (Some e, t2) \<Rightarrow> (Some (''cannot run PostgreSQL version upgrade script: '' @ e), t2)
      | (None, t2) \<Rightarrow>
     (case RunPostUpgradeScript env serverImage t2 of
        (Some e, t3) \<Rightarrow> (Some (''cannot run post upgrade script: '' @ e), t3)
      | (None, t3) \<Rightarrow>
     (case GenerateSystemdConfFile env ''uyuni-server'' ''Service''
             (''Environment=UYUNI_IMAGE='' @ serverImage) t3 of
        (Some e, t4) \<Rightarrow> (Some e, t4)
      | (None, t4) \<Rightarrow> ReloadDaemon env False t4))))"

text \<open>
  \<^verbatim>\<open>Upgrade\<close>. Its result is declared as the unnamed \<^verbatim>\<open>error\<close>, so a
  \<^verbatim>\<open>return x\<close> fixes the value handed to the caller before the deferred function
  runs. The deferred function stores what \<^verbatim>\<open>StartService\<close> returned in the local
  variable \<^verbatim>\<open>err\<close>, which nothing reads afterwards: the call is made, its result
  does not reach the caller. The parameter \<^verbatim>\<open>args\<close> is not used by the Go code.
\<close>

definition Upgrade ::
  "env \<Rightarrow> ImageFlags \<Rightarrow> ImageFlags \<Rightarrow> string list \<Rightarrow> event list
    \<Rightarrow> error option \<times> event list" where
  "Upgrade env img migrationImage args t =
     (case utils_ComputeImage env (Name img) (Tag img) [] of
        (serverImage, Some e) \<Rightarrow> (Some ''failed to compute image URL'', t)
      | (serverImage, None) \<Rightarrow>
     (case Inspect env serverImage (PullPolicy img) t of
        ((inspectedValues, Some e), t1) \<Rightarrow>
          (Some (''cannot inspect podman values: '' @ e), t1)
      | ((inspectedValues, None), t1) \<Rightarrow>
     (case SanityCheck env (NewConnection ''podman'' (ServerContainerName env) [])
             inspectedValues serverImage t1 of
        (Some e, t2) \<Rightarrow> (Some e, t2)
      | (None, t2) \<Rightarrow>
     (case StopService env (ServerService env) t2 of
        (Some e, t3) \<Rightarrow> (Some (''cannot stop service '' @ e), t3)
      | (None, t3) \<Rightarrow>
     (case Upgrade_stopped env img migrationImage serverImage inspectedValues t3 of
        (r, t4) \<Rightarrow>
     (case StartService env (ServerService env) t4 of
        (err, t5) \<Rightarrow> (r, t5)))))))"

section \<open>Starting a pod\<close>

text \<open>
  \<^verbatim>\<open>Start\<close> of the kubernetes package. \<^verbatim>\<open>GetNode\<close> and \<^verbatim>\<open>ReplicasTo\<close> run
  \<^verbatim>\<open>kubectl\<close>; they are parameters acting on a cluster state of any type \<open>'w\<close>.
\<close>

record 'w kube =
  GetNode :: "string \<Rightarrow> 'w \<Rightarrow> (string \<times> error option) \<times> 'w"
  ReplicasTo :: "string \<Rightarrow> nat \<Rightarrow> 'w \<Rightarrow> error option \<times> 'w"

definition Start :: "'w kube \<Rightarrow> string \<Rightarrow> 'w \<Rightarrow> error option \<times> 'w" where
  "Start k podFilter w =
     (case GetNode k podFilter w of
        ((node, Some e), w1) \<Rightarrow> ReplicasTo k podFilter 1 w1
      | ((node, None), w1) \<Rightarrow> (None, w1))"

definition Stop :: "'w kube \<Rightarrow> string \<Rightarrow> 'w \<Rightarrow> error option \<times> 'w" where
  "Stop k podFilter w = ReplicasTo k podFilter 0 w"

definition Restart :: "'w kube \<Rightarrow> string \<Rightarrow> 'w \<Rightarrow> error option \<times> 'w" where
  "Restart k podFilter w =
     (case Stop k podFilter w of
        (Some e, w1) \<Rightarrow> (Some (''cannot stop '' @ podFilter @ '': '' @ e), w1)
      | (None, w1) \<Rightarrow> Start k podFilter w1)"

section \<open>Image names\<close>

text \<open>
  Modelled from the spec: \<^verbatim>\<open>utils.ComputeImage\<close> is not among the sources, only its
  test \<^verbatim>\<open>TestComputeImage\<close> is. The spec addresses an image as
  \<^verbatim>\<open>registry/repository:tag\<close>, with the suffix of a migration image inserted before
  the tag, the registry host lower-cased and the rest case-preserved. The table of the
  test adds that a tag written in the name wins over the tag argument, that a registry
  may carry a port, and that a name with too many colons is an error. Case folding is
  ASCII only.
\<close>

definition toLower :: "char \<Rightarrow> char" where
  "toLower c =
     (case map_of (zip ''ABCDEFGHIJKLMNOPQRSTUVWXYZ'' ''abcdefghijklmnopqrstuvwxyz'') c of
        Some l \<Rightarrow> l
      | None \<Rightarrow> c)"

definition splitAt :: "char \<Rightarrow> string \<Rightarrow> string \<times> string option" where
  "splitAt c s =
     (if c \<in> set s
      then (takeWhile (\<lambda>x. x \<noteq> c) s, Some (tl (dropWhile (\<lambda>x. x \<noteq> c) s)))
      else (s, None))"

definition isDigit :: "char \<Rightarrow> bool" where
  "isDigit c = (CHR ''0'' \<le> c \<and> c \<le> CHR ''9'')"

definition validRegistry :: "string \<Rightarrow> bool" where
  "validRegistry r =
     (case splitAt CHR '':'' r of
        (host, None) \<Rightarrow> host \<noteq> []
      | (host, Some port) \<Rightarrow> host \<noteq> [] \<and> port \<noteq> [] \<and> list_all isDigit port)"

definition assembleImage ::
  "string \<Rightarrow> string \<Rightarrow> string \<Rightarrow> string \<Rightarrow> string list \<Rightarrow> string \<times> error option" where
  "assembleImage name registry rest tag appendToName =
     (case splitAt CHR '':'' rest of
        (repo, None) \<Rightarrow>
          (if repo = [] then ([], Some (''invalid image name: '' @ name))
           else if tag = [] then (name, Some (''tag missing on '' @ name))
           else (registry @ repo @ concat appendToName @ '':'' @ tag, None))
      | (repo, Some nameTag) \<Rightarrow>
          (if repo = [] \<or> nameTag = [] \<or> CHR '':'' \<in> set nameTag
           then ([], Some (''invalid image name: '' @ name))
           else (registry @ repo @ concat appendToName @ '':'' @ nameTag, None)))"

definition ComputeImage :: "string \<Rightarrow> string \<Rightarrow> string list \<Rightarrow> string \<times> error option" where
  "ComputeImage name tag appendToName =
     (case splitAt CHR ''/'' name of
        (first, Some rest) \<Rightarrow>
          (if validRegistry first
           then assembleImage name (map toLower first @ ''/'') rest tag appendToName
           else assembleImage name [] name tag appendToName)
      | (first, None) \<Rightarrow> assembleImage name [] name tag appendToName)"

section \<open>Version numbers\<close>

text \<open>
  The spec speaks of comparing the database versions as numbers. \<open>decimal\<close> is the
  number a string of decimal digits denotes; \<open>all_digits\<close> says that a string is one.
  The code itself never converts a version: it compares the strings.
\<close>

definition digit_value :: "char \<Rightarrow> nat" where
  "digit_value c = of_char c - of_char CHR ''0''"

definition all_digits :: "string \<Rightarrow> bool" where
  "all_digits s = list_all isDigit s"

definition decimal :: "string \<Rightarrow> nat" where
  "decimal s = foldl (\<lambda>n c. 10 * n + digit_value c) 0 s"

section \<open>Paths\<close>

text \<open>
  \<^verbatim>\<open>filepath.Dir\<close> belongs to the standard library, which is not among the sources; the
  host carries it as a field. For the example host, its behaviour on a Unix host:
  \<^verbatim>\<open>Dir\<close> drops the last element of a path and cleans the rest. \<^verbatim>\<open>Clean\<close> drops empty
  elements and \<^verbatim>\<open>.\<close>, lets an element \<^verbatim>\<open>..\<close> cancel the element before it (at the root
  it is dropped, at the start of a relative path it stays), and gives \<^verbatim>\<open>.\<close> for an empty
  result.
\<close>

fun path_elements :: "string \<Rightarrow> string \<Rightarrow> string list" where
  "path_elements acc [] = [rev acc]"
| "path_elements acc (c # cs) =
     (if c = CHR ''/'' then rev acc # path_elements [] cs else path_elements (c # acc) cs)"

fun clean_elements :: "bool \<Rightarrow> string list \<Rightarrow> string list \<Rightarrow> string list" where
  "clean_elements rooted out [] = rev out"
| "clean_elements rooted out (e # es) =
     (if e = [] \<or> e = ''.'' then clean_elements rooted out es
      else if e = ''..'' then
        (case out of
           [] \<Rightarrow> clean_elements rooted (if rooted then [] else [''..'']) es
         | prev # rest \<Rightarrow>
             clean_elements rooted (if prev = ''..'' then ''..'' # out else rest) es)
      else clean_elements rooted (e # out) es)"

fun join_elements :: "string list \<Rightarrow> string" where
  "join_elements [] = []"
| "join_elements [e] = e"
| "join_elements (e # es) = e @ ''/'' @ join_elements es"

definition Clean :: "string \<Rightarrow> string" where
  "Clean path =
     (case path of
        [] \<Rightarrow> ''.''
      | c # cs \<Rightarrow>
          (if c = CHR ''/''
           then CHR ''/'' # join_elements (clean_elements True [] (path_elements [] path))
           else (case join_elements (clean_elements False [] (path_elements [] path)) of
                   [] \<Rightarrow> ''.''
                 | out \<Rightarrow> out)))"

definition Dir :: "string \<Rightarrow> string" where
  "Dir path = Clean (rev (dropWhile (\<lambda>c. c \<noteq> CHR ''/'') (rev path)))"

section \<open>An example host\<close>

text \<open>
  A host on which every call succeeds, for running the functions on concrete inputs:
  the inspection reports the given values, temporary directories are numbered by the
  length of the trace, image names follow \<open>ComputeImage\<close>.
\<close>

definition example_host :: "facts \<Rightarrow> env" where
  "example_host inspected =
     \<lparr> ServerService = ''uyuni-server'',
       ServerContainerName = ''uyuni-server'',
       InspectOutputFile_Directory = ''/var/lib/uyuni-tools'',
       InspectScriptFilename = ''inspect.sh'',
       utils_ComputeImage = ComputeImage,
       filepath_Dir = Dir,
       os_MkdirTemp = (\<lambda>t dir pattern. (''/tmp/mgradm-'' @ replicate (length t) CHR ''x'', None)),
       os_RemoveAll = (\<lambda>t path. None),
       utils_InspectHost = (\<lambda>t. ([], None)),
       podman_PrepareImage = (\<lambda>t img pullPolicy pullArgs. (img, None)),
       utils_GenerateInspectContainerScript = (\<lambda>t scriptDir. None),
       podman_RunContainer = (\<lambda>t name img extraArgs cmd. None),
       utils_ReadInspectData = (\<lambda>t scriptDir. (inspected, None)),
       adm_utils_SanityCheck = (\<lambda>t cnx inspectedValues serverImage. None),
       podman_StopService = (\<lambda>t service. None),
       podman_StartService = (\<lambda>t service. None),
       adm_utils_GeneratePgsqlVersionUpgradeScript =
         (\<lambda>t scriptDir oldPgsql newPgsql flag. (''pgsqlVersionUpgrade.sh'', None)),
       adm_utils_GenerateFinalizePostgresScript =
         (\<lambda>t scriptDir flag1 flag2 flag3 flag4 flag5. (''pgsqlFinalize.sh'', None)),
       adm_utils_GeneratePostUpgradeScript = (\<lambda>t scriptDir hostName. (''postUpgrade.sh'', None)),
       podman_GenerateSystemdConfFile = (\<lambda>t serviceName sectionName content. None),
       podman_ReloadDaemon = (\<lambda>t flag. None),
       adm_utils_GenerateMigrationScript =
         (\<lambda>t sourceFqdn user flag.
            (''/tmp/mgradm-'' @ replicate (length t) CHR ''x'', None)),
       adm_utils_ReadContainerData = (\<lambda>t scriptDir. (''Europe/Berlin'', ''14'', ''16'', None)) \<rparr>"

definition example_image :: ImageFlags where
  "example_image =
     \<lparr> Name = ''registry.opensuse.org/uyuni/server'', Tag = ''latest'', PullPolicy = ''missing'' \<rparr>"

definition no_image :: ImageFlags where
  "no_image = \<lparr> Name = [], Tag = [], PullPolicy = [] \<rparr>"

section \<open>Example hosts with a failure\<close>

text \<open>
  Variants of the example host on which one call fails, the values an inspection can
  report, and a cluster whose state is its number of replicas.
\<close>

definition failing_container_host :: "string \<Rightarrow> facts \<Rightarrow> env" where
  "failing_container_host container inspected =
     (example_host inspected)
       \<lparr> podman_RunContainer :=
           (\<lambda>t name img extraArgs cmd. if name = container then Some ''exit status 1'' else None) \<rparr>"

definition upgrade_facts :: facts where
  "upgrade_facts = [(''current_pg_version'', ''14''), (''image_pg_version'', ''16'')]"

definition partial_read_host :: env where
  "partial_read_host =
     (example_host [])
       \<lparr> utils_ReadInspectData :=
           (\<lambda>t scriptDir. ([(''uyuni_release'', ''2024.07'')], Some ''invalid line: current_pg_version'')) \<rparr>"

definition downgrade_facts :: facts where
  "downgrade_facts = [(''current_pg_version'', ''16''), (''image_pg_version'', ''14'')]"

definition same_version_facts :: facts where
  "same_version_facts =
     [(''uyuni_release'', ''2024.07''), (''current_pg_version'', ''16''), (''image_pg_version'', ''16'')]"

definition single_digit_facts :: facts where
  "single_digit_facts = [(''current_pg_version'', ''9''), (''image_pg_version'', ''10'')]"

definition failing_start_host :: "facts \<Rightarrow> env" where
  "failing_start_host inspected =
     (example_host inspected)
       \<lparr> podman_StartService := (\<lambda>t service. Some ''failed to start uyuni-server.service'') \<rparr>"

definition failing_container_and_start_host :: "string \<Rightarrow> facts \<Rightarrow> env" where
  "failing_container_and_start_host container inspected =
     (failing_container_host container inspected)
       \<lparr> podman_StartService := (\<lambda>t service. Some ''failed to start uyuni-server.service'') \<rparr>"

definition failing_mkdir_host :: env where
  "failing_mkdir_host =
     (example_host [])
       \<lparr> os_MkdirTemp := (\<lambda>t dir pattern. ([], Some ''no space left on device'')) \<rparr>"

text \<open>
  A host whose registry does not hold the given image, and a host that runs out of
  space for temporary directories once the given helper container has run.
\<close>

definition failing_pull_host :: "string \<Rightarrow> facts \<Rightarrow> env" where
  "failing_pull_host missing inspected =
     (example_host inspected)
       \<lparr> podman_PrepareImage :=
           (\<lambda>t img pullPolicy pullArgs.
              if img = missing then ([], Some ''manifest unknown'') else (img, None)) \<rparr>"

fun ran_container :: "string \<Rightarrow> event \<Rightarrow> bool" where
  "ran_container container (EvRunContainer n i extra cmd e) = (n = container)"
| "ran_container container ev = False"

definition failing_mkdir_after_host :: "string \<Rightarrow> facts \<Rightarrow> env" where
  "failing_mkdir_after_host container inspected =
     (example_host inspected)
       \<lparr> os_MkdirTemp :=
           (\<lambda>t dir pattern.
              if list_ex (ran_container container) t then ([], Some ''no space left on device'')
              else (''/tmp/mgradm-'' @ replicate (length t) CHR ''x'', None)) \<rparr>"

text \<open>
  A host whose deployed server has the given release: the sanity check, which reads
  the release in the running container, refuses an image of a lower release.
\<close>

definition deployed_release_host :: "string \<Rightarrow> facts \<Rightarrow> env" where
  "deployed_release_host deployed inspected =
     (example_host inspected)
       \<lparr> adm_utils_SanityCheck :=
           (\<lambda>t cnx inspectedValues serverImage.
              if getv inspectedValues ''uyuni_release'' < deployed
              then Some (''cannot downgrade from '' @ deployed @ '' to ''
                          @ getv inspectedValues ''uyuni_release'')
              else None) \<rparr>"

text \<open>
  A host on which the migration script cannot be written after its directory has been
  made.
\<close>

definition failing_migration_script_host :: env where
  "failing_migration_script_host =
     (example_host [])
       \<lparr> adm_utils_GenerateMigrationScript :=
           (\<lambda>t sourceFqdn user flag. (''/tmp/mgradm-123'', Some ''cannot write migrate.sh'')) \<rparr>"

text \<open>
  Images under a registry path: an override for the migration image and a base image.
\<close>

definition override_image :: ImageFlags where
  "override_image = \<lparr> Name = ''registry/path/migration'', Tag = ''other'', PullPolicy = ''never'' \<rparr>"

definition path_image :: ImageFlags where
  "path_image = \<lparr> Name = ''registry/path/image'', Tag = ''tag'', PullPolicy = ''missing'' \<rparr>"

definition example_kube :: "nat kube" where
  "example_kube =
     \<lparr> GetNode = (\<lambda>podFilter replicas.
          (if 0 < replicas then (''node1'', None) else ([], Some ''cannot find node name''),
           replicas)),
       ReplicasTo = (\<lambda>podFilter replica replicas. (None, replica)) \<rparr>"

section \<open>Events of a run\<close>

text \<open>
  The events a call adds to the trace it starts from.
\<close>

definition events_from :: "event list \<Rightarrow> 'a \<times> event list \<Rightarrow> event list" where
  "events_from t res = drop (length t) (snd res)"

text \<open>
  The image pulls of a trace, in the order of the calls: the image asked for, the pull
  policy and the arguments of each \<^verbatim>\<open>podman.PrepareImage\<close>.
\<close>

fun pulls :: "event list \<Rightarrow> (string \<times> string \<times> string list) list" where
  "pulls [] = []"
| "pulls (EvPrepareImage img pullPolicy pullArgs prepared err # es) =
     (img, pullPolicy, pullArgs) # pulls es"
| "pulls (ev # es) = pulls es"

text \<open>
  What each step does between the creation and the removal of its script directory
  \<open>d\<close>: the events that can occur there, with the arguments they carry, and for a call
  that failed the error the step returns (\<open>r\<close>, or \<open>err\<close> for the inspection).
\<close>

fun inspect_mid :: "env \<Rightarrow> string \<Rightarrow> facts \<Rightarrow> error option \<Rightarrow> event \<Rightarrow> bool" where
  "inspect_mid env d m err (EvInspectHost hv e) = (e = None \<or> err \<noteq> None)"
| "inspect_mid env d m err (EvPrepareImage i pp pa p e) = (e = None \<or> err \<noteq> None)"
| "inspect_mid env d m err (EvGenerateInspectContainerScript d' e) =
     (d' = d \<and> (e = None \<or> err \<noteq> None))"
| "inspect_mid env d m err (EvRunContainer n i extra cmd e) =
     (n = ''uyuni-inspect'' \<and> (e = None \<or> err \<noteq> None)
      \<and> extra = [''-v'', d @ '':'' @ InspectOutputFile_Directory env,
                 ''--security-opt'', ''label:disable''])"
| "inspect_mid env d m err (EvReadInspectData d' m' e) =
     (d' = d \<and> (e = None \<and> err = None \<and> m' = m \<or> e \<noteq> None \<and> err \<noteq> None \<and> m = []))"
| "inspect_mid env d m err ev = False"

fun pgupgrade_mid :: "string \<Rightarrow> string \<Rightarrow> string \<Rightarrow> error option \<Rightarrow> event \<Rightarrow> bool" where
  "pgupgrade_mid d old new r (EvInspectHost hv e) =
     (old < new
      \<and> (case e of None \<Rightarrow> True | Some x \<Rightarrow> r = Some (''cannot inspect host values: '' @ x)))"
| "pgupgrade_mid d old new r (EvPrepareImage i pp pa p e) =
     (old < new \<and> (case e of None \<Rightarrow> True | Some x \<Rightarrow> r = Some x))"
| "pgupgrade_mid d old new r (EvGeneratePgsqlVersionUpgradeScript d' old' new' k n e) =
     (d' = d \<and> old' = old \<and> new' = new \<and> \<not> k \<and> old < new
      \<and> (case e of None \<Rightarrow> True
          | Some x \<Rightarrow>
              r = Some (''cannot generate PostgreSQL database version upgrade script '' @ x)))"
| "pgupgrade_mid d old new r (EvRunContainer n i extra cmd e) =
     (n = ''uyuni-upgrade-pgsql'' \<and> old < new \<and> e = r
      \<and> extra = [''-v'', d @ '':/var/lib/uyuni-tools/'', ''--security-opt'', ''label:disable''])"
| "pgupgrade_mid d old new r ev = False"

fun finalize_mid :: "string \<Rightarrow> string \<Rightarrow> bool \<Rightarrow> error option \<Rightarrow> event \<Rightarrow> bool" where
  "finalize_mid d si b r (EvGenerateFinalizePostgresScript d' a s x y k n e) =
     (d' = d \<and> a \<and> s = b \<and> x \<and> y \<and> \<not> k
      \<and> (case e of None \<Rightarrow> True
          | Some z \<Rightarrow> r = Some (''cannot generate PostgreSQL finalization script: '' @ z)))"
| "finalize_mid d si b r (EvRunContainer n i extra cmd e) =
     (n = ''uyuni-finalize-pgsql'' \<and> i = si \<and> e = r
      \<and> extra = [''-v'', d @ '':/var/lib/uyuni-tools/'', ''--security-opt'', ''label:disable''])"
| "finalize_mid d si b r ev = False"

fun postupgrade_mid :: "string \<Rightarrow> string \<Rightarrow> error option \<Rightarrow> event \<Rightarrow> bool" where
  "postupgrade_mid d si r (EvGeneratePostUpgradeScript d' h n e) =
     (d' = d \<and> h = ''localhost''
      \<and> (case e of None \<Rightarrow> True
          | Some z \<Rightarrow> r = Some (''cannot generate PostgreSQL finalization script: '' @ z)))"
| "postupgrade_mid d si r (EvRunContainer n i extra cmd e) =
     (n = ''uyuni-post-upgrade'' \<and> i = si \<and> e = r
      \<and> extra = [''-v'', d @ '':/var/lib/uyuni-tools/'', ''--security-opt'', ''label:disable''])"
| "postupgrade_mid d si r ev = False"

text \<open>
  The events of \<^verbatim>\<open>Upgrade\<close> after the service has been stopped (\<open>stopped_event\<close>, with
  the current and the image version, the server image and the result of \<^verbatim>\<open>Upgrade\<close>),
  before it (\<open>discovery_event\<close>, with the inspected values), and of a run that ends
  before the service is stopped (\<open>aborted_event\<close>). After the stop a call that failed
  fixes the result of \<^verbatim>\<open>Upgrade\<close>, the removal of a script directory apart, whose
  result the code drops; before the stop every call of a run that goes on has succeeded.
\<close>

fun stopped_event :: "string \<Rightarrow> string \<Rightarrow> string \<Rightarrow> error option \<Rightarrow> event \<Rightarrow> bool" where
  "stopped_event cur new si r (EvMkdirTemp dir pat d e) =
     (case e of None \<Rightarrow> True
      | Some x \<Rightarrow>
          r = Some (''cannot run PostgreSQL version upgrade script: ''
                     @ ''failed to create temporary directory: '' @ x)
          \<or> r = Some (''cannot run post upgrade script: ''
                     @ ''failed to create temporary directory: '' @ x))"
| "stopped_event cur new si r (EvRemoveAll d e) = True"
| "stopped_event cur new si r (EvInspectHost hv e) =
     (cur < new
      \<and> (case e of None \<Rightarrow> True
          | Some x \<Rightarrow>
              r = Some (''cannot run PostgreSQL version upgrade script: ''
                         @ ''cannot inspect host values: '' @ x)))"
| "stopped_event cur new si r (EvPrepareImage i pp pa p e) =
     (cur < new
      \<and> (case e of None \<Rightarrow> True
          | Some x \<Rightarrow> r = Some (''cannot run PostgreSQL version upgrade script: '' @ x)))"
| "stopped_event cur new si r (EvGeneratePgsqlVersionUpgradeScript d old' new' k n e) =
     (old' = cur \<and> new' = new \<and> cur < new
      \<and> (case e of None \<Rightarrow> True
          | Some x \<Rightarrow>
              r = Some (''cannot run PostgreSQL version upgrade script: ''
                         @ ''cannot generate PostgreSQL database version upgrade script '' @ x)))"
| "stopped_event cur new si r (EvRunContainer n i extra cmd e) =
     (n = ''uyuni-upgrade-pgsql'' \<and> cur < new
        \<and> (case e of None \<Rightarrow> True
            | Some x \<Rightarrow> r = Some (''cannot run PostgreSQL version upgrade script: '' @ x))
      \<or> n = ''uyuni-finalize-pgsql'' \<and> i = si \<and> \<not> new < cur
        \<and> (case e of None \<Rightarrow> True
            | Some x \<Rightarrow> r = Some (''cannot run PostgreSQL version upgrade script: '' @ x))
      \<or> n = ''uyuni-post-upgrade'' \<and> i = si \<and> \<not> new < cur
        \<and> (case e of None \<Rightarrow> True
            | Some x \<Rightarrow> r = Some (''cannot run post upgrade script: '' @ x)))"
| "stopped_event cur new si r (EvGenerateFinalizePostgresScript d a s x y k n e) =
     (a \<and> s = (cur \<noteq> new) \<and> x \<and> y \<and> \<not> k \<and> \<not> new < cur
      \<and> (case e of None \<Rightarrow> True
          | Some z \<Rightarrow>
              r = Some (''cannot run PostgreSQL version upgrade script: ''
                         @ ''cannot generate PostgreSQL finalization script: '' @ z)))"
| "stopped_event cur new si r (EvGeneratePostUpgradeScript d h n e) =
     (h = ''localhost'' \<and> \<not> new < cur
      \<and> (case e of None \<Rightarrow> True
          | Some z \<Rightarrow>
              r = Some (''cannot run post upgrade script: ''
                         @ ''cannot generate PostgreSQL finalization script: '' @ z)))"
| "stopped_event cur new si r (EvGenerateSystemdConfFile sn sec c e) =
     (sn = ''uyuni-server'' \<and> sec = ''Service'' \<and> c = ''Environment=UYUNI_IMAGE='' @ si
      \<and> \<not> new < cur \<and> (case e of None \<Rightarrow> True | Some x \<Rightarrow> r = Some x))"
| "stopped_event cur new si r (EvReloadDaemon b e) = (\<not> b \<and> r = e \<and> \<not> new < cur)"
| "stopped_event cur new si r ev = False"

fun discovery_event :: "facts \<Rightarrow> event \<Rightarrow> bool" where
  "discovery_event vals (EvMkdirTemp dir pat d e) = (e = None)"
| "discovery_event vals (EvRemoveAll d e) = True"
| "discovery_event vals (EvInspectHost hv e) = (e = None)"
| "discovery_event vals (EvPrepareImage i pp pa p e) = (e = None)"
| "discovery_event vals (EvGenerateInspectContainerScript d e) = (e = None)"
| "discovery_event vals (EvRunContainer n i extra cmd e) = (n = ''uyuni-inspect'' \<and> e = None)"
| "discovery_event vals (EvReadInspectData d m e) = (e = None \<and> m = vals)"
| "discovery_event vals (EvSanityCheck cnx m si e) = (e = None)"
| "discovery_event vals ev = False"

fun aborted_event :: "event \<Rightarrow> bool" where
  "aborted_event (EvMkdirTemp dir pat d e) = True"
| "aborted_event (EvRemoveAll d e) = True"
| "aborted_event (EvInspectHost hv e) = True"
| "aborted_event (EvPrepareImage i pp pa p e) = True"
| "aborted_event (EvGenerateInspectContainerScript d e) = True"
| "aborted_event (EvRunContainer n i extra cmd e) = (n = ''uyuni-inspect'')"
| "aborted_event (EvReadInspectData d m e) = True"
| "aborted_event (EvSanityCheck cnx m si e) = True"
| "aborted_event (EvStopService s e) = (e \<noteq> None)"
| "aborted_event ev = False"

text \<open>
  The script directory of a step, its bundle. \<open>creates_bundle\<close> gives the directory an
  event creates: the one \<^verbatim>\<open>os.MkdirTemp("", "mgradm-*")\<close> or
  \<^verbatim>\<open>GenerateMigrationScript\<close> returns, also when the call returns an error with it (the
  callee may have failed after it made the directory). \<open>removes_bundle\<close> recognises its
  removal, and
  \<open>uses_bundle d\<close> says what may happen while the bundle \<open>d\<close> exists: no other bundle
  is created or removed, every script is generated into \<open>d\<close>, every result is read from
  \<open>d\<close>, and a helper container gets \<open>d\<close> mounted (\<^verbatim>\<open>-v d:...\<close>).
  \<open>owns_bundle\<close> is the life of one bundle: created by the first event, used by the
  events in between, removed by the last one. \<open>bundles_nested\<close> reads a whole trace:
  at most one bundle exists at a time (the argument), and outside a bundle only events
  that take no script directory occur (\<open>bundle_free\<close>).
\<close>

definition mounts_dir :: "string \<Rightarrow> string list \<Rightarrow> bool" where
  "mounts_dir d extraArgs =
     list_ex (\<lambda>(flag, v). flag = ''-v'' \<and> prefix (d @ '':'') v) (zip extraArgs (tl extraArgs))"

fun creates_bundle :: "event \<Rightarrow> string option" where
  "creates_bundle (EvMkdirTemp dir pat d e) =
     (if dir = [] \<and> pat = ''mgradm-*'' then Some d else None)"
| "creates_bundle (EvGenerateMigrationScript f u k d e) = Some d"
| "creates_bundle ev = None"

fun removes_bundle :: "string \<Rightarrow> event \<Rightarrow> bool" where
  "removes_bundle d (EvRemoveAll d' e) = (d' = d)"
| "removes_bundle d ev = False"

fun uses_bundle :: "string \<Rightarrow> event \<Rightarrow> bool" where
  "uses_bundle d (EvMkdirTemp dir pat d' e) = False"
| "uses_bundle d (EvGenerateMigrationScript f u k d' e) = False"
| "uses_bundle d (EvRemoveAll d' e) = False"
| "uses_bundle d (EvRunContainer n i extra cmd e) = mounts_dir d extra"
| "uses_bundle d (EvGenerateInspectContainerScript d' e) = (d' = d)"
| "uses_bundle d (EvReadInspectData d' m e) = (d' = d)"
| "uses_bundle d (EvGeneratePgsqlVersionUpgradeScript d' old new k n e) = (d' = d)"
| "uses_bundle d (EvGenerateFinalizePostgresScript d' a s x y k n e) = (d' = d)"
| "uses_bundle d (EvGeneratePostUpgradeScript d' h n e) = (d' = d)"
| "uses_bundle d (EvReadContainerData d' tz old new e) = (d' = d)"
| "uses_bundle d ev = True"

fun bundle_free :: "event \<Rightarrow> bool" where
  "bundle_free (EvSanityCheck cnx m si e) = True"
| "bundle_free (EvStopService s e) = True"
| "bundle_free (EvStartService s e) = True"
| "bundle_free (EvGenerateSystemdConfFile n sec c e) = True"
| "bundle_free (EvReloadDaemon b e) = True"
| "bundle_free ev = False"

definition owns_bundle :: "event list \<Rightarrow> bool" where
  "owns_bundle es =
     (case es of
        [] \<Rightarrow> False
      | c # rest \<Rightarrow>
          (case creates_bundle c of
             None \<Rightarrow> False
           | Some d \<Rightarrow>
               rest \<noteq> [] \<and> removes_bundle d (last rest) \<and> list_all (uses_bundle d) (butlast rest)))"

fun bundles_nested :: "string option \<Rightarrow> event list \<Rightarrow> bool" where
  "bundles_nested cur [] = (cur = None)"
| "bundles_nested None (ev # es) =
     (case creates_bundle ev of
        Some d \<Rightarrow> bundles_nested (Some d) es
      | None \<Rightarrow> bundle_free ev \<and> bundles_nested None es)"
| "bundles_nested (Some d) (ev # es) =
     (if removes_bundle d ev then bundles_nested None es
      else uses_bundle d ev \<and> bundles_nested (Some d) es)"

definition nested_run :: "event list \<Rightarrow> event list \<Rightarrow> bool" where
  "nested_run t t' = (\<exists>es. t' = t @ es \<and> bundles_nested None es)"

fun migration_mid :: "string \<Rightarrow> event \<Rightarrow> bool" where
  "migration_mid d (EvInspectHost hv e) = True"
| "migration_mid d (EvPrepareImage i pp pa p e) = True"
| "migration_mid d (EvRunContainer n i extra cmd e) = (n = ''uyuni-migration'' \<and> mounts_dir d extra)"
| "migration_mid d (EvReadContainerData d' tz old new e) = (d' = d)"
| "migration_mid d ev = False"

section \<open>Traces of the steps\<close>

lemmas ext_defs = MkdirTemp_def RemoveAll_def InspectHost_def PrepareImage_def
  GenerateInspectContainerScript_def RunContainer_def ReadInspectData_def SanityCheck_def
  StopService_def StartService_def GeneratePgsqlVersionUpgradeScript_def
  GenerateFinalizePostgresScript_def GeneratePostUpgradeScript_def GenerateSystemdConfFile_def
  ReloadDaemon_def GenerateMigrationScript_def ReadContainerData_def

lemma Inspect_body_events:
  "Inspect_body env si pp d err t = ((m, e), t')
    \<Longrightarrow> \<exists>mid. t' = t @ mid \<and> list_all (inspect_mid env d m e) mid"
  unfolding Inspect_body_def ext_defs
  by (auto split: option.splits prod.splits)

lemma RunPgsqlVersionUpgrade_body_events:
  "RunPgsqlVersionUpgrade_body env img mig old new d err t = (r, t')
    \<Longrightarrow> \<exists>mid. t' = t @ mid \<and> list_all (pgupgrade_mid d old new r) mid"
  unfolding RunPgsqlVersionUpgrade_body_def ext_defs
  by (auto split: option.splits prod.splits if_splits)

lemma RunPgsqlFinalizeScript_body_events:
  "RunPgsqlFinalizeScript_body env si b d err t = (r, t')
    \<Longrightarrow> \<exists>mid. t' = t @ mid \<and> list_all (finalize_mid d si b r) mid"
  unfolding RunPgsqlFinalizeScript_body_def ext_defs
  by (auto split: option.splits prod.splits)

lemma RunPostUpgradeScript_body_events:
  "RunPostUpgradeScript_body env si d err t = (r, t')
    \<Longrightarrow> \<exists>mid. t' = t @ mid \<and> list_all (postupgrade_mid d si r) mid"
  unfolding RunPostUpgradeScript_body_def ext_defs
  by (auto split: option.splits prod.splits)

lemma Inspect_events:
  assumes "Inspect env si pp t = ((m, e), t')"
  obtains d err mid rerr where
    "t' = t @ EvMkdirTemp [] ''mgradm-*'' d err # mid @ [EvRemoveAll d rerr]"
    "list_all (inspect_mid env d m e) mid"
    "err = None \<or> e \<noteq> None"
proof -
  obtain d err where mk: "os_MkdirTemp env t [] ''mgradm-*'' = (d, err)"
    by (cases "os_MkdirTemp env t [] ''mgradm-*''")
  let ?t1 = "t @ [EvMkdirTemp [] ''mgradm-*'' d err]"
  obtain r t2 where body: "Inspect_body env si pp d err ?t1 = (r, t2)"
    by (cases "Inspect_body env si pp d err ?t1")
  with assms mk have r: "r = (m, e)" and t': "t' = t2 @ [EvRemoveAll d (os_RemoveAll env t2 d)]"
    by (simp_all add: Inspect_def MkdirTemp_def RemoveAll_def)
  from body r obtain mid where mid: "t2 = ?t1 @ mid" "list_all (inspect_mid env d m e) mid"
    using Inspect_body_events by blast
  from body r have "err = None \<or> e \<noteq> None"
    by (cases err) (auto simp: Inspect_body_def)
  with mid t' show ?thesis by (intro that) simp_all
qed

lemma RunPgsqlVersionUpgrade_events:
  assumes "RunPgsqlVersionUpgrade env img mig old new t = (r, t')"
  obtains d err mid rerr where
    "t' = t @ EvMkdirTemp [] ''mgradm-*'' d err # mid @ [EvRemoveAll d rerr]"
    "list_all (pgupgrade_mid d old new r) mid"
    "case err of None \<Rightarrow> True
     | Some x \<Rightarrow> r = Some (''failed to create temporary directory: '' @ x) \<and> mid = []"
proof -
  obtain d err where mk: "os_MkdirTemp env t [] ''mgradm-*'' = (d, err)"
    by (cases "os_MkdirTemp env t [] ''mgradm-*''")
  let ?t1 = "t @ [EvMkdirTemp [] ''mgradm-*'' d err]"
  obtain r' t2 where body: "RunPgsqlVersionUpgrade_body env img mig old new d err ?t1 = (r', t2)"
    by (cases "RunPgsqlVersionUpgrade_body env img mig old new d err ?t1")
  with assms mk have r: "r' = r" and t': "t' = t2 @ [EvRemoveAll d (os_RemoveAll env t2 d)]"
    by (simp_all add: RunPgsqlVersionUpgrade_def MkdirTemp_def RemoveAll_def)
  from body r obtain mid where mid: "t2 = ?t1 @ mid" "list_all (pgupgrade_mid d old new r) mid"
    using RunPgsqlVersionUpgrade_body_events by blast
  from body r mid(1)
  have "case err of None \<Rightarrow> True
        | Some x \<Rightarrow> r = Some (''failed to create temporary directory: '' @ x) \<and> mid = []"
    by (cases err) (auto simp: RunPgsqlVersionUpgrade_body_def)
  with mid t' show ?thesis by (intro that) simp_all
qed

lemma RunPgsqlFinalizeScript_events:
  assumes "RunPgsqlFinalizeScript env si b t = (r, t')"
  obtains d err mid rerr where
    "t' = t @ EvMkdirTemp [] ''mgradm-*'' d err # mid @ [EvRemoveAll d rerr]"
    "list_all (finalize_mid d si b r) mid"
    "case err of None \<Rightarrow> True
     | Some x \<Rightarrow> r = Some (''failed to create temporary directory: '' @ x) \<and> mid = []"
proof -
  obtain d err where mk: "os_MkdirTemp env t [] ''mgradm-*'' = (d, err)"
    by (cases "os_MkdirTemp env t [] ''mgradm-*''")
  let ?t1 = "t @ [EvMkdirTemp [] ''mgradm-*'' d err]"
  obtain r' t2 where body: "RunPgsqlFinalizeScript_body env si b d err ?t1 = (r', t2)"
    by (cases "RunPgsqlFinalizeScript_body env si b d err ?t1")
  with assms mk have r: "r' = r" and t': "t' = t2 @ [EvRemoveAll d (os_RemoveAll env t2 d)]"
    by (simp_all add: RunPgsqlFinalizeScript_def MkdirTemp_def RemoveAll_def)
  from body r obtain mid where mid: "t2 = ?t1 @ mid" "list_all (finalize_mid d si b r) mid"
    using RunPgsqlFinalizeScript_body_events by blast
  from body r mid(1)
  have "case err of None \<Rightarrow> True
        | Some x \<Rightarrow> r = Some (''failed to create temporary directory: '' @ x) \<and> mid = []"
    by (cases err) (auto simp: RunPgsqlFinalizeScript_body_def)
  with mid t' show ?thesis by (intro that) simp_all
qed

lemma RunPostUpgradeScript_events:
  assumes "RunPostUpgradeScript env si t = (r, t')"
  obtains d err mid rerr where
    "t' = t @ EvMkdirTemp [] ''mgradm-*'' d err # mid @ [EvRemoveAll d rerr]"
    "list_all (postupgrade_mid d si r) mid"
    "case err of None \<Rightarrow> True
     | Some x \<Rightarrow> r = Some (''failed to create temporary directory: '' @ x) \<and> mid = []"
proof -
  obtain d err where mk: "os_MkdirTemp env t [] ''mgradm-*'' = (d, err)"
    by (cases "os_MkdirTemp env t [] ''mgradm-*''")
  let ?t1 = "t @ [EvMkdirTemp [] ''mgradm-*'' d err]"
  obtain r' t2 where body: "RunPostUpgradeScript_body env si d err ?t1 = (r', t2)"
    by (cases "RunPostUpgradeScript_body env si d err ?t1")
  with assms mk have r: "r' = r" and t': "t' = t2 @ [EvRemoveAll d (os_RemoveAll env t2 d)]"
    by (simp_all add: RunPostUpgradeScript_def MkdirTemp_def RemoveAll_def)
  from body r obtain mid where mid: "t2 = ?t1 @ mid" "list_all (postupgrade_mid d si r) mid"
    using RunPostUpgradeScript_body_events by blast
  from body r mid(1)
  have "case err of None \<Rightarrow> True
        | Some x \<Rightarrow> r = Some (''failed to create temporary directory: '' @ x) \<and> mid = []"
    by (cases err) (auto simp: RunPostUpgradeScript_body_def)
  with mid t' show ?thesis by (intro that) simp_all
qed

text \<open>
  The events of a step, from the creation of its script directory to the removal, are
  events of a stopped \<^verbatim>\<open>Upgrade\<close> whose result wraps the error of the step.
\<close>

lemma pgupgrade_to_stopped:
  assumes "list_all (pgupgrade_mid d cur new r1) mid"
    and "case err of None \<Rightarrow> True
         | Some x \<Rightarrow> r1 = Some (''failed to create temporary directory: '' @ x) \<and> mid = []"
    and "case r1 of None \<Rightarrow> True
         | Some x \<Rightarrow> r = Some (''cannot run PostgreSQL version upgrade script: '' @ x)"
  shows "list_all (stopped_event cur new si r)
           (EvMkdirTemp [] ''mgradm-*'' d err # mid @ [EvRemoveAll d rerr])"
proof -
  have "stopped_event cur new si r ev" if "ev \<in> set mid" for ev
  proof -
    from that assms(1) have "pgupgrade_mid d cur new r1 ev" by (simp add: list_all_iff)
    with assms(3) show ?thesis by (cases ev) (auto split: option.splits)
  qed
  moreover from assms(2,3) have "stopped_event cur new si r (EvMkdirTemp [] ''mgradm-*'' d err)"
    by (auto split: option.splits)
  ultimately show ?thesis by (simp add: list_all_iff)
qed

lemma finalize_to_stopped:
  assumes "list_all (finalize_mid d si (cur \<noteq> new) r1) mid"
    and "case err of None \<Rightarrow> True
         | Some x \<Rightarrow> r1 = Some (''failed to create temporary directory: '' @ x) \<and> mid = []"
    and "\<not> new < cur"
    and "case r1 of None \<Rightarrow> True
         | Some x \<Rightarrow> r = Some (''cannot run PostgreSQL version upgrade script: '' @ x)"
  shows "list_all (stopped_event cur new si r)
           (EvMkdirTemp [] ''mgradm-*'' d err # mid @ [EvRemoveAll d rerr])"
proof -
  have "stopped_event cur new si r ev" if "ev \<in> set mid" for ev
  proof -
    from that assms(1) have "finalize_mid d si (cur \<noteq> new) r1 ev" by (simp add: list_all_iff)
    with assms(3,4) show ?thesis by (cases ev) (auto split: option.splits)
  qed
  moreover from assms(2,4) have "stopped_event cur new si r (EvMkdirTemp [] ''mgradm-*'' d err)"
    by (auto split: option.splits)
  ultimately show ?thesis by (simp add: list_all_iff)
qed

lemma postupgrade_to_stopped:
  assumes "list_all (postupgrade_mid d si r1) mid"
    and "case err of None \<Rightarrow> True
         | Some x \<Rightarrow> r1 = Some (''failed to create temporary directory: '' @ x) \<and> mid = []"
    and "\<not> new < cur"
    and "case r1 of None \<Rightarrow> True
         | Some x \<Rightarrow> r = Some (''cannot run post upgrade script: '' @ x)"
  shows "list_all (stopped_event cur new si r)
           (EvMkdirTemp [] ''mgradm-*'' d err # mid @ [EvRemoveAll d rerr])"
proof -
  have "stopped_event cur new si r ev" if "ev \<in> set mid" for ev
  proof -
    from that assms(1) have "postupgrade_mid d si r1 ev" by (simp add: list_all_iff)
    with assms(3,4) show ?thesis by (cases ev) (auto split: option.splits)
  qed
  moreover from assms(2,4) have "stopped_event cur new si r (EvMkdirTemp [] ''mgradm-*'' d err)"
    by (auto split: option.splits)
  ultimately show ?thesis by (simp add: list_all_iff)
qed

lemma finish_events:
  assumes run: "(case RunPgsqlFinalizeScript env si (cur \<noteq> new) t1 of
        (Some e, t2) \<Rightarrow> (Some (''cannot run PostgreSQL version upgrade script: '' @ e), t2)
      | (None, t2) \<Rightarrow>
     (case RunPostUpgradeScript env si t2 of
        (Some e, t3) \<Rightarrow> (Some (''cannot run post upgrade script: '' @ e), t3)
      | (None, t3) \<Rightarrow>
     (case GenerateSystemdConfFile env ''uyuni-server'' ''Service''
             (''Environment=UYUNI_IMAGE='' @ si) t3 of
        (Some e, t4) \<Rightarrow> (Some e, t4)
      | (None, t4) \<Rightarrow> ReloadDaemon env False t4))) = (r, t')"
    and nd: "\<not> new < cur"
  shows "\<exists>body. t' = t1 @ body \<and> list_all (stopped_event cur new si r) body"
proof -
  obtain r1 t2 where f: "RunPgsqlFinalizeScript env si (cur \<noteq> new) t1 = (r1, t2)"
    by (cases "RunPgsqlFinalizeScript env si (cur \<noteq> new) t1")
  from f obtain d1 e1 mid1 x1 where
    t2: "t2 = t1 @ EvMkdirTemp [] ''mgradm-*'' d1 e1 # mid1 @ [EvRemoveAll d1 x1]"
    and m1: "list_all (finalize_mid d1 si (cur \<noteq> new) r1) mid1"
    and k1: "case e1 of None \<Rightarrow> True
             | Some x \<Rightarrow> r1 = Some (''failed to create temporary directory: '' @ x) \<and> mid1 = []"
    by (rule RunPgsqlFinalizeScript_events)
  let ?seg1 = "EvMkdirTemp [] ''mgradm-*'' d1 e1 # mid1 @ [EvRemoveAll d1 x1]"
  show ?thesis
  proof (cases r1)
    case (Some e)
    with run f have r: "r = Some (''cannot run PostgreSQL version upgrade script: '' @ e)"
      and t': "t' = t2" by simp_all
    from m1 k1 nd have "list_all (stopped_event cur new si r) ?seg1"
      by (rule finalize_to_stopped) (simp add: Some r)
    with t2 t' show ?thesis by simp
  next
    case None
    from m1 k1 nd have s1: "list_all (stopped_event cur new si r) ?seg1"
      by (rule finalize_to_stopped) (simp add: None)
    obtain r2 t3 where p: "RunPostUpgradeScript env si t2 = (r2, t3)"
      by (cases "RunPostUpgradeScript env si t2")
    from p obtain d2 e2 mid2 x2 where
      t3: "t3 = t2 @ EvMkdirTemp [] ''mgradm-*'' d2 e2 # mid2 @ [EvRemoveAll d2 x2]"
      and m2: "list_all (postupgrade_mid d2 si r2) mid2"
      and k2: "case e2 of None \<Rightarrow> True
               | Some x \<Rightarrow> r2 = Some (''failed to create temporary directory: '' @ x) \<and> mid2 = []"
      by (rule RunPostUpgradeScript_events)
    let ?seg2 = "EvMkdirTemp [] ''mgradm-*'' d2 e2 # mid2 @ [EvRemoveAll d2 x2]"
    show ?thesis
    proof (cases r2)
      case (Some e)
      with run f p None have r: "r = Some (''cannot run post upgrade script: '' @ e)"
        and t': "t' = t3" by simp_all
      from m2 k2 nd have "list_all (stopped_event cur new si r) ?seg2"
        by (rule postupgrade_to_stopped) (simp add: Some r)
      with s1 t2 t3 t' have "t' = t1 @ ?seg1 @ ?seg2"
        "list_all (stopped_event cur new si r) (?seg1 @ ?seg2)" by simp_all
      then show ?thesis by blast
    next
      case r2None: None
      from m2 k2 nd have s2: "list_all (stopped_event cur new si r) ?seg2"
        by (rule postupgrade_to_stopped) (simp add: r2None)
      obtain r3 t4 where c: "GenerateSystemdConfFile env ''uyuni-server'' ''Service''
             (''Environment=UYUNI_IMAGE='' @ si) t3 = (r3, t4)"
        by (cases "GenerateSystemdConfFile env ''uyuni-server'' ''Service''
             (''Environment=UYUNI_IMAGE='' @ si) t3")
      then have t4: "t4 = t3 @ [EvGenerateSystemdConfFile ''uyuni-server'' ''Service''
             (''Environment=UYUNI_IMAGE='' @ si) r3]"
        by (auto simp: GenerateSystemdConfFile_def)
      have "\<exists>tl. t' = t3 @ tl \<and> list_all (stopped_event cur new si r) tl"
      proof (cases r3)
        case (Some e)
        with run f p None r2None c t4 nd show ?thesis by auto
      next
        case r3None: None
        with run f p None r2None c have "ReloadDaemon env False t4 = (r, t')" by simp
        then have "t' = t4 @ [EvReloadDaemon False r]" by (auto simp: ReloadDaemon_def)
        with t4 r3None nd show ?thesis by auto
      qed
      then obtain tl where tl: "t' = t3 @ tl" "list_all (stopped_event cur new si r) tl"
        by blast
      with s1 s2 t2 t3 have "t' = t1 @ ?seg1 @ ?seg2 @ tl"
        "list_all (stopped_event cur new si r) (?seg1 @ ?seg2 @ tl)" by simp_all
      then show ?thesis by blast
    qed
  qed
qed

lemma Upgrade_stopped_events:
  assumes run: "Upgrade_stopped env img mig si vals t = (r, t')"
  shows "\<exists>body. t' = t @ body
           \<and> list_all (stopped_event (getv vals ''current_pg_version'')
                         (getv vals ''image_pg_version'') si r) body"
proof -
  let ?cur = "getv vals ''current_pg_version''"
  let ?new = "getv vals ''image_pg_version''"
  consider (up) "?cur < ?new" | (same) "?new = ?cur" | (down) "?new < ?cur"
    by fastforce
  then show ?thesis
  proof cases
    case up
    obtain r1 t1 where u: "RunPgsqlVersionUpgrade env img mig ?cur ?new t = (r1, t1)"
      by (cases "RunPgsqlVersionUpgrade env img mig ?cur ?new t")
    from u obtain d1 e1 mid1 x1 where
      t1: "t1 = t @ EvMkdirTemp [] ''mgradm-*'' d1 e1 # mid1 @ [EvRemoveAll d1 x1]"
      and m1: "list_all (pgupgrade_mid d1 ?cur ?new r1) mid1"
      and k1: "case e1 of None \<Rightarrow> True
               | Some x \<Rightarrow> r1 = Some (''failed to create temporary directory: '' @ x) \<and> mid1 = []"
      by (rule RunPgsqlVersionUpgrade_events)
    let ?seg1 = "EvMkdirTemp [] ''mgradm-*'' d1 e1 # mid1 @ [EvRemoveAll d1 x1]"
    show ?thesis
    proof (cases r1)
      case (Some e)
      with run u up have r: "r = Some (''cannot run PostgreSQL version upgrade script: '' @ e)"
        and t': "t' = t1" by (simp_all add: Upgrade_stopped_def)
      from m1 k1 have "list_all (stopped_event ?cur ?new si r) ?seg1"
        by (rule pgupgrade_to_stopped) (simp add: Some r)
      with t1 t' show ?thesis by simp
    next
      case None
      from m1 k1 have s1: "list_all (stopped_event ?cur ?new si r) ?seg1"
        by (rule pgupgrade_to_stopped) (simp add: None)
      from up have nd: "\<not> ?new < ?cur" by simp
      from run u up None have "\<exists>body. t' = t1 @ body \<and> list_all (stopped_event ?cur ?new si r) body"
        by (intro finish_events[OF _ nd]) (simp add: Upgrade_stopped_def)
      then obtain body where "t' = t1 @ body" "list_all (stopped_event ?cur ?new si r) body"
        by blast
      with s1 t1 have "t' = t @ ?seg1 @ body"
        "list_all (stopped_event ?cur ?new si r) (?seg1 @ body)" by simp_all
      then show ?thesis by blast
    qed
  next
    case same
    then have nd: "\<not> ?new < ?cur" by simp
    from run same show ?thesis
      by (intro finish_events[OF _ nd]) (simp add: Upgrade_stopped_def)
  next
    case down
    then have "\<not> ?cur < ?new" "?new \<noteq> ?cur" by auto
    with run show ?thesis by (simp add: Upgrade_stopped_def)
  qed
qed

lemma inspect_to_discovery:
  assumes "list_all (inspect_mid env d vals None) mid"
  shows "list_all (discovery_event vals) mid"
  unfolding list_all_iff
proof
  fix ev assume "ev \<in> set mid"
  with assms have "inspect_mid env d vals None ev" by (simp add: list_all_iff)
  then show "discovery_event vals ev" by (cases ev) auto
qed

lemma inspect_to_aborted:
  assumes "list_all (inspect_mid env d m e) mid"
  shows "list_all aborted_event mid"
  unfolding list_all_iff
proof
  fix ev assume "ev \<in> set mid"
  with assms have "inspect_mid env d m e ev" by (simp add: list_all_iff)
  then show "aborted_event ev" by (cases ev) auto
qed

lemma Upgrade_run_cases:
  assumes run: "Upgrade env img mig args t = (r, t')"
  obtains (aborted) es where "t' = t @ es" "r \<noteq> None" "list_all aborted_event es"
  | (stopped) vals pre body e where
    "snd (utils_ComputeImage env (Name img) (Tag img) []) = None"
    "t' = t @ pre @ EvStopService (ServerService env) None # body
            @ [EvStartService (ServerService env) e]"
    "list_all (discovery_event vals) pre"
    "Upgrade_stopped env img mig (fst (utils_ComputeImage env (Name img) (Tag img) [])) vals
        (t @ pre @ [EvStopService (ServerService env) None])
      = (r, t @ pre @ EvStopService (ServerService env) None # body)"
    "list_all (stopped_event (getv vals ''current_pg_version'') (getv vals ''image_pg_version'')
        (fst (utils_ComputeImage env (Name img) (Tag img) [])) r) body"
proof -
  let ?svc = "ServerService env"
  let ?cnx = "NewConnection ''podman'' (ServerContainerName env) []"
  obtain si ce where ci: "utils_ComputeImage env (Name img) (Tag img) [] = (si, ce)"
    by (cases "utils_ComputeImage env (Name img) (Tag img) []")
  show ?thesis
  proof (cases ce)
    case (Some x)
    with run ci have "t' = t @ []" "r \<noteq> None" by (auto simp: Upgrade_def)
    then show ?thesis by (rule aborted) simp
  next
    case ce: None
    obtain m ie t1 where insp: "Inspect env si (PullPolicy img) t = ((m, ie), t1)"
      by (cases "Inspect env si (PullPolicy img) t") auto
    from insp obtain d err mid rerr where
      t1: "t1 = t @ EvMkdirTemp [] ''mgradm-*'' d err # mid @ [EvRemoveAll d rerr]"
      and mid: "list_all (inspect_mid env d m ie) mid"
      and ok: "err = None \<or> ie \<noteq> None"
      by (rule Inspect_events)
    from mid have amid: "list_all aborted_event mid" by (rule inspect_to_aborted)
    show ?thesis
    proof (cases ie)
      case (Some x)
      with run ci ce insp t1
      have "t' = t @ EvMkdirTemp [] ''mgradm-*'' d err # mid @ [EvRemoveAll d rerr]" "r \<noteq> None"
        by (auto simp: Upgrade_def)
      moreover from amid have "list_all aborted_event
          (EvMkdirTemp [] ''mgradm-*'' d err # mid @ [EvRemoveAll d rerr])" by simp
      ultimately show ?thesis by (rule aborted)
    next
      case ie: None
      obtain se t2 where sane: "SanityCheck env ?cnx m si t1 = (se, t2)"
        by (cases "SanityCheck env ?cnx m si t1")
      then have t2: "t2 = t1 @ [EvSanityCheck ?cnx m si se]"
        by (auto simp: SanityCheck_def)
      show ?thesis
      proof (cases se)
        case (Some x)
        with run ci ce insp ie sane t1 t2
        have "t' = t @ EvMkdirTemp [] ''mgradm-*'' d err # mid
                     @ [EvRemoveAll d rerr, EvSanityCheck ?cnx m si se]" "r \<noteq> None"
          by (auto simp: Upgrade_def)
        moreover from amid Some have "list_all aborted_event
            (EvMkdirTemp [] ''mgradm-*'' d err # mid
               @ [EvRemoveAll d rerr, EvSanityCheck ?cnx m si se])" by simp
        ultimately show ?thesis by (rule aborted)
      next
        case se: None
        obtain pe t3 where stp: "StopService env ?svc t2 = (pe, t3)"
          by (cases "StopService env ?svc t2")
        then have t3: "t3 = t2 @ [EvStopService ?svc pe]"
          by (auto simp: StopService_def)
        show ?thesis
        proof (cases pe)
          case (Some x)
          with run ci ce insp ie sane se stp t1 t2 t3
          have "t' = t @ EvMkdirTemp [] ''mgradm-*'' d err # mid
                       @ [EvRemoveAll d rerr, EvSanityCheck ?cnx m si None,
                          EvStopService ?svc (Some x)]" "r \<noteq> None"
            by (auto simp: Upgrade_def)
          moreover from amid have "list_all aborted_event
              (EvMkdirTemp [] ''mgradm-*'' d err # mid
                 @ [EvRemoveAll d rerr, EvSanityCheck ?cnx m si None,
                    EvStopService ?svc (Some x)])" by simp
          ultimately show ?thesis by (rule aborted)
        next
          case pe: None
          let ?pre = "EvMkdirTemp [] ''mgradm-*'' d err # mid
                        @ [EvRemoveAll d rerr, EvSanityCheck ?cnx m si None]"
          obtain r' t4 where body: "Upgrade_stopped env img mig si m t3 = (r', t4)"
            by (cases "Upgrade_stopped env img mig si m t3")
          from body obtain bd where t4: "t4 = t3 @ bd"
            and bd: "list_all (stopped_event (getv m ''current_pg_version'')
                       (getv m ''image_pg_version'') si r') bd"
            using Upgrade_stopped_events by blast
          from run ci ce insp ie sane se stp pe body
          have res: "r = r'" "t' = t4 @ [EvStartService ?svc (podman_StartService env t4 ?svc)]"
            by (simp_all add: Upgrade_def StartService_def)
          have f1: "snd (utils_ComputeImage env (Name img) (Tag img) []) = None"
            using ci ce by simp
          have f2: "t' = t @ ?pre @ EvStopService ?svc None # bd
                        @ [EvStartService ?svc (podman_StartService env t4 ?svc)]"
            using res(2) t1 t2 t3 t4 se pe by simp
          have f3: "list_all (discovery_event m) ?pre"
            using inspect_to_discovery[OF mid[unfolded ie]] ok ie by simp
          have f4: "Upgrade_stopped env img mig
                      (fst (utils_ComputeImage env (Name img) (Tag img) [])) m
                      (t @ ?pre @ [EvStopService ?svc None])
                    = (r, t @ ?pre @ EvStopService ?svc None # bd)"
            using body res(1) t1 t2 t3 t4 se pe ci by simp
          have f5: "list_all (stopped_event (getv m ''current_pg_version'')
                      (getv m ''image_pg_version'')
                      (fst (utils_ComputeImage env (Name img) (Tag img) [])) r) bd"
            using bd res(1) ci by simp
          from f1 f2 f3 f4 f5 show ?thesis by (rule stopped)
        qed
      qed
    qed
  qed
qed

lemma Upgrade_stopped_run:
  assumes run: "Upgrade env img mig args t = (r, t @ es)"
    and stop: "EvStopService (ServerService env) None \<in> set es"
  obtains vals pre body e where
    "snd (utils_ComputeImage env (Name img) (Tag img) []) = None"
    "es = pre @ EvStopService (ServerService env) None # body
            @ [EvStartService (ServerService env) e]"
    "list_all (discovery_event vals) pre"
    "Upgrade_stopped env img mig (fst (utils_ComputeImage env (Name img) (Tag img) [])) vals
        (t @ pre @ [EvStopService (ServerService env) None])
      = (r, t @ pre @ EvStopService (ServerService env) None # body)"
    "list_all (stopped_event (getv vals ''current_pg_version'') (getv vals ''image_pg_version'')
        (fst (utils_ComputeImage env (Name img) (Tag img) [])) r) body"
  using run
proof (cases rule: Upgrade_run_cases)
  case (aborted es')
  then have "es' = es" by simp
  with aborted(3) stop have False by (auto simp: list_all_iff)
  then show ?thesis ..
next
  case (stopped vals pre body e)
  from stopped(2) have "es = pre @ EvStopService (ServerService env) None # body
            @ [EvStartService (ServerService env) e]" by simp
  with stopped show ?thesis by (intro that)
qed


lemma Upgrade_extends: "prefix t (snd (Upgrade env img mig args t))"
proof -
  obtain r t' where run: "Upgrade env img mig args t = (r, t')"
    by (cases "Upgrade env img mig args t")
  then have "prefix t t'" by (cases rule: Upgrade_run_cases) simp_all
  with run show ?thesis by simp
qed

text \<open>
  The value returned by \<^verbatim>\<open>Upgrade\<close> does not depend on what \<^verbatim>\<open>podman.StartService\<close>
  answers: the deferred closure stores its result in the local \<^verbatim>\<open>err\<close>, which is read
  by nothing once the return value has been set.
\<close>

lemma calls_start_update:
  "MkdirTemp (env\<lparr>podman_StartService := f\<rparr>) = MkdirTemp env"
  "RemoveAll (env\<lparr>podman_StartService := f\<rparr>) = RemoveAll env"
  "InspectHost (env\<lparr>podman_StartService := f\<rparr>) = InspectHost env"
  "PrepareImage (env\<lparr>podman_StartService := f\<rparr>) = PrepareImage env"
  "GenerateInspectContainerScript (env\<lparr>podman_StartService := f\<rparr>)
     = GenerateInspectContainerScript env"
  "RunContainer (env\<lparr>podman_StartService := f\<rparr>) = RunContainer env"
  "ReadInspectData (env\<lparr>podman_StartService := f\<rparr>) = ReadInspectData env"
  "SanityCheck (env\<lparr>podman_StartService := f\<rparr>) = SanityCheck env"
  "StopService (env\<lparr>podman_StartService := f\<rparr>) = StopService env"
  "GeneratePgsqlVersionUpgradeScript (env\<lparr>podman_StartService := f\<rparr>)
     = GeneratePgsqlVersionUpgradeScript env"
  "GenerateFinalizePostgresScript (env\<lparr>podman_StartService := f\<rparr>)
     = GenerateFinalizePostgresScript env"
  "GeneratePostUpgradeScript (env\<lparr>podman_StartService := f\<rparr>)
     = GeneratePostUpgradeScript env"
  "GenerateSystemdConfFile (env\<lparr>podman_StartService := f\<rparr>) = GenerateSystemdConfFile env"
  "ReloadDaemon (env\<lparr>podman_StartService := f\<rparr>) = ReloadDaemon env"
  by (simp_all add: fun_eq_iff ext_defs)

lemma steps_start_update:
  "Inspect (env\<lparr>podman_StartService := f\<rparr>) = Inspect env"
  "RunPgsqlVersionUpgrade (env\<lparr>podman_StartService := f\<rparr>) = RunPgsqlVersionUpgrade env"
  "RunPgsqlFinalizeScript (env\<lparr>podman_StartService := f\<rparr>) = RunPgsqlFinalizeScript env"
  "RunPostUpgradeScript (env\<lparr>podman_StartService := f\<rparr>) = RunPostUpgradeScript env"
  by (simp_all add: fun_eq_iff calls_start_update
      Inspect_def Inspect_body_def RunPgsqlVersionUpgrade_def RunPgsqlVersionUpgrade_body_def
      RunPgsqlFinalizeScript_def RunPgsqlFinalizeScript_body_def
      RunPostUpgradeScript_def RunPostUpgradeScript_body_def
      cong: option.case_cong prod.case_cong if_cong)

lemma Upgrade_stopped_start_update:
  "Upgrade_stopped (env\<lparr>podman_StartService := f\<rparr>) = Upgrade_stopped env"
  by (simp add: fun_eq_iff Upgrade_stopped_def steps_start_update calls_start_update
      cong: option.case_cong prod.case_cong if_cong)

lemma Upgrade_ignores_start_result:
  "fst (Upgrade (env\<lparr>podman_StartService := f\<rparr>) img mig args t)
   = fst (Upgrade env img mig args t)"
  by (simp add: Upgrade_def steps_start_update calls_start_update Upgrade_stopped_start_update
      StartService_def cong: option.case_cong prod.case_cong if_cong
      split: prod.splits option.splits)

lemma facts_in_discovery:
  assumes es: "es = pre @ EvStopService s None # body @ [EvStartService s e]"
    and pre: "list_all (discovery_event vals) pre"
    and body: "list_all (stopped_event cur new si r) body"
    and facts: "EvReadInspectData d vals' None \<in> set es"
  shows "vals' = vals"
  using assms by (auto simp: list_all_iff)

lemma RunPgsqlVersionUpgrade_extends:
  "RunPgsqlVersionUpgrade env img mig old new t = (r, t') \<Longrightarrow> prefix t t'"
  by (erule RunPgsqlVersionUpgrade_events) simp

lemma RunPgsqlFinalizeScript_extends:
  "RunPgsqlFinalizeScript env si b t = (r, t') \<Longrightarrow> prefix t t'"
  by (erule RunPgsqlFinalizeScript_events) simp

lemma RunPostUpgradeScript_extends:
  "RunPostUpgradeScript env si t = (r, t') \<Longrightarrow> prefix t t'"
  by (erule RunPostUpgradeScript_events) simp

lemma finish_prefix:
  assumes run: "(case RunPgsqlFinalizeScript env si b t1 of
        (Some e, t2) \<Rightarrow> (Some (''cannot run PostgreSQL version upgrade script: '' @ e), t2)
      | (None, t2) \<Rightarrow>
     (case RunPostUpgradeScript env si t2 of
        (Some e, t3) \<Rightarrow> (Some (''cannot run post upgrade script: '' @ e), t3)
      | (None, t3) \<Rightarrow>
     (case GenerateSystemdConfFile env ''uyuni-server'' ''Service''
             (''Environment=UYUNI_IMAGE='' @ si) t3 of
        (Some e, t4) \<Rightarrow> (Some e, t4)
      | (None, t4) \<Rightarrow> ReloadDaemon env False t4))) = (r, t')"
  shows "prefix (snd (RunPgsqlFinalizeScript env si b t1)) t'"
proof -
  obtain r1 t2 where f: "RunPgsqlFinalizeScript env si b t1 = (r1, t2)"
    by (cases "RunPgsqlFinalizeScript env si b t1")
  obtain r2 t3 where p: "RunPostUpgradeScript env si t2 = (r2, t3)"
    by (cases "RunPostUpgradeScript env si t2")
  from p have "prefix t2 t3" by (rule RunPostUpgradeScript_extends)
  then obtain x where t3: "t3 = t2 @ x" by (auto simp: prefix_def)
  from run f p t3 show ?thesis
    by (auto simp: GenerateSystemdConfFile_def ReloadDaemon_def split: option.splits)
qed

lemma Upgrade_stopped_upgrade_prefix:
  assumes run: "Upgrade_stopped env img mig si vals t = (r, t')"
    and up: "getv vals ''current_pg_version'' < getv vals ''image_pg_version''"
  shows "prefix (snd (RunPgsqlVersionUpgrade env img mig (getv vals ''current_pg_version'')
                        (getv vals ''image_pg_version'') t)) t'
       \<and> (\<forall>e. fst (RunPgsqlVersionUpgrade env img mig (getv vals ''current_pg_version'')
                        (getv vals ''image_pg_version'') t) = Some e
              \<longrightarrow> r = Some (''cannot run PostgreSQL version upgrade script: '' @ e))"
proof -
  let ?cur = "getv vals ''current_pg_version''"
  let ?new = "getv vals ''image_pg_version''"
  obtain r1 t1 where u: "RunPgsqlVersionUpgrade env img mig ?cur ?new t = (r1, t1)"
    by (cases "RunPgsqlVersionUpgrade env img mig ?cur ?new t")
  show ?thesis
  proof (cases r1)
    case (Some e)
    with run u up show ?thesis by (simp add: Upgrade_stopped_def)
  next
    case None
    from up have nd: "\<not> ?new < ?cur" by simp
    from run u up None have "\<exists>body. t' = t1 @ body \<and> list_all (stopped_event ?cur ?new si r) body"
      by (intro finish_events[OF _ nd]) (simp add: Upgrade_stopped_def)
    with u None show ?thesis by auto
  qed
qed

text \<open>
  Which call failed. A successful finalization has run its container; the steps call
  \<^verbatim>\<open>os.MkdirTemp\<close> once, as their first action; a failing \<^verbatim>\<open>ComputeImage\<close> ends the
  database upgrade before any other call.
\<close>

lemma RunPgsqlFinalizeScript_success:
  assumes "RunPgsqlFinalizeScript env si b t = (None, t')"
  shows "\<exists>d n rerr. t' = t @ [EvMkdirTemp [] ''mgradm-*'' d None,
           EvGenerateFinalizePostgresScript d True b True True False n None,
           EvRunContainer ''uyuni-finalize-pgsql'' si
             [''-v'', d @ '':/var/lib/uyuni-tools/'', ''--security-opt'', ''label:disable'']
             [''/var/lib/uyuni-tools/'' @ n] None,
           EvRemoveAll d rerr]"
  using assms
  unfolding RunPgsqlFinalizeScript_def RunPgsqlFinalizeScript_body_def ext_defs
  by (auto split: prod.splits option.splits)

lemma pgupgrade_mid_others:
  assumes "list_all (pgupgrade_mid d old new r) mid"
  shows "EvMkdirTemp dir pat d' e \<notin> set mid"
    and "EvRunContainer ''uyuni-finalize-pgsql'' i a c e \<notin> set mid"
  using assms by (auto simp: list_all_iff)

lemma finalize_mid_others:
  assumes "list_all (finalize_mid d si b r) mid"
  shows "EvMkdirTemp dir pat d' e \<notin> set mid"
  using assms by (auto simp: list_all_iff)

lemma postupgrade_mid_others:
  assumes "list_all (postupgrade_mid d si r) mid"
  shows "EvMkdirTemp dir pat d' e \<notin> set mid"
    and "EvRunContainer ''uyuni-finalize-pgsql'' i a c e \<notin> set mid"
  using assms by (auto simp: list_all_iff)

lemma finish_mkdir_failure:
  assumes run: "(case RunPgsqlFinalizeScript env si b t1 of
        (Some e, t2) \<Rightarrow> (Some (''cannot run PostgreSQL version upgrade script: '' @ e), t2)
      | (None, t2) \<Rightarrow>
     (case RunPostUpgradeScript env si t2 of
        (Some e, t3) \<Rightarrow> (Some (''cannot run post upgrade script: '' @ e), t3)
      | (None, t3) \<Rightarrow>
     (case GenerateSystemdConfFile env ''uyuni-server'' ''Service''
             (''Environment=UYUNI_IMAGE='' @ si) t3 of
        (Some e, t4) \<Rightarrow> (Some e, t4)
      | (None, t4) \<Rightarrow> ReloadDaemon env False t4))) = (r, t1 @ body)"
    and mk: "EvMkdirTemp dir pat d (Some x) \<in> set body"
  shows "r = Some ((if \<exists>i a c. EvRunContainer ''uyuni-finalize-pgsql'' i a c None \<in> set body
                    then ''cannot run post upgrade script: ''
                    else ''cannot run PostgreSQL version upgrade script: '')
                   @ ''failed to create temporary directory: '' @ x)"
proof -
  obtain r1 t2 where f: "RunPgsqlFinalizeScript env si b t1 = (r1, t2)"
    by (cases "RunPgsqlFinalizeScript env si b t1")
  show ?thesis
  proof (cases r1)
    case (Some e)
    from f obtain d1 e1 mid1 x1 where
      t2: "t2 = t1 @ EvMkdirTemp [] ''mgradm-*'' d1 e1 # mid1 @ [EvRemoveAll d1 x1]"
      and m1: "list_all (finalize_mid d1 si b r1) mid1"
      and k1: "case e1 of None \<Rightarrow> True
               | Some x \<Rightarrow> r1 = Some (''failed to create temporary directory: '' @ x) \<and> mid1 = []"
      by (rule RunPgsqlFinalizeScript_events)
    from run f Some have r: "r = Some (''cannot run PostgreSQL version upgrade script: '' @ e)"
      and body: "body = EvMkdirTemp [] ''mgradm-*'' d1 e1 # mid1 @ [EvRemoveAll d1 x1]"
      using t2 by simp_all
    from mk body finalize_mid_others[OF m1] have e1: "e1 = Some x" by auto
    with k1 Some have "e = ''failed to create temporary directory: '' @ x" "mid1 = []" by simp_all
    with r body show ?thesis by simp
  next
    case None
    with f obtain d1 n1 x1 where
      t2: "t2 = t1 @ [EvMkdirTemp [] ''mgradm-*'' d1 None,
           EvGenerateFinalizePostgresScript d1 True b True True False n1 None,
           EvRunContainer ''uyuni-finalize-pgsql'' si
             [''-v'', d1 @ '':/var/lib/uyuni-tools/'', ''--security-opt'', ''label:disable'']
             [''/var/lib/uyuni-tools/'' @ n1] None,
           EvRemoveAll d1 x1]"
      using RunPgsqlFinalizeScript_success by blast
    obtain r2 t3 where p: "RunPostUpgradeScript env si t2 = (r2, t3)"
      by (cases "RunPostUpgradeScript env si t2")
    from p obtain d2 e2 mid2 x2 where
      t3: "t3 = t2 @ EvMkdirTemp [] ''mgradm-*'' d2 e2 # mid2 @ [EvRemoveAll d2 x2]"
      and m2: "list_all (postupgrade_mid d2 si r2) mid2"
      and k2: "case e2 of None \<Rightarrow> True
               | Some x \<Rightarrow> r2 = Some (''failed to create temporary directory: '' @ x) \<and> mid2 = []"
      by (rule RunPostUpgradeScript_events)
    show ?thesis
    proof (cases r2)
      case (Some e)
      with run f p None have r: "r = Some (''cannot run post upgrade script: '' @ e)"
        and t': "t1 @ body = t3" by simp_all
      from t' t2 t3 have body: "body = [EvMkdirTemp [] ''mgradm-*'' d1 None,
           EvGenerateFinalizePostgresScript d1 True b True True False n1 None,
           EvRunContainer ''uyuni-finalize-pgsql'' si
             [''-v'', d1 @ '':/var/lib/uyuni-tools/'', ''--security-opt'', ''label:disable'']
             [''/var/lib/uyuni-tools/'' @ n1] None,
           EvRemoveAll d1 x1] @ EvMkdirTemp [] ''mgradm-*'' d2 e2 # mid2 @ [EvRemoveAll d2 x2]"
        by simp
      from mk body postupgrade_mid_others(1)[OF m2] have e2: "e2 = Some x" by auto
      with k2 Some have "e = ''failed to create temporary directory: '' @ x" by simp
      moreover from body have "\<exists>i a c. EvRunContainer ''uyuni-finalize-pgsql'' i a c None \<in> set body"
        by auto
      ultimately show ?thesis using r by simp
    next
      case r2None: None
      with k2 have e2: "e2 = None" by (cases e2) simp_all
      from run f p None r2None t2 t3 e2 mk postupgrade_mid_others(1)[OF m2]
      have False
        by (auto simp: GenerateSystemdConfFile_def ReloadDaemon_def split: option.splits)
      then show ?thesis ..
    qed
  qed
qed


lemma Upgrade_stopped_mkdir_failure:
  assumes run: "Upgrade_stopped env img mig si vals t = (r, t @ body)"
    and mk: "EvMkdirTemp dir pat d (Some x) \<in> set body"
  shows "r = Some ((if \<exists>i a c. EvRunContainer ''uyuni-finalize-pgsql'' i a c None \<in> set body
                    then ''cannot run post upgrade script: ''
                    else ''cannot run PostgreSQL version upgrade script: '')
                   @ ''failed to create temporary directory: '' @ x)"
proof -
  let ?cur = "getv vals ''current_pg_version''"
  let ?new = "getv vals ''image_pg_version''"
  consider (up) "?cur < ?new" | (same) "?new = ?cur" | (down) "?new < ?cur"
    by fastforce
  then show ?thesis
  proof cases
    case up
    obtain r1 t1 where u: "RunPgsqlVersionUpgrade env img mig ?cur ?new t = (r1, t1)"
      by (cases "RunPgsqlVersionUpgrade env img mig ?cur ?new t")
    from u obtain d1 e1 mid1 x1 where
      t1: "t1 = t @ EvMkdirTemp [] ''mgradm-*'' d1 e1 # mid1 @ [EvRemoveAll d1 x1]"
      and m1: "list_all (pgupgrade_mid d1 ?cur ?new r1) mid1"
      and k1: "case e1 of None \<Rightarrow> True
               | Some x \<Rightarrow> r1 = Some (''failed to create temporary directory: '' @ x) \<and> mid1 = []"
      by (rule RunPgsqlVersionUpgrade_events)
    show ?thesis
    proof (cases r1)
      case (Some e)
      with run u up have r: "r = Some (''cannot run PostgreSQL version upgrade script: '' @ e)"
        and body: "body = EvMkdirTemp [] ''mgradm-*'' d1 e1 # mid1 @ [EvRemoveAll d1 x1]"
        using t1 by (simp_all add: Upgrade_stopped_def)
      from mk body pgupgrade_mid_others(1)[OF m1] have "e1 = Some x" by auto
      with k1 Some have "e = ''failed to create temporary directory: '' @ x" "mid1 = []"
        by simp_all
      with r body show ?thesis by simp
    next
      case None
      with k1 have e1: "e1 = None" by (cases e1) simp_all
      from up have nd: "\<not> ?new < ?cur" by simp
      from run u up None
      have chain: "(case RunPgsqlFinalizeScript env si (?cur \<noteq> ?new) t1 of
        (Some e, t2) \<Rightarrow> (Some (''cannot run PostgreSQL version upgrade script: '' @ e), t2)
      | (None, t2) \<Rightarrow>
     (case RunPostUpgradeScript env si t2 of
        (Some e, t3) \<Rightarrow> (Some (''cannot run post upgrade script: '' @ e), t3)
      | (None, t3) \<Rightarrow>
     (case GenerateSystemdConfFile env ''uyuni-server'' ''Service''
             (''Environment=UYUNI_IMAGE='' @ si) t3 of
        (Some e, t4) \<Rightarrow> (Some e, t4)
      | (None, t4) \<Rightarrow> ReloadDaemon env False t4))) = (r, t @ body)"
        by (simp add: Upgrade_stopped_def)
      then obtain body' where b': "t @ body = t1 @ body'"
        using finish_events[OF _ nd] by blast
      with t1 have body: "body = EvMkdirTemp [] ''mgradm-*'' d1 e1 # mid1 @ [EvRemoveAll d1 x1] @ body'"
        by simp
      with mk e1 pgupgrade_mid_others(1)[OF m1] have mk': "EvMkdirTemp dir pat d (Some x) \<in> set body'"
        by auto
      from body pgupgrade_mid_others(2)[OF m1]
      have iff: "(\<exists>i a c. EvRunContainer ''uyuni-finalize-pgsql'' i a c None \<in> set body)
             = (\<exists>i a c. EvRunContainer ''uyuni-finalize-pgsql'' i a c None \<in> set body')"
        by auto
      from chain b' have "(case RunPgsqlFinalizeScript env si (?cur \<noteq> ?new) t1 of
        (Some e, t2) \<Rightarrow> (Some (''cannot run PostgreSQL version upgrade script: '' @ e), t2)
      | (None, t2) \<Rightarrow>
     (case RunPostUpgradeScript env si t2 of
        (Some e, t3) \<Rightarrow> (Some (''cannot run post upgrade script: '' @ e), t3)
      | (None, t3) \<Rightarrow>
     (case GenerateSystemdConfFile env ''uyuni-server'' ''Service''
             (''Environment=UYUNI_IMAGE='' @ si) t3 of
        (Some e, t4) \<Rightarrow> (Some e, t4)
      | (None, t4) \<Rightarrow> ReloadDaemon env False t4))) = (r, t1 @ body')"
        by simp
      from finish_mkdir_failure[OF this mk'] iff show ?thesis by simp
    qed
  next
    case same
    with run have "(case RunPgsqlFinalizeScript env si (?cur \<noteq> ?new) t of
        (Some e, t2) \<Rightarrow> (Some (''cannot run PostgreSQL version upgrade script: '' @ e), t2)
      | (None, t2) \<Rightarrow>
     (case RunPostUpgradeScript env si t2 of
        (Some e, t3) \<Rightarrow> (Some (''cannot run post upgrade script: '' @ e), t3)
      | (None, t3) \<Rightarrow>
     (case GenerateSystemdConfFile env ''uyuni-server'' ''Service''
             (''Environment=UYUNI_IMAGE='' @ si) t3 of
        (Some e, t4) \<Rightarrow> (Some e, t4)
      | (None, t4) \<Rightarrow> ReloadDaemon env False t4))) = (r, t @ body)"
      by (simp add: Upgrade_stopped_def)
    from finish_mkdir_failure[OF this mk] show ?thesis .
  next
    case down
    then have "\<not> ?cur < ?new" "?new \<noteq> ?cur" by auto
    with run mk show ?thesis by (simp add: Upgrade_stopped_def)
  qed
qed

lemma RunPgsqlVersionUpgrade_compute_failure:
  assumes "RunPgsqlVersionUpgrade env img mig old new t = (r, t')"
    and "old < new"
    and "(if Name mig = []
          then utils_ComputeImage env (Name img) (Tag img) [''-migration-'' @ old @ ''-'' @ new]
          else utils_ComputeImage env (Name mig) (Tag img) []) = (u, Some x)"
  shows "\<exists>d err rerr. t' = t @ [EvMkdirTemp [] ''mgradm-*'' d err, EvRemoveAll d rerr]
           \<and> r = (case err of
                     None \<Rightarrow> Some (''failed to compute image URL: '' @ x)
                   | Some y \<Rightarrow> Some (''failed to create temporary directory: '' @ y))"
  using assms
  unfolding RunPgsqlVersionUpgrade_def RunPgsqlVersionUpgrade_body_def MkdirTemp_def RemoveAll_def
  by (auto split: prod.splits option.splits if_splits)

text \<open>
  When the finalization is reached: after a database upgrade that succeeded, or at once
  when the versions are equal. A database upgrade whose container ran has succeeded.
\<close>

lemma RunPgsqlFinalizeScript_generates:
  assumes "RunPgsqlFinalizeScript env si b t = (r, t @ es)"
    and "\<forall>dir pat d x. EvMkdirTemp dir pat d (Some x) \<notin> set es"
  shows "\<exists>d n e. EvGenerateFinalizePostgresScript d True b True True False n e \<in> set es"
  using assms
  unfolding RunPgsqlFinalizeScript_def RunPgsqlFinalizeScript_body_def ext_defs
  by (auto split: prod.splits option.splits)

lemma Upgrade_stopped_finalize_runs:
  assumes run: "Upgrade_stopped env img mig si vals t = (r, t')"
    and nd: "\<not> getv vals ''image_pg_version'' < getv vals ''current_pg_version''"
    and ok: "getv vals ''current_pg_version'' < getv vals ''image_pg_version''
             \<Longrightarrow> fst (RunPgsqlVersionUpgrade env img mig (getv vals ''current_pg_version'')
                        (getv vals ''image_pg_version'') t) = None"
  shows "prefix
           (snd (RunPgsqlFinalizeScript env si
                   (getv vals ''current_pg_version'' \<noteq> getv vals ''image_pg_version'')
                   (if getv vals ''current_pg_version'' < getv vals ''image_pg_version''
                    then snd (RunPgsqlVersionUpgrade env img mig (getv vals ''current_pg_version'')
                                (getv vals ''image_pg_version'') t)
                    else t)))
           t'"
proof -
  let ?cur = "getv vals ''current_pg_version''"
  let ?new = "getv vals ''image_pg_version''"
  show ?thesis
  proof (cases "?cur < ?new")
    case True
    obtain r1 t1 where u: "RunPgsqlVersionUpgrade env img mig ?cur ?new t = (r1, t1)"
      by (cases "RunPgsqlVersionUpgrade env img mig ?cur ?new t")
    with ok[OF True] have "r1 = None" by simp
    with run u True show ?thesis
      by (intro finish_prefix[where r = r and si = si]) (simp add: Upgrade_stopped_def)
  next
    case False
    with nd have "?new = ?cur" by auto
    with run False show ?thesis
      by (intro finish_prefix[where r = r and si = si]) (simp add: Upgrade_stopped_def)
  qed
qed

lemma Upgrade_stopped_upgrade_succeeded:
  assumes run: "Upgrade_stopped env img mig si vals t = (r, t @ body)"
    and ran: "EvRunContainer ''uyuni-upgrade-pgsql'' i a c None \<in> set body"
  shows "getv vals ''current_pg_version'' < getv vals ''image_pg_version''
       \<and> fst (RunPgsqlVersionUpgrade env img mig (getv vals ''current_pg_version'')
                (getv vals ''image_pg_version'') t) = None"
proof -
  let ?cur = "getv vals ''current_pg_version''"
  let ?new = "getv vals ''image_pg_version''"
  from run obtain body' where "t @ body = t @ body'"
    and ev: "list_all (stopped_event ?cur ?new si r) body'"
    using Upgrade_stopped_events by blast
  then have "list_all (stopped_event ?cur ?new si r) body" by simp
  with ran have up: "?cur < ?new" by (auto simp: list_all_iff)
  obtain r1 t1 where u: "RunPgsqlVersionUpgrade env img mig ?cur ?new t = (r1, t1)"
    by (cases "RunPgsqlVersionUpgrade env img mig ?cur ?new t")
  from u obtain d1 e1 mid1 x1 where
    t1: "t1 = t @ EvMkdirTemp [] ''mgradm-*'' d1 e1 # mid1 @ [EvRemoveAll d1 x1]"
    and m1: "list_all (pgupgrade_mid d1 ?cur ?new r1) mid1"
    by (rule RunPgsqlVersionUpgrade_events)
  have "r1 = None"
  proof (cases r1)
    case None
    then show ?thesis .
  next
    case (Some e)
    with run u up t1 have "body = EvMkdirTemp [] ''mgradm-*'' d1 e1 # mid1 @ [EvRemoveAll d1 x1]"
      by (simp add: Upgrade_stopped_def)
    with ran have "EvRunContainer ''uyuni-upgrade-pgsql'' i a c None \<in> set mid1" by simp
    with m1 have "None = r1" by (auto simp: list_all_iff)
    then show ?thesis by simp
  qed
  with up u show ?thesis by simp
qed

section \<open>Digit strings of equal length\<close>

lemma digit_value_less:
  "isDigit x \<Longrightarrow> isDigit y \<Longrightarrow> (digit_value x < digit_value y) = (x < y)"
  unfolding isDigit_def digit_value_def less_eq_char_def less_char_def
  by auto

lemma digit_value_eq:
  "isDigit x \<Longrightarrow> isDigit y \<Longrightarrow> (digit_value x = digit_value y) = (x = y)"
  unfolding isDigit_def digit_value_def less_eq_char_def
  by (metis diff_diff_cancel diff_le_self le_trans of_char_eq_iff eq_diff_iff)

lemma digit_value_bound: "isDigit x \<Longrightarrow> digit_value x < 10"
  unfolding isDigit_def digit_value_def less_eq_char_def
  by auto

lemma foldl_decimal:
  "foldl (\<lambda>n c. 10 * n + digit_value c) n s = n * 10 ^ length s + decimal s"
  unfolding decimal_def
proof (induction s arbitrary: n)
  case Nil
  show ?case by simp
next
  case (Cons c s)
  let ?f = "\<lambda>n c. 10 * n + digit_value c"
  have a: "foldl ?f (10 * n + digit_value c) s
             = (10 * n + digit_value c) * 10 ^ length s + foldl ?f 0 s"
    by (rule Cons.IH)
  have b: "foldl ?f (digit_value c) s = digit_value c * 10 ^ length s + foldl ?f 0 s"
    by (rule Cons.IH)
  have "foldl ?f n (c # s) = foldl ?f (10 * n + digit_value c) s" by simp
  also have "\<dots> = n * 10 ^ length (c # s) + foldl ?f (digit_value c) s"
    unfolding a b by (simp add: algebra_simps)
  also have "foldl ?f (digit_value c) s = foldl ?f 0 (c # s)" by simp
  finally show ?case .
qed

lemma decimal_Cons: "decimal (c # s) = digit_value c * 10 ^ length s + decimal s"
  using foldl_decimal[of "digit_value c" s] by (simp add: decimal_def)

lemma decimal_bound: "all_digits s \<Longrightarrow> decimal s < 10 ^ length s"
proof (induction s)
  case Nil
  show ?case by (simp add: decimal_def)
next
  case (Cons c s)
  then have d: "digit_value c \<le> 9" and s: "decimal s < 10 ^ length s"
    using digit_value_bound[of c] by (auto simp: all_digits_def)
  have "digit_value c * 10 ^ length s \<le> 9 * 10 ^ length s"
    using d by (rule mult_le_mono1)
  then have "digit_value c * 10 ^ length s + decimal s < 9 * 10 ^ length s + 10 ^ length s"
    using s by (rule add_le_less_mono)
  then show ?case by (simp add: decimal_Cons)
qed

lemma digits_lex_numeric:
  assumes "length a = length b" "all_digits a" "all_digits b"
  shows "(a < b) = (decimal a < decimal b)"
  using assms
proof (induction a b rule: list_induct2)
  case Nil
  show ?case by simp
next
  case (Cons x xs y ys)
  then have dx: "isDigit x" and dy: "isDigit y"
    and axs: "all_digits xs" and ays: "all_digits ys"
    by (auto simp: all_digits_def)
  from Cons axs ays have IH: "(xs < ys) = (decimal xs < decimal ys)" by simp
  let ?p = "(10::nat) ^ length xs"
  have bx: "decimal xs < ?p" using axs by (rule decimal_bound)
  have by': "decimal ys < ?p" using ays Cons.hyps by (metis decimal_bound)
  have num: "(digit_value x * ?p + decimal xs < digit_value y * ?p + decimal ys)
             = (digit_value x < digit_value y
                \<or> digit_value x = digit_value y \<and> decimal xs < decimal ys)"
  proof (cases "digit_value x < digit_value y")
    case True
    then have "Suc (digit_value x) \<le> digit_value y" by simp
    then have "Suc (digit_value x) * ?p \<le> digit_value y * ?p" by (rule mult_le_mono1)
    with bx True show ?thesis by simp
  next
    case False
    show ?thesis
    proof (cases "digit_value x = digit_value y")
      case True
      then show ?thesis by simp
    next
      case neq: False
      with False have "Suc (digit_value y) \<le> digit_value x" by simp
      then have "Suc (digit_value y) * ?p \<le> digit_value x * ?p" by (rule mult_le_mono1)
      with by' False neq show ?thesis by simp
    qed
  qed
  show ?case
    using num IH Cons.hyps digit_value_less[OF dx dy] digit_value_eq[OF dx dy]
    by (simp add: decimal_Cons)
qed

section \<open>Image names of the expected shape\<close>

lemma takeWhile_until: "c \<notin> set a \<Longrightarrow> takeWhile (\<lambda>x. x \<noteq> c) (a @ c # b) = a"
  by (induction a) auto

lemma dropWhile_until: "c \<notin> set a \<Longrightarrow> dropWhile (\<lambda>x. x \<noteq> c) (a @ c # b) = c # b"
  by (induction a) auto

lemma splitAt_found: "c \<notin> set a \<Longrightarrow> splitAt c (a @ c # b) = (a, Some b)"
  by (simp add: splitAt_def takeWhile_until dropWhile_until)

lemma splitAt_none: "c \<notin> set a \<Longrightarrow> splitAt c a = (a, None)"
  by (simp add: splitAt_def)

lemma ComputeImage_untagged:
  assumes "validRegistry h" "CHR ''/'' \<notin> set h" "p \<noteq> []" "CHR '':'' \<notin> set p" "tag \<noteq> []"
  shows "ComputeImage (h @ ''/'' @ p) tag sfx
         = (map toLower h @ ''/'' @ p @ concat sfx @ '':'' @ tag, None)"
  using assms by (simp add: ComputeImage_def assembleImage_def splitAt_found splitAt_none)

lemma ComputeImage_tagged:
  assumes "validRegistry h" "CHR ''/'' \<notin> set h" "p \<noteq> []" "CHR '':'' \<notin> set p"
    "tg \<noteq> []" "CHR '':'' \<notin> set tg"
  shows "ComputeImage (h @ ''/'' @ p @ '':'' @ tg) tag sfx
         = (map toLower h @ ''/'' @ p @ concat sfx @ '':'' @ tg, None)"
  using assms by (simp add: ComputeImage_def assembleImage_def splitAt_found splitAt_none)

lemma RunPgsqlVersionUpgrade_pulls_url:
  assumes "oldPgsql < newPgsql"
    and "os_MkdirTemp env t [] ''mgradm-*'' = (d, None)"
    and "utils_InspectHost env (t @ [EvMkdirTemp [] ''mgradm-*'' d None]) = (hv, None)"
    and "(if Name mig = []
          then utils_ComputeImage env (Name img) (Tag img)
                 [''-migration-'' @ oldPgsql @ ''-'' @ newPgsql]
          else utils_ComputeImage env (Name mig) (Tag img) []) = (url, None)"
  shows "pulls (events_from t (RunPgsqlVersionUpgrade env img mig oldPgsql newPgsql t))
         = [(url, PullPolicy img, sccPullArgs hv)]"
  using assms
  unfolding RunPgsqlVersionUpgrade_def RunPgsqlVersionUpgrade_body_def ext_defs events_from_def
  by (auto split: prod.splits option.splits if_splits)

lemma RunPgsqlVersionUpgrade_no_url:
  assumes "oldPgsql < newPgsql"
    and "os_MkdirTemp env t [] ''mgradm-*'' = (d, None)"
    and "(if Name mig = []
          then utils_ComputeImage env (Name img) (Tag img)
                 [''-migration-'' @ oldPgsql @ ''-'' @ newPgsql]
          else utils_ComputeImage env (Name mig) (Tag img) []) = (url, Some e)"
  shows "pulls (events_from t (RunPgsqlVersionUpgrade env img mig oldPgsql newPgsql t)) = []
       \<and> fst (RunPgsqlVersionUpgrade env img mig oldPgsql newPgsql t)
         = Some (''failed to compute image URL: '' @ e)"
  using assms
  unfolding RunPgsqlVersionUpgrade_def RunPgsqlVersionUpgrade_body_def ext_defs events_from_def
  by (auto split: prod.splits option.splits if_splits)

section \<open>Bundles of the steps\<close>

lemma mounts_dir_first [simp]: "mounts_dir d (''-v'' # (d @ CHR '':'' # x) # rest)"
  by (simp add: mounts_dir_def)

lemma mounts_dir_later [simp]: "mounts_dir d (b # rest) \<Longrightarrow> mounts_dir d (a # b # rest)"
  by (simp add: mounts_dir_def)

lemma inspect_uses_bundle:
  "list_all (inspect_mid env d m e) mid \<Longrightarrow> list_all (uses_bundle d) mid"
  unfolding list_all_iff
proof
  fix ev assume "\<forall>x\<in>set mid. inspect_mid env d m e x" "ev \<in> set mid"
  then have "inspect_mid env d m e ev" by simp
  then show "uses_bundle d ev" by (cases ev) auto
qed

lemma pgupgrade_uses_bundle:
  "list_all (pgupgrade_mid d old new r) mid \<Longrightarrow> list_all (uses_bundle d) mid"
  unfolding list_all_iff
proof
  fix ev assume "\<forall>x\<in>set mid. pgupgrade_mid d old new r x" "ev \<in> set mid"
  then have "pgupgrade_mid d old new r ev" by simp
  then show "uses_bundle d ev" by (cases ev) auto
qed

lemma finalize_uses_bundle:
  "list_all (finalize_mid d si b r) mid \<Longrightarrow> list_all (uses_bundle d) mid"
  unfolding list_all_iff
proof
  fix ev assume "\<forall>x\<in>set mid. finalize_mid d si b r x" "ev \<in> set mid"
  then have "finalize_mid d si b r ev" by simp
  then show "uses_bundle d ev" by (cases ev) auto
qed

lemma postupgrade_uses_bundle:
  "list_all (postupgrade_mid d si r) mid \<Longrightarrow> list_all (uses_bundle d) mid"
  unfolding list_all_iff
proof
  fix ev assume "\<forall>x\<in>set mid. postupgrade_mid d si r x" "ev \<in> set mid"
  then have "postupgrade_mid d si r ev" by simp
  then show "uses_bundle d ev" by (cases ev) auto
qed

lemma owns_bundle_mkdir:
  "list_all (uses_bundle d) mid
    \<Longrightarrow> owns_bundle (EvMkdirTemp [] ''mgradm-*'' d err # mid @ [EvRemoveAll d rerr])"
  by (simp add: owns_bundle_def)

lemma uses_not_removes: "uses_bundle d ev \<Longrightarrow> \<not> removes_bundle d ev"
  by (cases ev) auto

lemma nested_inside:
  "list_all (uses_bundle d) mid \<Longrightarrow> bundles_nested (Some d) (mid @ xs) = bundles_nested (Some d) xs"
  by (induction mid) (auto simp: uses_not_removes)

lemma owns_bundle_nested:
  assumes "owns_bundle es"
  shows "bundles_nested None (es @ xs) = bundles_nested None xs"
proof -
  from assms obtain c rest d where es: "es = c # rest" and c: "creates_bundle c = Some d"
    and rest: "rest \<noteq> []" "removes_bundle d (last rest)" "list_all (uses_bundle d) (butlast rest)"
    by (auto simp: owns_bundle_def split: list.splits option.splits)
  from rest(1) have "rest = butlast rest @ [last rest]" by simp
  then have "bundles_nested (Some d) (rest @ xs)
               = bundles_nested (Some d) (butlast rest @ last rest # xs)"
    by (metis append.assoc append_Cons append_Nil)
  also have "\<dots> = bundles_nested (Some d) (last rest # xs)"
    using rest(3) by (rule nested_inside)
  also have "\<dots> = bundles_nested None xs" using rest(2) by simp
  finally show ?thesis using es c by simp
qed

lemma nested_run_refl: "nested_run t t"
  by (simp add: nested_run_def)

lemma nested_append:
  "bundles_nested cur a \<Longrightarrow> bundles_nested None b \<Longrightarrow> bundles_nested cur (a @ b)"
  by (induction cur a rule: bundles_nested.induct) (auto split: option.splits if_splits)

lemma nested_run_trans: "nested_run t t1 \<Longrightarrow> nested_run t1 t2 \<Longrightarrow> nested_run t t2"
  by (auto simp: nested_run_def nested_append)

lemma nested_run_step: "owns_bundle es \<Longrightarrow> nested_run t (t @ es)"
  using owns_bundle_nested[of es "[]"] by (simp add: nested_run_def)

lemma nested_run_free: "bundle_free ev \<Longrightarrow> creates_bundle ev = None \<Longrightarrow> nested_run t (t @ [ev])"
  by (simp add: nested_run_def)

lemma RunMigration_body_events:
  "RunMigration_body env si pp sock cfg known d t = (r, t')
    \<Longrightarrow> \<exists>mid. t' = t @ mid \<and> list_all (migration_mid d) mid"
  unfolding RunMigration_body_def ext_defs
  by (auto split: option.splits prod.splits)

lemma migration_uses_bundle:
  "list_all (migration_mid d) mid \<Longrightarrow> list_all (uses_bundle d) mid"
  unfolding list_all_iff
proof
  fix ev assume "\<forall>x\<in>set mid. migration_mid d x" "ev \<in> set mid"
  then have "migration_mid d ev" by simp
  then show "uses_bundle d ev" by (cases ev) auto
qed

lemma Inspect_owns_bundle: "owns_bundle (events_from t (Inspect env si pp t))"
proof -
  obtain m e t' where run: "Inspect env si pp t = ((m, e), t')"
    by (cases "Inspect env si pp t") auto
  from run obtain d err mid rerr where
    "t' = t @ EvMkdirTemp [] ''mgradm-*'' d err # mid @ [EvRemoveAll d rerr]"
    "list_all (inspect_mid env d m e) mid"
    by (rule Inspect_events)
  with run show ?thesis
    by (simp add: events_from_def owns_bundle_mkdir inspect_uses_bundle)
qed

lemma RunPgsqlVersionUpgrade_owns_bundle:
  "owns_bundle (events_from t (RunPgsqlVersionUpgrade env img mig old new t))"
proof -
  obtain r t' where run: "RunPgsqlVersionUpgrade env img mig old new t = (r, t')"
    by (cases "RunPgsqlVersionUpgrade env img mig old new t")
  from run obtain d err mid rerr where
    "t' = t @ EvMkdirTemp [] ''mgradm-*'' d err # mid @ [EvRemoveAll d rerr]"
    "list_all (pgupgrade_mid d old new r) mid"
    by (rule RunPgsqlVersionUpgrade_events)
  with run show ?thesis
    by (simp add: events_from_def owns_bundle_mkdir pgupgrade_uses_bundle)
qed

lemma RunPgsqlFinalizeScript_owns_bundle:
  "owns_bundle (events_from t (RunPgsqlFinalizeScript env si b t))"
proof -
  obtain r t' where run: "RunPgsqlFinalizeScript env si b t = (r, t')"
    by (cases "RunPgsqlFinalizeScript env si b t")
  from run obtain d err mid rerr where
    "t' = t @ EvMkdirTemp [] ''mgradm-*'' d err # mid @ [EvRemoveAll d rerr]"
    "list_all (finalize_mid d si b r) mid"
    by (rule RunPgsqlFinalizeScript_events)
  with run show ?thesis
    by (simp add: events_from_def owns_bundle_mkdir finalize_uses_bundle)
qed

lemma RunPostUpgradeScript_owns_bundle:
  "owns_bundle (events_from t (RunPostUpgradeScript env si t))"
proof -
  obtain r t' where run: "RunPostUpgradeScript env si t = (r, t')"
    by (cases "RunPostUpgradeScript env si t")
  from run obtain d err mid rerr where
    "t' = t @ EvMkdirTemp [] ''mgradm-*'' d err # mid @ [EvRemoveAll d rerr]"
    "list_all (postupgrade_mid d si r) mid"
    by (rule RunPostUpgradeScript_events)
  with run show ?thesis
    by (simp add: events_from_def owns_bundle_mkdir postupgrade_uses_bundle)
qed

lemma RunMigration_bundle:
  "(snd (adm_utils_GenerateMigrationScript env t fqdn user False) = None
      \<longrightarrow> owns_bundle (events_from t (RunMigration env si pp sock cfg known fqdn user t)))
   \<and> (\<forall>e. snd (adm_utils_GenerateMigrationScript env t fqdn user False) = Some e
         \<longrightarrow> events_from t (RunMigration env si pp sock cfg known fqdn user t)
             = [EvGenerateMigrationScript fqdn user False
                  (fst (adm_utils_GenerateMigrationScript env t fqdn user False)) (Some e)])"
proof -
  obtain d ge where g: "adm_utils_GenerateMigrationScript env t fqdn user False = (d, ge)"
    by (cases "adm_utils_GenerateMigrationScript env t fqdn user False")
  show ?thesis
  proof (cases ge)
    case (Some e)
    with g show ?thesis
      by (simp add: RunMigration_def GenerateMigrationScript_def events_from_def)
  next
    case None
    let ?t1 = "t @ [EvGenerateMigrationScript fqdn user False d None]"
    obtain r t2 where b: "RunMigration_body env si pp sock cfg known d ?t1 = (r, t2)"
      by (cases "RunMigration_body env si pp sock cfg known d ?t1")
    then obtain mid where mid: "t2 = ?t1 @ mid" "list_all (migration_mid d) mid"
      using RunMigration_body_events by blast
    from mid(2) have "list_all (uses_bundle d) mid" by (rule migration_uses_bundle)
    with g None b mid(1) show ?thesis
      by (simp add: RunMigration_def GenerateMigrationScript_def RemoveAll_def events_from_def
          owns_bundle_def)
  qed
qed

lemma step_nested_run:
  assumes "owns_bundle (events_from t res)" and "prefix t (snd res)"
  shows "nested_run t (snd res)"
proof -
  from assms(2) obtain es where "snd res = t @ es" by (auto simp: prefix_def)
  with assms(1) show ?thesis by (simp add: events_from_def nested_run_step)
qed

lemma Inspect_nested: "Inspect env si pp t = (r, t') \<Longrightarrow> nested_run t t'"
  using step_nested_run[OF Inspect_owns_bundle, of t env si pp]
  by (cases r) (auto elim!: Inspect_events)

lemma RunPgsqlVersionUpgrade_nested:
  "RunPgsqlVersionUpgrade env img mig old new t = (r, t') \<Longrightarrow> nested_run t t'"
  using step_nested_run[OF RunPgsqlVersionUpgrade_owns_bundle, of t env img mig old new]
  by (auto dest: RunPgsqlVersionUpgrade_extends)

lemma RunPgsqlFinalizeScript_nested:
  "RunPgsqlFinalizeScript env si b t = (r, t') \<Longrightarrow> nested_run t t'"
  using step_nested_run[OF RunPgsqlFinalizeScript_owns_bundle, of t env si b]
  by (auto dest: RunPgsqlFinalizeScript_extends)

lemma RunPostUpgradeScript_nested:
  "RunPostUpgradeScript env si t = (r, t') \<Longrightarrow> nested_run t t'"
  using step_nested_run[OF RunPostUpgradeScript_owns_bundle, of t env si]
  by (auto dest: RunPostUpgradeScript_extends)

lemma Upgrade_stopped_nested:
  assumes "Upgrade_stopped env img mig si vals t = (r, t')"
  shows "nested_run t t'"
proof -
  let ?cur = "getv vals ''current_pg_version''"
  let ?new = "getv vals ''image_pg_version''"
  have finish: "nested_run t1 t'"
    if "(case RunPgsqlFinalizeScript env si b t1 of
        (Some e, t2) \<Rightarrow> (Some (''cannot run PostgreSQL version upgrade script: '' @ e), t2)
      | (None, t2) \<Rightarrow>
     (case RunPostUpgradeScript env si t2 of
        (Some e, t3) \<Rightarrow> (Some (''cannot run post upgrade script: '' @ e), t3)
      | (None, t3) \<Rightarrow>
     (case GenerateSystemdConfFile env ''uyuni-server'' ''Service''
             (''Environment=UYUNI_IMAGE='' @ si) t3 of
        (Some e, t4) \<Rightarrow> (Some e, t4)
      | (None, t4) \<Rightarrow> ReloadDaemon env False t4))) = (r, t')" for b t1
  proof -
    obtain r1 t2 where f: "RunPgsqlFinalizeScript env si b t1 = (r1, t2)"
      by (cases "RunPgsqlFinalizeScript env si b t1")
    then have n1: "nested_run t1 t2" by (rule RunPgsqlFinalizeScript_nested)
    obtain r2 t3 where p: "RunPostUpgradeScript env si t2 = (r2, t3)"
      by (cases "RunPostUpgradeScript env si t2")
    then have n2: "nested_run t2 t3" by (rule RunPostUpgradeScript_nested)
    have n3: "nested_run t3 (t3 @ [EvGenerateSystemdConfFile a b' c x])" for a b' c x
      by (rule nested_run_free) simp_all
    have n4: "nested_run t3 (t3 @ [EvGenerateSystemdConfFile a b' c x, EvReloadDaemon y z])"
      for a b' c x y z
      by (simp add: nested_run_def)
    from that f p n1 n2 n3 n4 show ?thesis
      by (auto simp: GenerateSystemdConfFile_def ReloadDaemon_def split: option.splits
          intro: nested_run_trans)
  qed
  consider (up) "?cur < ?new" | (same) "?new = ?cur" | (down) "?new < ?cur"
    by fastforce
  then show ?thesis
  proof cases
    case up
    obtain r1 t1 where u: "RunPgsqlVersionUpgrade env img mig ?cur ?new t = (r1, t1)"
      by (cases "RunPgsqlVersionUpgrade env img mig ?cur ?new t")
    then have n: "nested_run t t1" by (rule RunPgsqlVersionUpgrade_nested)
    show ?thesis
    proof (cases r1)
      case (Some e)
      with assms u up n show ?thesis by (simp add: Upgrade_stopped_def)
    next
      case None
      with assms u up have "nested_run t1 t'"
        by (intro finish) (simp add: Upgrade_stopped_def)
      with n show ?thesis by (rule nested_run_trans)
    qed
  next
    case same
    with assms show ?thesis by (intro finish) (simp add: Upgrade_stopped_def)
  next
    case down
    then have "\<not> ?cur < ?new" "?new \<noteq> ?cur" by auto
    with assms show ?thesis by (simp add: Upgrade_stopped_def nested_run_refl)
  qed
qed

lemma nested_run_snoc:
  assumes "nested_run t u" and "bundle_free ev" and "creates_bundle ev = None"
  shows "nested_run t (u @ [ev])"
  using assms(1) nested_run_free[OF assms(2,3), of u] by (rule nested_run_trans)

lemma Upgrade_nested: "nested_run t (snd (Upgrade env img mig args t))"
proof -
  let ?svc = "ServerService env"
  let ?cnx = "NewConnection ''podman'' (ServerContainerName env) []"
  obtain si ce where ci: "utils_ComputeImage env (Name img) (Tag img) [] = (si, ce)"
    by (cases "utils_ComputeImage env (Name img) (Tag img) []")
  obtain m ie t1 where insp: "Inspect env si (PullPolicy img) t = ((m, ie), t1)"
    by (cases "Inspect env si (PullPolicy img) t") auto
  then have n1: "nested_run t t1" by (rule Inspect_nested)
  obtain se t2 where sane: "SanityCheck env ?cnx m si t1 = (se, t2)"
    by (cases "SanityCheck env ?cnx m si t1")
  then have t2: "t2 = t1 @ [EvSanityCheck ?cnx m si se]" by (auto simp: SanityCheck_def)
  have n2: "nested_run t t2" unfolding t2 using n1 by (rule nested_run_snoc) simp_all
  obtain pe t3 where stp: "StopService env ?svc t2 = (pe, t3)"
    by (cases "StopService env ?svc t2")
  then have t3: "t3 = t2 @ [EvStopService ?svc pe]" by (auto simp: StopService_def)
  have n3: "nested_run t t3" unfolding t3 using n2 by (rule nested_run_snoc) simp_all
  obtain r' t4 where body: "Upgrade_stopped env img mig si m t3 = (r', t4)"
    by (cases "Upgrade_stopped env img mig si m t3")
  then have "nested_run t3 t4" by (rule Upgrade_stopped_nested)
  with n3 have n4: "nested_run t t4" by (rule nested_run_trans)
  have n5: "nested_run t (t4 @ [EvStartService ?svc x])" for x
    using n4 by (rule nested_run_snoc) simp_all
  from ci insp sane stp body n1 n2 n3 n5 show ?thesis
    by (auto simp: Upgrade_def StartService_def nested_run_refl split: option.splits)
qed

section \<open>Inspection never returns a partial mapping\<close>

text \<open>
  Claim C7. Whenever \<^verbatim>\<open>Inspect\<close> returns an error (the temporary directory, the host
  inspection, the image pull, the script generation, the helper container or the reading
  of the output file failed), the mapping it returns with it is empty, also when
  \<^verbatim>\<open>ReadInspectData\<close> handed back a partly filled mapping together with its error.
\<close>

theorem Inspect_error_returns_empty_facts:
  "snd (fst (Inspect env serverImage pullPolicy t)) \<noteq> None
    \<Longrightarrow> fst (fst (Inspect env serverImage pullPolicy t)) = []"
  unfolding Inspect_def Inspect_body_def
  by (auto split: prod.splits option.splits)

theorem Inspect_error_returns_empty_facts_witness:
  "snd (fst (Inspect partial_read_host ''registry.opensuse.org/uyuni/server:latest'' ''missing'' []))
     = Some ''cannot inspect data. invalid line: current_pg_version''
   \<and> fst (fst (Inspect partial_read_host ''registry.opensuse.org/uyuni/server:latest'' ''missing'' []))
     = []"
proof -
  let ?run = "Inspect partial_read_host ''registry.opensuse.org/uyuni/server:latest'' ''missing'' []"
  have err: "snd (fst ?run) = Some ''cannot inspect data. invalid line: current_pg_version''"
    by code_simp
  then have "snd (fst ?run) \<noteq> None" by simp
  then have "fst (fst ?run) = []" by (rule Inspect_error_returns_empty_facts)
  with err show ?thesis by simp
qed

section \<open>The deferred restart\<close>

text \<open>
  Claim C1. Once \<^verbatim>\<open>Upgrade\<close> has stopped the service (its run holds the event of a
  successful \<^verbatim>\<open>StopService\<close>), the run ends with the call of \<^verbatim>\<open>StartService\<close> on the
  same service, whatever happened in between and whatever that call returns. A call
  that fails after the stop fixes what \<^verbatim>\<open>Upgrade\<close> returns: the error of that call as
  its step wraps it, under the prefix \<^verbatim>\<open>Upgrade\<close> gives the step (the database
  migration, the finalization, the post-upgrade step), and not the result of the restart.
  The calls are the creation of the script directory (the directory of the post-upgrade
  step is the one created after the finalization container has run), the computation of
  the migration image, the host inspection, the image pull, the generation of a script
  and the helper container; the systemd configuration and the daemon reload that end a
  run hand their error on as it is. The removal of a script directory is no such call:
  the code drops its result.
\<close>

theorem Upgrade_restarts_service_after_stop:
  assumes run: "Upgrade env img mig args t = (r, t @ es)"
    and stop: "EvStopService (ServerService env) None \<in> set es"
  shows "(\<exists>pre post e. es = pre @ EvStopService (ServerService env) None # post
                            @ [EvStartService (ServerService env) e])
       \<and> (\<forall>dir pat d x. EvMkdirTemp dir pat d (Some x) \<in> set es
             \<longrightarrow> r = Some ((if \<exists>i a c. EvRunContainer ''uyuni-finalize-pgsql'' i a c None \<in> set es
                              then ''cannot run post upgrade script: ''
                              else ''cannot run PostgreSQL version upgrade script: '')
                             @ ''failed to create temporary directory: '' @ x))
       \<and> (\<forall>d vals u x.
             EvReadInspectData d vals None \<in> set es
             \<and> getv vals ''current_pg_version'' < getv vals ''image_pg_version''
             \<and> (\<forall>dir pat d' y. EvMkdirTemp dir pat d' (Some y) \<notin> set es)
             \<and> (if Name mig = []
                 then utils_ComputeImage env (Name img) (Tag img)
                        [''-migration-'' @ getv vals ''current_pg_version'' @ ''-''
                           @ getv vals ''image_pg_version'']
                 else utils_ComputeImage env (Name mig) (Tag img) []) = (u, Some x)
             \<longrightarrow> r = Some (''cannot run PostgreSQL version upgrade script: ''
                             @ ''failed to compute image URL: '' @ x))
       \<and> (\<forall>hv x. EvInspectHost hv (Some x) \<in> set es
             \<longrightarrow> r = Some (''cannot run PostgreSQL version upgrade script: ''
                             @ ''cannot inspect host values: '' @ x))
       \<and> (\<forall>i pp pa p x. EvPrepareImage i pp pa p (Some x) \<in> set es
             \<longrightarrow> r = Some (''cannot run PostgreSQL version upgrade script: '' @ x))
       \<and> (\<forall>d old new k n x. EvGeneratePgsqlVersionUpgradeScript d old new k n (Some x) \<in> set es
             \<longrightarrow> r = Some (''cannot run PostgreSQL version upgrade script: ''
                             @ ''cannot generate PostgreSQL database version upgrade script '' @ x))
       \<and> (\<forall>i a c x. EvRunContainer ''uyuni-upgrade-pgsql'' i a c (Some x) \<in> set es
             \<longrightarrow> r = Some (''cannot run PostgreSQL version upgrade script: '' @ x))
       \<and> (\<forall>d a s b c k n x. EvGenerateFinalizePostgresScript d a s b c k n (Some x) \<in> set es
             \<longrightarrow> r = Some (''cannot run PostgreSQL version upgrade script: ''
                             @ ''cannot generate PostgreSQL finalization script: '' @ x))
       \<and> (\<forall>i a c x. EvRunContainer ''uyuni-finalize-pgsql'' i a c (Some x) \<in> set es
             \<longrightarrow> r = Some (''cannot run PostgreSQL version upgrade script: '' @ x))
       \<and> (\<forall>d h n x. EvGeneratePostUpgradeScript d h n (Some x) \<in> set es
             \<longrightarrow> r = Some (''cannot run post upgrade script: ''
                             @ ''cannot generate PostgreSQL finalization script: '' @ x))
       \<and> (\<forall>i a c x. EvRunContainer ''uyuni-post-upgrade'' i a c (Some x) \<in> set es
             \<longrightarrow> r = Some (''cannot run post upgrade script: '' @ x))
       \<and> (\<forall>n s c x. EvGenerateSystemdConfFile n s c (Some x) \<in> set es \<longrightarrow> r = Some x)
       \<and> (\<forall>b e. EvReloadDaemon b e \<in> set es \<longrightarrow> r = e)"
proof -
  let ?svc = "ServerService env"
  let ?si = "fst (utils_ComputeImage env (Name img) (Tag img) [])"
  from run stop obtain vals pre body e where
    es: "es = pre @ EvStopService ?svc None # body @ [EvStartService ?svc e]"
    and pre: "list_all (discovery_event vals) pre"
    and st: "Upgrade_stopped env img mig ?si vals (t @ pre @ [EvStopService ?svc None])
              = (r, t @ pre @ EvStopService ?svc None # body)"
    and body: "list_all (stopped_event (getv vals ''current_pg_version'')
        (getv vals ''image_pg_version'') ?si r) body"
    by (rule Upgrade_stopped_run)
  let ?cur = "getv vals ''current_pg_version''"
  let ?new = "getv vals ''image_pg_version''"
  let ?t3 = "t @ pre @ [EvStopService ?svc None]"
  from st have st': "Upgrade_stopped env img mig ?si vals ?t3 = (r, ?t3 @ body)" by simp
  have inbody: "ev \<in> set body"
    if "ev \<in> set es" "\<not> discovery_event vals ev" "\<forall>s x. ev \<noteq> EvStopService s x"
      "\<forall>s x. ev \<noteq> EvStartService s x" for ev
    using that es pre by (auto simp: list_all_iff)
  have pinned: "stopped_event ?cur ?new ?si r ev"
    if "ev \<in> set es" "\<not> discovery_event vals ev" "\<forall>s x. ev \<noteq> EvStopService s x"
      "\<forall>s x. ev \<noteq> EvStartService s x" for ev
    using inbody[OF that] body by (simp add: list_all_iff)
  have c1: "\<exists>pre post e. es = pre @ EvStopService ?svc None # post @ [EvStartService ?svc e]"
    using es by blast
  have fin_iff: "(\<exists>i a c. EvRunContainer ''uyuni-finalize-pgsql'' i a c None \<in> set es)
      = (\<exists>i a c. EvRunContainer ''uyuni-finalize-pgsql'' i a c None \<in> set body)"
    using es pre by (auto simp: list_all_iff)
  have c2: "r = Some ((if \<exists>i a c. EvRunContainer ''uyuni-finalize-pgsql'' i a c None \<in> set es
                              then ''cannot run post upgrade script: ''
                              else ''cannot run PostgreSQL version upgrade script: '')
                             @ ''failed to create temporary directory: '' @ x)"
    if "EvMkdirTemp dir pat d (Some x) \<in> set es" for dir pat d x
  proof -
    from that have "EvMkdirTemp dir pat d (Some x) \<in> set body" by (intro inbody) simp_all
    from Upgrade_stopped_mkdir_failure[OF st' this] show ?thesis unfolding fin_iff .
  qed
  have c3: "r = Some (''cannot run PostgreSQL version upgrade script: ''
                             @ ''failed to compute image URL: '' @ x)"
    if facts: "EvReadInspectData d vals' None \<in> set es"
      and up: "getv vals' ''current_pg_version'' < getv vals' ''image_pg_version''"
      and nomk: "\<forall>dir pat d' y. EvMkdirTemp dir pat d' (Some y) \<notin> set es"
      and ci: "(if Name mig = []
                 then utils_ComputeImage env (Name img) (Tag img)
                        [''-migration-'' @ getv vals' ''current_pg_version'' @ ''-''
                           @ getv vals' ''image_pg_version'']
                 else utils_ComputeImage env (Name mig) (Tag img) []) = (u, Some x)"
    for d vals' u x
  proof -
    have vals: "vals = vals'"
      using facts_in_discovery[OF es pre body facts] by simp
    obtain r1 t1 where u: "RunPgsqlVersionUpgrade env img mig ?cur ?new ?t3 = (r1, t1)"
      by (cases "RunPgsqlVersionUpgrade env img mig ?cur ?new ?t3")
    from RunPgsqlVersionUpgrade_compute_failure[OF u up[folded vals] ci[folded vals]]
    obtain d1 err rerr where
      t1: "t1 = ?t3 @ [EvMkdirTemp [] ''mgradm-*'' d1 err, EvRemoveAll d1 rerr]"
      and r1: "r1 = (case err of
                     None \<Rightarrow> Some (''failed to compute image URL: '' @ x)
                   | Some y \<Rightarrow> Some (''failed to create temporary directory: '' @ y))"
      by blast
    from Upgrade_stopped_upgrade_prefix[OF st' up[folded vals]] u
    have pf: "prefix t1 (?t3 @ body)"
      and err: "\<forall>e. r1 = Some e \<longrightarrow> r = Some (''cannot run PostgreSQL version upgrade script: '' @ e)"
      by simp_all
    from pf t1 have "EvMkdirTemp [] ''mgradm-*'' d1 err \<in> set body"
      by (auto simp: prefix_def)
    with es have "EvMkdirTemp [] ''mgradm-*'' d1 err \<in> set es" by simp
    with nomk have "err = None" by (cases err) auto
    with r1 err show ?thesis by simp
  qed
  have c4: "r = Some (''cannot run PostgreSQL version upgrade script: ''
                             @ ''cannot inspect host values: '' @ x)"
    if "EvInspectHost hv (Some x) \<in> set es" for hv x
    using pinned[OF that] by simp
  have c5: "r = Some (''cannot run PostgreSQL version upgrade script: '' @ x)"
    if "EvPrepareImage i pp pa p (Some x) \<in> set es" for i pp pa p x
    using pinned[OF that] by simp
  have c6: "r = Some (''cannot run PostgreSQL version upgrade script: ''
                 @ ''cannot generate PostgreSQL database version upgrade script '' @ x)"
    if "EvGeneratePgsqlVersionUpgradeScript d old new k n (Some x) \<in> set es" for d old new k n x
    using pinned[OF that] by simp
  have c7: "r = Some (''cannot run PostgreSQL version upgrade script: '' @ x)"
    if "EvRunContainer ''uyuni-upgrade-pgsql'' i a c (Some x) \<in> set es" for i a c x
    using pinned[OF that] by simp
  have c8: "r = Some (''cannot run PostgreSQL version upgrade script: ''
                             @ ''cannot generate PostgreSQL finalization script: '' @ x)"
    if "EvGenerateFinalizePostgresScript d a s b c k n (Some x) \<in> set es" for d a s b c k n x
    using pinned[OF that] by simp
  have c9: "r = Some (''cannot run PostgreSQL version upgrade script: '' @ x)"
    if "EvRunContainer ''uyuni-finalize-pgsql'' i a c (Some x) \<in> set es" for i a c x
    using pinned[OF that] by simp
  have c10: "r = Some (''cannot run post upgrade script: ''
                             @ ''cannot generate PostgreSQL finalization script: '' @ x)"
    if "EvGeneratePostUpgradeScript d h n (Some x) \<in> set es" for d h n x
    using pinned[OF that] by simp
  have c11: "r = Some (''cannot run post upgrade script: '' @ x)"
    if "EvRunContainer ''uyuni-post-upgrade'' i a c (Some x) \<in> set es" for i a c x
    using pinned[OF that] by simp
  have c12: "r = Some x" if "EvGenerateSystemdConfFile n s c (Some x) \<in> set es" for n s c x
    using pinned[OF that] by simp
  have c13: "r = e'" if "EvReloadDaemon b e' \<in> set es" for b e'
    using pinned[OF that] by simp
  from c1 c2 c3 c4 c5 c6 c7 c8 c9 c10 c11 c12 c13 show ?thesis by blast
qed

theorem Upgrade_restarts_service_after_stop_witness:
  "EvStopService ''uyuni-server'' None
     \<in> set (snd (Upgrade (failing_pull_host
                    ''registry.opensuse.org/uyuni/server-migration-14-16:latest'' upgrade_facts)
                    example_image no_image [] []))
   \<and> EvPrepareImage ''registry.opensuse.org/uyuni/server-migration-14-16:latest'' ''missing'' []
        [] (Some ''manifest unknown'')
     \<in> set (snd (Upgrade (failing_pull_host
                    ''registry.opensuse.org/uyuni/server-migration-14-16:latest'' upgrade_facts)
                    example_image no_image [] []))
   \<and> fst (Upgrade (failing_pull_host
              ''registry.opensuse.org/uyuni/server-migration-14-16:latest'' upgrade_facts)
            example_image no_image [] [])
       = Some ''cannot run PostgreSQL version upgrade script: manifest unknown''
   \<and> last (snd (Upgrade (failing_pull_host
                    ''registry.opensuse.org/uyuni/server-migration-14-16:latest'' upgrade_facts)
                  example_image no_image [] []))
       = EvStartService ''uyuni-server'' None
   \<and> EvStopService ''uyuni-server'' None
     \<in> set (snd (Upgrade (failing_mkdir_after_host ''uyuni-finalize-pgsql'' upgrade_facts)
                    example_image no_image [] []))
   \<and> EvMkdirTemp [] ''mgradm-*'' [] (Some ''no space left on device'')
     \<in> set (snd (Upgrade (failing_mkdir_after_host ''uyuni-finalize-pgsql'' upgrade_facts)
                    example_image no_image [] []))
   \<and> fst (Upgrade (failing_mkdir_after_host ''uyuni-finalize-pgsql'' upgrade_facts)
            example_image no_image [] [])
       = Some ''cannot run post upgrade script: failed to create temporary directory: no space left on device''
   \<and> last (snd (Upgrade (failing_mkdir_after_host ''uyuni-finalize-pgsql'' upgrade_facts)
                  example_image no_image [] []))
       = EvStartService ''uyuni-server'' None"
proof -
  let ?H = "failing_pull_host ''registry.opensuse.org/uyuni/server-migration-14-16:latest''
              upgrade_facts"
  let ?run = "Upgrade ?H example_image no_image [] []"
  have svc: "ServerService ?H = ''uyuni-server''"
    by code_simp
  have run: "?run = (fst ?run, [] @ snd ?run)" by simp
  have stop: "EvStopService (ServerService ?H) None \<in> set (snd ?run)"
    by code_simp
  have fail: "EvPrepareImage ''registry.opensuse.org/uyuni/server-migration-14-16:latest''
        ''missing'' [] [] (Some ''manifest unknown'') \<in> set (snd ?run)"
    by code_simp
  have lst: "last (snd ?run) = EvStartService ''uyuni-server'' None"
    by code_simp
  note main = Upgrade_restarts_service_after_stop[OF run stop]
  from main have "\<forall>i pp pa p x. EvPrepareImage i pp pa p (Some x) \<in> set (snd ?run)
        \<longrightarrow> fst ?run = Some (''cannot run PostgreSQL version upgrade script: '' @ x)"
    by (elim conjE)
  with fail
  have "fst ?run = Some (''cannot run PostgreSQL version upgrade script: '' @ ''manifest unknown'')"
    by blast
  then have res: "fst ?run = Some ''cannot run PostgreSQL version upgrade script: manifest unknown''"
    by simp
  let ?K = "failing_mkdir_after_host ''uyuni-finalize-pgsql'' upgrade_facts"
  let ?run2 = "Upgrade ?K example_image no_image [] []"
  have svc2: "ServerService ?K = ''uyuni-server''"
    by code_simp
  have run2: "?run2 = (fst ?run2, [] @ snd ?run2)" by simp
  have stop2: "EvStopService (ServerService ?K) None \<in> set (snd ?run2)"
    by code_simp
  have fail2: "EvMkdirTemp [] ''mgradm-*'' [] (Some ''no space left on device'') \<in> set (snd ?run2)"
    by code_simp
  have "EvRunContainer ''uyuni-finalize-pgsql'' ''registry.opensuse.org/uyuni/server:latest''
          [''-v'', ''/tmp/mgradm-xxxxxxxxxxxxxxx:/var/lib/uyuni-tools/'',
           ''--security-opt'', ''label:disable'']
          [''/var/lib/uyuni-tools/pgsqlFinalize.sh''] None \<in> set (snd ?run2)"
    by code_simp
  then have ran: "\<exists>i a c. EvRunContainer ''uyuni-finalize-pgsql'' i a c None \<in> set (snd ?run2)"
    by blast
  have lst2: "last (snd ?run2) = EvStartService ''uyuni-server'' None"
    by code_simp
  note main2 = Upgrade_restarts_service_after_stop[OF run2 stop2]
  from main2 have "\<forall>dir pat d x. EvMkdirTemp dir pat d (Some x) \<in> set (snd ?run2)
        \<longrightarrow> fst ?run2 = Some ((if \<exists>i a c. EvRunContainer ''uyuni-finalize-pgsql'' i a c None
                                 \<in> set (snd ?run2)
                           then ''cannot run post upgrade script: ''
                           else ''cannot run PostgreSQL version upgrade script: '')
                          @ ''failed to create temporary directory: '' @ x)"
    by (elim conjE)
  with fail2
  have "fst ?run2 = Some ((if \<exists>i a c. EvRunContainer ''uyuni-finalize-pgsql'' i a c None
                                 \<in> set (snd ?run2)
                           then ''cannot run post upgrade script: ''
                           else ''cannot run PostgreSQL version upgrade script: '')
                          @ ''failed to create temporary directory: '' @ ''no space left on device'')"
    by blast
  with ran have res2: "fst ?run2 = Some ''cannot run post upgrade script: failed to create temporary directory: no space left on device''"
    by simp
  from stop fail res lst svc stop2 fail2 res2 lst2 svc2 show ?thesis by simp
qed

section \<open>The comparison of the database versions\<close>

text \<open>
  Claim C2, as the code has it. \<^verbatim>\<open>Upgrade\<close> compares the two version strings with
  Go's string order, byte by byte; nothing converts them to numbers. When the image
  version is greater than the current one in that order, the first step after the stop
  is \<^verbatim>\<open>RunPgsqlVersionUpgrade\<close> on the current and the image version, and its error
  is returned under the prefix of the step. The string order agrees with the numeric
  one for decimal numbers written with the same number of digits, so a numerically
  greater image version of the same length takes the branch as well.
\<close>

theorem Upgrade_greater_version_runs_db_upgrade:
  assumes run: "Upgrade env img mig args t = (r, t @ es)"
    and stop: "EvStopService (ServerService env) None \<in> set es"
    and facts: "EvReadInspectData d vals None \<in> set es"
    and gt: "getv vals ''current_pg_version'' < getv vals ''image_pg_version''
             \<or> all_digits (getv vals ''current_pg_version'')
               \<and> all_digits (getv vals ''image_pg_version'')
               \<and> length (getv vals ''current_pg_version'') = length (getv vals ''image_pg_version'')
               \<and> decimal (getv vals ''current_pg_version'') < decimal (getv vals ''image_pg_version'')"
  shows "\<exists>pre post.
           es = pre @ EvStopService (ServerService env) None # post
           \<and> prefix
               (events_from (t @ pre @ [EvStopService (ServerService env) None])
                  (RunPgsqlVersionUpgrade env img mig (getv vals ''current_pg_version'')
                     (getv vals ''image_pg_version'')
                     (t @ pre @ [EvStopService (ServerService env) None])))
               post
           \<and> (\<forall>e. fst (RunPgsqlVersionUpgrade env img mig (getv vals ''current_pg_version'')
                          (getv vals ''image_pg_version'')
                          (t @ pre @ [EvStopService (ServerService env) None])) = Some e
                 \<longrightarrow> r = Some (''cannot run PostgreSQL version upgrade script: '' @ e))"
proof -
  let ?svc = "ServerService env"
  let ?si = "fst (utils_ComputeImage env (Name img) (Tag img) [])"
  let ?cur = "getv vals ''current_pg_version''"
  let ?new = "getv vals ''image_pg_version''"
  from gt have up: "?cur < ?new"
    using digits_lex_numeric[of ?cur ?new] by auto
  from run stop obtain vals' pre body e where
    es: "es = pre @ EvStopService ?svc None # body @ [EvStartService ?svc e]"
    and pre: "list_all (discovery_event vals') pre"
    and st: "Upgrade_stopped env img mig ?si vals' (t @ pre @ [EvStopService ?svc None])
              = (r, t @ pre @ EvStopService ?svc None # body)"
    and body: "list_all (stopped_event (getv vals' ''current_pg_version'')
                 (getv vals' ''image_pg_version'') ?si r) body"
    by (rule Upgrade_stopped_run)
  have vals: "vals' = vals"
    using facts_in_discovery[OF es pre body facts] by simp
  let ?t3 = "t @ pre @ [EvStopService ?svc None]"
  let ?step = "RunPgsqlVersionUpgrade env img mig ?cur ?new ?t3"
  from st up have pf: "prefix (snd ?step) (?t3 @ body)"
    and err: "\<forall>e. fst ?step = Some e
                \<longrightarrow> r = Some (''cannot run PostgreSQL version upgrade script: '' @ e)"
    unfolding vals using Upgrade_stopped_upgrade_prefix[of env img mig ?si vals ?t3 r "?t3 @ body"]
    by simp_all
  obtain ru tu where u: "?step = (ru, tu)" by (cases ?step)
  then have "prefix ?t3 tu" by (rule RunPgsqlVersionUpgrade_extends)
  with pf u have "prefix (events_from ?t3 ?step) body"
    by (auto simp: events_from_def prefix_def)
  then have "prefix (events_from ?t3 ?step) (body @ [EvStartService ?svc e])"
    by (rule prefix_prefix)
  with es err show ?thesis by blast
qed

theorem Upgrade_greater_version_runs_db_upgrade_witness:
  "EvStopService ''uyuni-server'' None
     \<in> set (snd (Upgrade (example_host upgrade_facts) example_image no_image [] []))
   \<and> EvReadInspectData ''/tmp/mgradm-'' upgrade_facts None
     \<in> set (snd (Upgrade (example_host upgrade_facts) example_image no_image [] []))
   \<and> all_digits (getv upgrade_facts ''current_pg_version'')
   \<and> all_digits (getv upgrade_facts ''image_pg_version'')
   \<and> length (getv upgrade_facts ''current_pg_version'')
       = length (getv upgrade_facts ''image_pg_version'')
   \<and> decimal (getv upgrade_facts ''current_pg_version'')
       < decimal (getv upgrade_facts ''image_pg_version'')
   \<and> EvRunContainer ''uyuni-upgrade-pgsql''
        ''registry.opensuse.org/uyuni/server-migration-14-16:latest''
        [''-v'', ''/tmp/mgradm-xxxxxxxxx:/var/lib/uyuni-tools/'', ''--security-opt'', ''label:disable'']
        [''/var/lib/uyuni-tools/pgsqlVersionUpgrade.sh''] None
     \<in> set (snd (Upgrade (example_host upgrade_facts) example_image no_image [] []))
   \<and> fst (Upgrade (example_host upgrade_facts) example_image no_image [] []) = None"
proof -
  let ?H = "example_host upgrade_facts"
  let ?run = "Upgrade ?H example_image no_image [] []"
  have run: "?run = (fst ?run, [] @ snd ?run)" by simp
  have svc: "ServerService ?H = ''uyuni-server''" by code_simp
  have stop: "EvStopService ''uyuni-server'' None \<in> set (snd ?run)"
    by code_simp
  have facts: "EvReadInspectData ''/tmp/mgradm-'' upgrade_facts None \<in> set (snd ?run)"
    by code_simp
  have digits: "all_digits (getv upgrade_facts ''current_pg_version'')
      \<and> all_digits (getv upgrade_facts ''image_pg_version'')
      \<and> length (getv upgrade_facts ''current_pg_version'')
          = length (getv upgrade_facts ''image_pg_version'')
      \<and> decimal (getv upgrade_facts ''current_pg_version'')
          < decimal (getv upgrade_facts ''image_pg_version'')"
    by code_simp
  have container: "EvRunContainer ''uyuni-upgrade-pgsql''
        ''registry.opensuse.org/uyuni/server-migration-14-16:latest''
        [''-v'', ''/tmp/mgradm-xxxxxxxxx:/var/lib/uyuni-tools/'', ''--security-opt'', ''label:disable'']
        [''/var/lib/uyuni-tools/pgsqlVersionUpgrade.sh''] None \<in> set (snd ?run)"
    by code_simp
  have res: "fst ?run = None" by code_simp
  from stop svc have stop': "EvStopService (ServerService ?H) None \<in> set (snd ?run)" by simp
  from digits
  have "\<exists>pre post. snd ?run = pre @ EvStopService (ServerService ?H) None # post"
    using Upgrade_greater_version_runs_db_upgrade[OF run stop' facts] by blast
  with stop facts digits container res show ?thesis by simp
qed

text \<open>
  With versions of different lengths the two orders part: from 9 to 10 the number
  grows, the string does not, and \<^verbatim>\<open>Upgrade\<close> refuses the upgrade as a downgrade.
\<close>

theorem Upgrade_numeric_order_counterexample:
  "decimal (getv single_digit_facts ''current_pg_version'')
     < decimal (getv single_digit_facts ''image_pg_version'')
   \<and> Upgrade (example_host single_digit_facts) example_image no_image [] []
     = (Some ''trying to downgrade postgresql from 9 to 10'',
        [EvMkdirTemp [] ''mgradm-*'' ''/tmp/mgradm-'' None,
         EvInspectHost [] None,
         EvPrepareImage ''registry.opensuse.org/uyuni/server:latest'' ''missing'' []
           ''registry.opensuse.org/uyuni/server:latest'' None,
         EvGenerateInspectContainerScript ''/tmp/mgradm-'' None,
         EvRunContainer ''uyuni-inspect'' ''registry.opensuse.org/uyuni/server:latest''
           [''-v'', ''/tmp/mgradm-:/var/lib/uyuni-tools'', ''--security-opt'', ''label:disable'']
           [''/var/lib/uyuni-tools/inspect.sh''] None,
         EvReadInspectData ''/tmp/mgradm-'' single_digit_facts None,
         EvRemoveAll ''/tmp/mgradm-'' None,
         EvSanityCheck (''podman'', ''uyuni-server'', []) single_digit_facts
           ''registry.opensuse.org/uyuni/server:latest'' None,
         EvStopService ''uyuni-server'' None,
         EvStartService ''uyuni-server'' None])"
  by code_simp

section \<open>Downgrades\<close>

text \<open>
  Claim C3, as the code has it. When the inspection reports an image version below the
  current one (in the string order), \<^verbatim>\<open>Upgrade\<close> fails, and the only helper container
  of the whole run is the inspection one. The versions are compared after the service
  has been stopped: when the sanity check and the stop succeed, the error is
  \<^verbatim>\<open>trying to downgrade postgresql from <current> to <image>\<close>, and the run ends with
  the stop followed at once by the deferred start.
\<close>

theorem Upgrade_rejects_downgrade_after_stop:
  assumes run: "Upgrade env img mig args t = (r, t @ es)"
    and facts: "EvReadInspectData d vals None \<in> set es"
    and down: "getv vals ''image_pg_version'' < getv vals ''current_pg_version''"
  shows "r \<noteq> None
       \<and> (\<forall>n i a c e. EvRunContainer n i a c e \<in> set es \<longrightarrow> n = ''uyuni-inspect'')
       \<and> (EvStopService (ServerService env) None \<in> set es \<longrightarrow>
            r = Some (''trying to downgrade postgresql from ''
                       @ getv vals ''current_pg_version'' @ '' to ''
                       @ getv vals ''image_pg_version'')
            \<and> (\<exists>pre e. es = pre @ [EvStopService (ServerService env) None,
                                     EvStartService (ServerService env) e]))"
  using run
proof (cases rule: Upgrade_run_cases)
  case (aborted es')
  then have "es' = es" by simp
  with aborted show ?thesis by (auto simp: list_all_iff)
next
  case (stopped vals' pre body e)
  let ?svc = "ServerService env"
  from stopped(2) have es: "es = pre @ EvStopService ?svc None # body @ [EvStartService ?svc e]"
    by simp
  have vals: "vals' = vals"
    using facts_in_discovery[OF es stopped(3) stopped(5) facts] by simp
  from down have nup: "\<not> getv vals ''current_pg_version'' < getv vals ''image_pg_version''"
    and neq: "getv vals ''image_pg_version'' \<noteq> getv vals ''current_pg_version''" by auto
  from stopped(4) nup neq
  have r: "r = Some (''trying to downgrade postgresql from ''
                       @ getv vals ''current_pg_version'' @ '' to ''
                       @ getv vals ''image_pg_version'')"
    and body: "body = []"
    unfolding vals Upgrade_stopped_def by auto
  from es body have shape: "es = pre @ [EvStopService ?svc None, EvStartService ?svc e]" by simp
  have "n = ''uyuni-inspect''" if "EvRunContainer n i a c x \<in> set es" for n i a c x
    using that shape stopped(3) by (auto simp: list_all_iff)
  with r shape show ?thesis by blast
qed

theorem Upgrade_rejects_downgrade_after_stop_witness:
  "EvReadInspectData ''/tmp/mgradm-'' downgrade_facts None
     \<in> set (snd (Upgrade (example_host downgrade_facts) example_image no_image [] []))
   \<and> getv downgrade_facts ''image_pg_version'' < getv downgrade_facts ''current_pg_version''
   \<and> EvStopService ''uyuni-server'' None
     \<in> set (snd (Upgrade (example_host downgrade_facts) example_image no_image [] []))
   \<and> fst (Upgrade (example_host downgrade_facts) example_image no_image [] [])
     = Some ''trying to downgrade postgresql from 16 to 14''"
proof -
  let ?H = "example_host downgrade_facts"
  let ?run = "Upgrade ?H example_image no_image [] []"
  have run: "?run = (fst ?run, [] @ snd ?run)" by simp
  have facts: "EvReadInspectData ''/tmp/mgradm-'' downgrade_facts None \<in> set (snd ?run)"
    by code_simp
  have down: "getv downgrade_facts ''image_pg_version'' < getv downgrade_facts ''current_pg_version''"
    by code_simp
  have stop: "EvStopService ''uyuni-server'' None \<in> set (snd ?run)"
    by code_simp
  have svc: "ServerService ?H = ''uyuni-server''" by code_simp
  have msg: "''trying to downgrade postgresql from '' @ getv downgrade_facts ''current_pg_version''
       @ '' to '' @ getv downgrade_facts ''image_pg_version''
     = ''trying to downgrade postgresql from 16 to 14''"
    by code_simp
  note main = Upgrade_rejects_downgrade_after_stop[OF run facts down]
  from main stop svc msg
  have "fst ?run = Some ''trying to downgrade postgresql from 16 to 14''" by simp
  with facts down stop show ?thesis by simp
qed

text \<open>
  The run of a downgrade from 16 to 14: the inspection container is launched and the
  service is stopped before the error is raised.
\<close>

theorem Upgrade_downgrade_stops_service_counterexample:
  "getv downgrade_facts ''image_pg_version'' < getv downgrade_facts ''current_pg_version''
   \<and> Upgrade (example_host downgrade_facts) example_image no_image [] []
     = (Some ''trying to downgrade postgresql from 16 to 14'',
        [EvMkdirTemp [] ''mgradm-*'' ''/tmp/mgradm-'' None,
         EvInspectHost [] None,
         EvPrepareImage ''registry.opensuse.org/uyuni/server:latest'' ''missing'' []
           ''registry.opensuse.org/uyuni/server:latest'' None,
         EvGenerateInspectContainerScript ''/tmp/mgradm-'' None,
         EvRunContainer ''uyuni-inspect'' ''registry.opensuse.org/uyuni/server:latest''
           [''-v'', ''/tmp/mgradm-:/var/lib/uyuni-tools'', ''--security-opt'', ''label:disable'']
           [''/var/lib/uyuni-tools/inspect.sh''] None,
         EvReadInspectData ''/tmp/mgradm-'' downgrade_facts None,
         EvRemoveAll ''/tmp/mgradm-'' None,
         EvSanityCheck (''podman'', ''uyuni-server'', []) downgrade_facts
           ''registry.opensuse.org/uyuni/server:latest'' None,
         EvStopService ''uyuni-server'' None,
         EvStartService ''uyuni-server'' None])"
  by code_simp

section \<open>The schema update flag\<close>

text \<open>
  Claim C5, as the code has it. \<^verbatim>\<open>schemaUpdateRequired\<close> is computed from the two
  database versions alone, no release identifier enters it: every finalization script of
  a run is generated with the flag set exactly when the current and the image version
  differ. When the versions are equal, \<^verbatim>\<open>Upgrade\<close> runs no database upgrade and the
  first step after the stop is the finalization, with the flag unset; when the image
  version is greater and the database upgrade has succeeded, the finalization follows it,
  with the flag set. In both cases the finalization script is generated, unless a
  temporary directory could not be created.
\<close>

theorem Upgrade_schema_update_follows_db_versions:
  assumes run: "Upgrade env img mig args t = (r, t @ es)"
    and stop: "EvStopService (ServerService env) None \<in> set es"
    and facts: "EvReadInspectData d vals None \<in> set es"
  shows "(\<forall>d' a s x y k n e.
             EvGenerateFinalizePostgresScript d' a s x y k n e \<in> set es
             \<longrightarrow> s = (getv vals ''current_pg_version'' \<noteq> getv vals ''image_pg_version''))
       \<and> ((getv vals ''image_pg_version'' = getv vals ''current_pg_version''
            \<or> (\<exists>i a c. EvRunContainer ''uyuni-upgrade-pgsql'' i a c None \<in> set es))
           \<and> (\<forall>dir pat d' x. EvMkdirTemp dir pat d' (Some x) \<notin> set es)
           \<longrightarrow> (\<exists>d' n e. EvGenerateFinalizePostgresScript d' True
                            (getv vals ''current_pg_version'' \<noteq> getv vals ''image_pg_version'')
                            True True False n e \<in> set es))
       \<and> (getv vals ''image_pg_version'' = getv vals ''current_pg_version''
           \<longrightarrow> (\<forall>i a c e. EvRunContainer ''uyuni-upgrade-pgsql'' i a c e \<notin> set es)
             \<and> (\<forall>d' old new k n e. EvGeneratePgsqlVersionUpgradeScript d' old new k n e \<notin> set es))
       \<and> (\<exists>pre post.
             es = pre @ EvStopService (ServerService env) None # post
             \<and> (getv vals ''image_pg_version'' = getv vals ''current_pg_version''
                 \<longrightarrow> prefix
                       (events_from (t @ pre @ [EvStopService (ServerService env) None])
                          (RunPgsqlFinalizeScript env
                             (fst (utils_ComputeImage env (Name img) (Tag img) [])) False
                             (t @ pre @ [EvStopService (ServerService env) None])))
                       post)
             \<and> (getv vals ''current_pg_version'' < getv vals ''image_pg_version''
                 \<and> fst (RunPgsqlVersionUpgrade env img mig (getv vals ''current_pg_version'')
                          (getv vals ''image_pg_version'')
                          (t @ pre @ [EvStopService (ServerService env) None])) = None
                 \<longrightarrow> prefix
                       (events_from (t @ pre @ [EvStopService (ServerService env) None])
                          (RunPgsqlFinalizeScript env
                             (fst (utils_ComputeImage env (Name img) (Tag img) [])) True
                             (snd (RunPgsqlVersionUpgrade env img mig
                                     (getv vals ''current_pg_version'')
                                     (getv vals ''image_pg_version'')
                                     (t @ pre @ [EvStopService (ServerService env) None])))))
                       post))"
proof -
  let ?svc = "ServerService env"
  let ?si = "fst (utils_ComputeImage env (Name img) (Tag img) [])"
  let ?cur = "getv vals ''current_pg_version''"
  let ?new = "getv vals ''image_pg_version''"
  from run stop obtain vals' pre body e where
    es: "es = pre @ EvStopService ?svc None # body @ [EvStartService ?svc e]"
    and pre: "list_all (discovery_event vals') pre"
    and st: "Upgrade_stopped env img mig ?si vals' (t @ pre @ [EvStopService ?svc None])
              = (r, t @ pre @ EvStopService ?svc None # body)"
    and body: "list_all (stopped_event (getv vals' ''current_pg_version'')
                 (getv vals' ''image_pg_version'') ?si r) body"
    by (rule Upgrade_stopped_run)
  have vals: "vals' = vals"
    using facts_in_discovery[OF es pre body facts] by simp
  let ?t3 = "t @ pre @ [EvStopService ?svc None]"
  let ?up = "RunPgsqlVersionUpgrade env img mig ?cur ?new ?t3"
  let ?t4 = "if ?cur < ?new then snd ?up else ?t3"
  let ?fin = "RunPgsqlFinalizeScript env ?si (?cur \<noteq> ?new) ?t4"
  from st have st': "Upgrade_stopped env img mig ?si vals ?t3 = (r, ?t3 @ body)"
    unfolding vals by simp
  have inbody: "ev \<in> set body"
    if "ev \<in> set es" "\<not> discovery_event vals ev" "\<forall>s x. ev \<noteq> EvStopService s x"
      "\<forall>s x. ev \<noteq> EvStartService s x" for ev
    using that es pre unfolding vals by (auto simp: list_all_iff)
  have c1: "s = (?cur \<noteq> ?new)"
    if "EvGenerateFinalizePostgresScript d' a s x y k n z \<in> set es" for d' a s x y k n z
    using inbody[OF that] body unfolding vals by (auto simp: list_all_iff)
  have reached: "\<exists>esu esf. ?t4 = ?t3 @ esu \<and> snd ?fin = ?t3 @ esu @ esf
                   \<and> prefix (esu @ esf) body"
    if "\<not> ?new < ?cur \<and> (?cur < ?new \<longrightarrow> fst ?up = None)"
  proof -
    from that have "\<not> ?new < ?cur" "?cur < ?new \<Longrightarrow> fst ?up = None" by simp_all
    with st' have pf: "prefix (snd ?fin) (?t3 @ body)"
      by (rule Upgrade_stopped_finalize_runs)
    have "prefix ?t3 (snd ?up)"
      using RunPgsqlVersionUpgrade_extends[of env img mig ?cur ?new ?t3 "fst ?up" "snd ?up"]
      by simp
    then have "\<exists>esu. ?t4 = ?t3 @ esu" by (cases "?cur < ?new") (auto simp: prefix_def)
    then obtain esu where t4: "?t4 = ?t3 @ esu" by blast
    have "prefix ?t4 (snd ?fin)"
      using RunPgsqlFinalizeScript_extends[of env ?si "?cur \<noteq> ?new" ?t4 "fst ?fin" "snd ?fin"]
      by simp
    then obtain esf where tf: "snd ?fin = ?t4 @ esf" by (auto simp: prefix_def)
    from pf have "prefix (?t4 @ esf) (?t3 @ body)" by (simp only: tf)
    then have "prefix ((?t3 @ esu) @ esf) (?t3 @ body)" by (simp only: t4)
    then have p: "prefix (esu @ esf) body" by simp
    from tf have "snd ?fin = (?t3 @ esu) @ esf" by (simp only: t4)
    with t4 p show ?thesis by auto
  qed
  have c2: "\<exists>d' n z. EvGenerateFinalizePostgresScript d' True (?cur \<noteq> ?new) True True False n z
                        \<in> set es"
    if go: "?new = ?cur \<or> (\<exists>i a c. EvRunContainer ''uyuni-upgrade-pgsql'' i a c None \<in> set es)"
      and nomk: "\<forall>dir pat d' x. EvMkdirTemp dir pat d' (Some x) \<notin> set es"
  proof -
    from go have ok: "\<not> ?new < ?cur \<and> (?cur < ?new \<longrightarrow> fst ?up = None)"
    proof
      assume "?new = ?cur"
      then show ?thesis by simp
    next
      assume "\<exists>i a c. EvRunContainer ''uyuni-upgrade-pgsql'' i a c None \<in> set es"
      then obtain i a c where "EvRunContainer ''uyuni-upgrade-pgsql'' i a c None \<in> set es"
        by blast
      then have "EvRunContainer ''uyuni-upgrade-pgsql'' i a c None \<in> set body"
        by (intro inbody) simp_all
      from Upgrade_stopped_upgrade_succeeded[OF st' this] show ?thesis by auto
    qed
    from reached[OF this] obtain esu esf where
      t4: "?t4 = ?t3 @ esu" and tf: "snd ?fin = ?t3 @ esu @ esf"
      and pf: "prefix (esu @ esf) body"
      by blast
    from pf obtain rest where b: "body = esu @ esf @ rest" by (auto simp: prefix_def)
    have sub: "set esf \<subseteq> set es" unfolding es b by auto
    have "?fin = (fst ?fin, ?t4 @ esf)" using tf t4 by (simp add: prod_eq_iff)
    moreover from nomk sub have "\<forall>dir pat d' x. EvMkdirTemp dir pat d' (Some x) \<notin> set esf"
      by blast
    ultimately have "\<exists>d' n z. EvGenerateFinalizePostgresScript d' True (?cur \<noteq> ?new)
                               True True False n z \<in> set esf"
      by (rule RunPgsqlFinalizeScript_generates)
    with sub show ?thesis by blast
  qed
  have c3: "(\<forall>i a c x. EvRunContainer ''uyuni-upgrade-pgsql'' i a c x \<notin> set es)
             \<and> (\<forall>d' old new k n x. EvGeneratePgsqlVersionUpgradeScript d' old new k n x \<notin> set es)"
    if same: "?new = ?cur"
  proof -
    have "EvRunContainer ''uyuni-upgrade-pgsql'' i a c x \<notin> set es" for i a c x
      using es pre body same unfolding vals by (auto simp: list_all_iff)
    moreover have "EvGeneratePgsqlVersionUpgradeScript d' old new k n x \<notin> set es"
      for d' old new k n x
      using es pre body same unfolding vals by (auto simp: list_all_iff)
    ultimately show ?thesis by blast
  qed
  have c4a: "prefix (events_from ?t3 (RunPgsqlFinalizeScript env ?si False ?t3))
               (body @ [EvStartService ?svc e])"
    if same: "?new = ?cur"
  proof -
    from same have "\<not> ?new < ?cur \<and> (?cur < ?new \<longrightarrow> fst ?up = None)" by simp
    from reached[OF this] obtain esu esf where
      t4: "?t4 = ?t3 @ esu" and tf: "snd ?fin = ?t3 @ esu @ esf"
      and pf: "prefix (esu @ esf) body"
      by blast
    from same t4 have "esu = []" by simp
    with tf same have "events_from ?t3 (RunPgsqlFinalizeScript env ?si False ?t3) = esu @ esf"
      by (simp add: events_from_def)
    with pf show ?thesis by (simp add: prefix_prefix)
  qed
  have c4b: "prefix (events_from ?t3 (RunPgsqlFinalizeScript env ?si True (snd ?up)))
               (body @ [EvStartService ?svc e])"
    if up: "?cur < ?new" and ok: "fst ?up = None"
  proof -
    from up ok have "\<not> ?new < ?cur \<and> (?cur < ?new \<longrightarrow> fst ?up = None)" by simp
    from reached[OF this] obtain esu esf where
      t4: "?t4 = ?t3 @ esu" and tf: "snd ?fin = ?t3 @ esu @ esf"
      and pf: "prefix (esu @ esf) body"
      by blast
    from up have ne: "(?cur \<noteq> ?new) = True" by auto
    from tf up have "events_from ?t3 (RunPgsqlFinalizeScript env ?si True (snd ?up)) = esu @ esf"
      unfolding ne by (simp add: events_from_def)
    with pf show ?thesis by (simp add: prefix_prefix)
  qed
  have c1': "\<forall>d' a s x y k n z.
             EvGenerateFinalizePostgresScript d' a s x y k n z \<in> set es
             \<longrightarrow> s = (?cur \<noteq> ?new)"
    using c1 by blast
  have c2': "(?new = ?cur \<or> (\<exists>i a c. EvRunContainer ''uyuni-upgrade-pgsql'' i a c None \<in> set es))
           \<and> (\<forall>dir pat d' x. EvMkdirTemp dir pat d' (Some x) \<notin> set es)
           \<longrightarrow> (\<exists>d' n z. EvGenerateFinalizePostgresScript d' True (?cur \<noteq> ?new)
                            True True False n z \<in> set es)"
    using c2 by blast
  have c3': "?new = ?cur
           \<longrightarrow> (\<forall>i a c x. EvRunContainer ''uyuni-upgrade-pgsql'' i a c x \<notin> set es)
             \<and> (\<forall>d' old new k n x. EvGeneratePgsqlVersionUpgradeScript d' old new k n x \<notin> set es)"
    using c3 by blast
  have c4: "\<exists>pre post.
             es = pre @ EvStopService ?svc None # post
             \<and> (?new = ?cur
                 \<longrightarrow> prefix
                       (events_from (t @ pre @ [EvStopService ?svc None])
                          (RunPgsqlFinalizeScript env ?si False
                             (t @ pre @ [EvStopService ?svc None])))
                       post)
             \<and> (?cur < ?new
                 \<and> fst (RunPgsqlVersionUpgrade env img mig ?cur ?new
                          (t @ pre @ [EvStopService ?svc None])) = None
                 \<longrightarrow> prefix
                       (events_from (t @ pre @ [EvStopService ?svc None])
                          (RunPgsqlFinalizeScript env ?si True
                             (snd (RunPgsqlVersionUpgrade env img mig ?cur ?new
                                     (t @ pre @ [EvStopService ?svc None])))))
                       post)"
  proof (rule exI[of _ pre], rule exI[of _ "body @ [EvStartService ?svc e]"], intro conjI impI)
    show "es = pre @ EvStopService ?svc None # body @ [EvStartService ?svc e]" by (rule es)
  next
    assume "?new = ?cur"
    then show "prefix (events_from ?t3 (RunPgsqlFinalizeScript env ?si False ?t3))
                 (body @ [EvStartService ?svc e])"
      by (rule c4a)
  next
    assume "?cur < ?new \<and> fst ?up = None"
    then show "prefix (events_from ?t3 (RunPgsqlFinalizeScript env ?si True (snd ?up)))
                 (body @ [EvStartService ?svc e])"
      using c4b by blast
  qed
  from c1' c2' c3' c4 show ?thesis by (intro conjI)
qed

theorem Upgrade_schema_update_follows_db_versions_witness:
  "EvStopService ''uyuni-server'' None
     \<in> set (snd (Upgrade (example_host same_version_facts) example_image no_image [] []))
   \<and> EvReadInspectData ''/tmp/mgradm-'' same_version_facts None
     \<in> set (snd (Upgrade (example_host same_version_facts) example_image no_image [] []))
   \<and> getv same_version_facts ''image_pg_version'' = getv same_version_facts ''current_pg_version''
   \<and> EvGenerateFinalizePostgresScript ''/tmp/mgradm-xxxxxxxxx'' True False True True False
        ''pgsqlFinalize.sh'' None
     \<in> set (snd (Upgrade (example_host same_version_facts) example_image no_image [] []))
   \<and> EvGenerateFinalizePostgresScript ''/tmp/mgradm-xxxxxxxxx'' True True True True False
        ''pgsqlFinalize.sh'' None
     \<notin> set (snd (Upgrade (example_host same_version_facts) example_image no_image [] []))
   \<and> EvStopService ''uyuni-server'' None
     \<in> set (snd (Upgrade (example_host upgrade_facts) example_image no_image [] []))
   \<and> EvReadInspectData ''/tmp/mgradm-'' upgrade_facts None
     \<in> set (snd (Upgrade (example_host upgrade_facts) example_image no_image [] []))
   \<and> getv upgrade_facts ''image_pg_version'' \<noteq> getv upgrade_facts ''current_pg_version''
   \<and> EvGenerateFinalizePostgresScript ''/tmp/mgradm-xxxxxxxxxxxxxxx'' True True True True False
        ''pgsqlFinalize.sh'' None
     \<in> set (snd (Upgrade (example_host upgrade_facts) example_image no_image [] []))
   \<and> EvGenerateFinalizePostgresScript ''/tmp/mgradm-xxxxxxxxxxxxxxx'' True False True True False
        ''pgsqlFinalize.sh'' None
     \<notin> set (snd (Upgrade (example_host upgrade_facts) example_image no_image [] []))"
proof -
  let ?H = "example_host same_version_facts"
  let ?run = "Upgrade ?H example_image no_image [] []"
  have run: "?run = (fst ?run, [] @ snd ?run)" by simp
  have svc: "ServerService ?H = ''uyuni-server''" by code_simp
  have stop: "EvStopService ''uyuni-server'' None \<in> set (snd ?run)"
    by code_simp
  have facts: "EvReadInspectData ''/tmp/mgradm-'' same_version_facts None \<in> set (snd ?run)"
    by code_simp
  have same: "getv same_version_facts ''image_pg_version''
                = getv same_version_facts ''current_pg_version''"
    by code_simp
  have fin: "EvGenerateFinalizePostgresScript ''/tmp/mgradm-xxxxxxxxx'' True False True True False
        ''pgsqlFinalize.sh'' None \<in> set (snd ?run)"
    by code_simp
  from stop svc have stop': "EvStopService (ServerService ?H) None \<in> set (snd ?run)" by simp
  note main = Upgrade_schema_update_follows_db_versions[OF run stop' facts]
  from main have "\<forall>d' a s x y k n e.
      EvGenerateFinalizePostgresScript d' a s x y k n e \<in> set (snd ?run)
      \<longrightarrow> s = (getv same_version_facts ''current_pg_version''
                 \<noteq> getv same_version_facts ''image_pg_version'')"
    by (elim conjE)
  then have "EvGenerateFinalizePostgresScript ''/tmp/mgradm-xxxxxxxxx'' True True True True
        False ''pgsqlFinalize.sh'' None \<in> set (snd ?run)
      \<Longrightarrow> True = (getv same_version_facts ''current_pg_version''
                 \<noteq> getv same_version_facts ''image_pg_version'')"
    by blast
  with same have nfin: "EvGenerateFinalizePostgresScript ''/tmp/mgradm-xxxxxxxxx'' True True True True
        False ''pgsqlFinalize.sh'' None \<notin> set (snd ?run)"
    by auto
  let ?K = "example_host upgrade_facts"
  let ?run2 = "Upgrade ?K example_image no_image [] []"
  have run2: "?run2 = (fst ?run2, [] @ snd ?run2)" by simp
  have svc2: "ServerService ?K = ''uyuni-server''" by code_simp
  have stop2: "EvStopService ''uyuni-server'' None \<in> set (snd ?run2)"
    by code_simp
  have facts2: "EvReadInspectData ''/tmp/mgradm-'' upgrade_facts None \<in> set (snd ?run2)"
    by code_simp
  have differ: "getv upgrade_facts ''image_pg_version'' \<noteq> getv upgrade_facts ''current_pg_version''"
    by code_simp
  have fin2: "EvGenerateFinalizePostgresScript ''/tmp/mgradm-xxxxxxxxxxxxxxx'' True True True True
        False ''pgsqlFinalize.sh'' None \<in> set (snd ?run2)"
    by code_simp
  from stop2 svc2 have stop2': "EvStopService (ServerService ?K) None \<in> set (snd ?run2)" by simp
  note main2 = Upgrade_schema_update_follows_db_versions[OF run2 stop2' facts2]
  from main2 have "\<forall>d' a s x y k n e.
      EvGenerateFinalizePostgresScript d' a s x y k n e \<in> set (snd ?run2)
      \<longrightarrow> s = (getv upgrade_facts ''current_pg_version''
                 \<noteq> getv upgrade_facts ''image_pg_version'')"
    by (elim conjE)
  then have "EvGenerateFinalizePostgresScript ''/tmp/mgradm-xxxxxxxxxxxxxxx'' True False
        True True False ''pgsqlFinalize.sh'' None \<in> set (snd ?run2)
      \<Longrightarrow> False = (getv upgrade_facts ''current_pg_version''
                 \<noteq> getv upgrade_facts ''image_pg_version'')"
    by blast
  with differ have nfin2: "EvGenerateFinalizePostgresScript ''/tmp/mgradm-xxxxxxxxxxxxxxx'' True False
        True True False ''pgsqlFinalize.sh'' None \<notin> set (snd ?run2)"
    by auto
  from stop facts same fin nfin stop2 facts2 differ fin2 nfin2 show ?thesis by simp
qed

text \<open>
  A server of release 2024.05 and an image of release 2024.07, both with the database
  version 16: the releases differ, the upgrade succeeds, and the finalization script is
  generated with the flag unset.
\<close>

theorem Upgrade_same_version_counterexample:
  "getv same_version_facts ''image_pg_version'' = getv same_version_facts ''current_pg_version''
   \<and> getv same_version_facts ''uyuni_release'' = ''2024.07''
   \<and> fst (Upgrade (deployed_release_host ''2024.05'' same_version_facts)
            example_image no_image [] []) = None
   \<and> EvGenerateFinalizePostgresScript ''/tmp/mgradm-xxxxxxxxx'' True False True True False
        ''pgsqlFinalize.sh'' None
     \<in> set (snd (Upgrade (deployed_release_host ''2024.05'' same_version_facts)
                    example_image no_image [] []))"
  by code_simp

section \<open>A failing restart\<close>

text \<open>
  Claim C4. The error of the deferred \<^verbatim>\<open>StartService\<close> does not reach the caller.
  On a host where every step succeeds and the service fails to start, \<^verbatim>\<open>Upgrade\<close>
  returns no error; where the migration container fails as well, it returns the error
  of the migration alone.
\<close>

theorem Upgrade_swallows_restart_failure:
  "fst (Upgrade (failing_start_host upgrade_facts) example_image no_image [] []) = None
   \<and> last (snd (Upgrade (failing_start_host upgrade_facts) example_image no_image [] []))
     = EvStartService ''uyuni-server'' (Some ''failed to start uyuni-server.service'')
   \<and> fst (Upgrade (failing_container_and_start_host ''uyuni-upgrade-pgsql'' upgrade_facts)
            example_image no_image [] [])
     = Some ''cannot run PostgreSQL version upgrade script: exit status 1''
   \<and> last (snd (Upgrade (failing_container_and_start_host ''uyuni-upgrade-pgsql'' upgrade_facts)
                  example_image no_image [] []))
     = EvStartService ''uyuni-server'' (Some ''failed to start uyuni-server.service'')"
  by code_simp

section \<open>A version upgrade that is none\<close>

text \<open>
  Claim C10, as the code has it. Called with a new version that is not greater than
  the old one (in the string order), \<^verbatim>\<open>RunPgsqlVersionUpgrade\<close> creates its temporary
  directory, removes it, and does nothing else: no image is pulled, no container is
  launched, a downgrade is not rejected. It returns no error, unless the temporary
  directory could not be created: then it returns that failure.
\<close>

theorem RunPgsqlVersionUpgrade_not_greater:
  assumes "\<not> oldPgsql < newPgsql"
  shows "\<exists>d err rerr.
           RunPgsqlVersionUpgrade env img mig oldPgsql newPgsql t
           = (case err of
                None \<Rightarrow> None
              | Some e \<Rightarrow> Some (''failed to create temporary directory: '' @ e),
              t @ [EvMkdirTemp [] ''mgradm-*'' d err, EvRemoveAll d rerr])"
  using assms
  unfolding RunPgsqlVersionUpgrade_def RunPgsqlVersionUpgrade_body_def MkdirTemp_def RemoveAll_def
  by (auto split: prod.splits option.splits)

theorem RunPgsqlVersionUpgrade_not_greater_witness:
  "\<not> ''16'' < ''14''
   \<and> RunPgsqlVersionUpgrade (example_host []) example_image no_image ''16'' ''14'' []
     = (None, [EvMkdirTemp [] ''mgradm-*'' ''/tmp/mgradm-'' None, EvRemoveAll ''/tmp/mgradm-'' None])"
proof -
  have ng: "\<not> ''16'' < ''14''" by simp
  from RunPgsqlVersionUpgrade_not_greater[OF ng, of "example_host []" example_image no_image "[]"]
  obtain d err rerr where
    "RunPgsqlVersionUpgrade (example_host []) example_image no_image ''16'' ''14'' []
       = (case err of None \<Rightarrow> None
          | Some e \<Rightarrow> Some (''failed to create temporary directory: '' @ e),
          [] @ [EvMkdirTemp [] ''mgradm-*'' d err, EvRemoveAll d rerr])"
    by blast
  moreover have "RunPgsqlVersionUpgrade (example_host []) example_image no_image ''16'' ''14'' []
     = (None, [EvMkdirTemp [] ''mgradm-*'' ''/tmp/mgradm-'' None, EvRemoveAll ''/tmp/mgradm-'' None])"
    by code_simp
  ultimately show ?thesis using ng by simp
qed

text \<open>
  On a host without space for the temporary directory the call returns an error.
\<close>

theorem RunPgsqlVersionUpgrade_not_greater_counterexample:
  "\<not> ''16'' < ''14''
   \<and> RunPgsqlVersionUpgrade failing_mkdir_host example_image no_image ''16'' ''14'' []
     = (Some ''failed to create temporary directory: no space left on device'',
        [EvMkdirTemp [] ''mgradm-*'' [] (Some ''no space left on device''), EvRemoveAll [] None])"
  by code_simp

section \<open>The migration image\<close>

text \<open>
  Claim C6. Called with a new version greater than the old one, on a host where the
  script directory can be created and the host inspection succeeds,
  \<^verbatim>\<open>RunPgsqlVersionUpgrade\<close> pulls one image, under the pull policy of the base image:
  the one \<^verbatim>\<open>ComputeImage\<close> gives, without an override (\<^verbatim>\<open>migrationImage.Name\<close> empty)
  from the name and the tag of the base image with the suffix \<^verbatim>\<open>-migration-<old>-<new>\<close>,
  with an override from the override name and the tag of the base image. For a name
  \<^verbatim>\<open>registry/repository\<close> the suffix is inserted before the tag:
  \<^verbatim>\<open>registry/repository-migration-<old>-<new>:tag\<close>, where the tag is the one written in
  the name when there is one, the tag of the base image otherwise; an override
  \<^verbatim>\<open>registry/repository\<close> gets the tag of the base image. When \<^verbatim>\<open>ComputeImage\<close> fails,
  nothing is pulled and the step returns that failure.
\<close>

theorem migration_image_url:
  assumes ci: "utils_ComputeImage env = ComputeImage"
    and gt: "oldPgsql < newPgsql"
    and mk: "os_MkdirTemp env t [] ''mgradm-*'' = (d, None)"
    and host: "utils_InspectHost env (t @ [EvMkdirTemp [] ''mgradm-*'' d None]) = (hv, None)"
    and reg: "validRegistry h" "CHR ''/'' \<notin> set h"
    and repo: "p \<noteq> []" "CHR '':'' \<notin> set p"
    and tg: "tg \<noteq> []" "CHR '':'' \<notin> set tg"
  shows "(Name mig = [] \<longrightarrow>
            (\<forall>url. ComputeImage (Name img) (Tag img)
                     [''-migration-'' @ oldPgsql @ ''-'' @ newPgsql] = (url, None)
               \<longrightarrow> pulls (events_from t (RunPgsqlVersionUpgrade env img mig oldPgsql newPgsql t))
                   = [(url, PullPolicy img, sccPullArgs hv)]))
       \<and> (Name mig \<noteq> [] \<longrightarrow>
            (\<forall>url. ComputeImage (Name mig) (Tag img) [] = (url, None)
               \<longrightarrow> pulls (events_from t (RunPgsqlVersionUpgrade env img mig oldPgsql newPgsql t))
                   = [(url, PullPolicy img, sccPullArgs hv)]))
       \<and> (Name mig = [] \<and> Name img = h @ ''/'' @ p \<and> Tag img \<noteq> [] \<longrightarrow>
            pulls (events_from t (RunPgsqlVersionUpgrade env img mig oldPgsql newPgsql t))
            = [(map toLower h @ ''/'' @ p @ ''-migration-'' @ oldPgsql @ ''-'' @ newPgsql
                  @ '':'' @ Tag img,
                PullPolicy img, sccPullArgs hv)])
       \<and> (Name mig = [] \<and> Name img = h @ ''/'' @ p @ '':'' @ tg \<longrightarrow>
            pulls (events_from t (RunPgsqlVersionUpgrade env img mig oldPgsql newPgsql t))
            = [(map toLower h @ ''/'' @ p @ ''-migration-'' @ oldPgsql @ ''-'' @ newPgsql
                  @ '':'' @ tg,
                PullPolicy img, sccPullArgs hv)])
       \<and> (Name mig = h @ ''/'' @ p \<and> Tag img \<noteq> [] \<longrightarrow>
            pulls (events_from t (RunPgsqlVersionUpgrade env img mig oldPgsql newPgsql t))
            = [(map toLower h @ ''/'' @ p @ '':'' @ Tag img, PullPolicy img, sccPullArgs hv)])
       \<and> (\<forall>url e. (if Name mig = []
                    then ComputeImage (Name img) (Tag img)
                           [''-migration-'' @ oldPgsql @ ''-'' @ newPgsql]
                    else ComputeImage (Name mig) (Tag img) []) = (url, Some e)
             \<longrightarrow> pulls (events_from t (RunPgsqlVersionUpgrade env img mig oldPgsql newPgsql t)) = []
               \<and> fst (RunPgsqlVersionUpgrade env img mig oldPgsql newPgsql t)
                 = Some (''failed to compute image URL: '' @ e))"
proof -
  let ?pulls = "pulls (events_from t (RunPgsqlVersionUpgrade env img mig oldPgsql newPgsql t))"
  let ?sfx = "[''-migration-'' @ oldPgsql @ ''-'' @ newPgsql]"
  note pulled = RunPgsqlVersionUpgrade_pulls_url[OF gt mk host, of mig img, unfolded ci]
  note failed = RunPgsqlVersionUpgrade_no_url[OF gt mk, of mig img, unfolded ci]
  from reg have h: "h \<noteq> []" by (auto simp: validRegistry_def splitAt_def split: if_splits)
  have a: "?pulls = [(url, PullPolicy img, sccPullArgs hv)]"
    if "Name mig = []" "ComputeImage (Name img) (Tag img) ?sfx = (url, None)" for url
    using that pulled[of url] by simp
  have b: "?pulls = [(url, PullPolicy img, sccPullArgs hv)]"
    if "Name mig \<noteq> []" "ComputeImage (Name mig) (Tag img) [] = (url, None)" for url
    using that pulled[of url] by simp
  have c: "?pulls = [(map toLower h @ ''/'' @ p @ ''-migration-'' @ oldPgsql @ ''-'' @ newPgsql
                  @ '':'' @ Tag img, PullPolicy img, sccPullArgs hv)]"
    if "Name mig = []" "Name img = h @ ''/'' @ p" "Tag img \<noteq> []"
    using that a ComputeImage_untagged[OF reg repo, of "Tag img" ?sfx] by simp
  have d: "?pulls = [(map toLower h @ ''/'' @ p @ ''-migration-'' @ oldPgsql @ ''-'' @ newPgsql
                  @ '':'' @ tg, PullPolicy img, sccPullArgs hv)]"
    if "Name mig = []" "Name img = h @ ''/'' @ p @ '':'' @ tg"
    using that a ComputeImage_tagged[OF reg repo tg, of "Tag img" ?sfx] by simp
  have e: "?pulls = [(map toLower h @ ''/'' @ p @ '':'' @ Tag img, PullPolicy img, sccPullArgs hv)]"
    if "Name mig = h @ ''/'' @ p" "Tag img \<noteq> []"
    using that b h ComputeImage_untagged[OF reg repo, of "Tag img" "[]"] by simp
  from a b c d e failed show ?thesis by blast
qed

theorem migration_image_url_witness:
  "pulls (events_from [] (RunPgsqlVersionUpgrade (example_host []) path_image no_image
                            ''14'' ''16'' []))
     = [(''registry/path/image-migration-14-16:tag'', ''missing'', [])]
   \<and> pulls (events_from [] (RunPgsqlVersionUpgrade (example_host []) path_image override_image
                              ''14'' ''16'' []))
     = [(''registry/path/migration:tag'', ''missing'', [])]
   \<and> EvPrepareImage ''registry/path/migration:tag'' ''missing'' []
        ''registry/path/migration:tag'' None
     \<in> set (snd (RunPgsqlVersionUpgrade (example_host []) path_image override_image
                    ''14'' ''16'' []))"
proof -
  have ci: "utils_ComputeImage (example_host []) = ComputeImage" by (simp add: example_host_def)
  have gt: "''14'' < ''16''" by simp
  have mk: "os_MkdirTemp (example_host []) [] [] ''mgradm-*'' = (''/tmp/mgradm-'', None)"
    by (simp add: example_host_def)
  have host: "utils_InspectHost (example_host [])
                ([] @ [EvMkdirTemp [] ''mgradm-*'' ''/tmp/mgradm-'' None]) = ([], None)"
    by (simp add: example_host_def)
  have reg: "validRegistry ''registry''" "CHR ''/'' \<notin> set ''registry''" by code_simp+
  have repo: "''path/image'' \<noteq> []" "CHR '':'' \<notin> set ''path/image''" by simp_all
  have repo': "''path/migration'' \<noteq> []" "CHR '':'' \<notin> set ''path/migration''" by simp_all
  have tg: "''tag'' \<noteq> []" "CHR '':'' \<notin> set ''tag''" by simp_all
  have names: "Name no_image = []" "Name path_image = ''registry/path/image''"
    "Tag path_image = ''tag''" "PullPolicy path_image = ''missing''"
    "Name override_image = ''registry/path/migration''"
    by (simp_all add: no_image_def path_image_def override_image_def)
  have args: "sccPullArgs [] = []" by (simp add: sccPullArgs_def has_key_def)
  from migration_image_url[OF ci gt mk host reg repo tg,
      where img = path_image and mig = no_image]
  have "Name no_image = [] \<and> Name path_image = ''registry'' @ ''/'' @ ''path/image''
          \<and> Tag path_image \<noteq> []
        \<longrightarrow> pulls (events_from [] (RunPgsqlVersionUpgrade (example_host []) path_image no_image
                                    ''14'' ''16'' []))
            = [(map toLower ''registry'' @ ''/'' @ ''path/image'' @ ''-migration-'' @ ''14''
                  @ ''-'' @ ''16'' @ '':'' @ Tag path_image,
                PullPolicy path_image, sccPullArgs [])]"
    by (elim conjE)
  with names args
  have plain: "pulls (events_from [] (RunPgsqlVersionUpgrade (example_host []) path_image no_image
                                    ''14'' ''16'' []))
               = [(''registry/path/image-migration-14-16:tag'', ''missing'', [])]"
    by (simp add: toLower_def)
  from migration_image_url[OF ci gt mk host reg repo' tg,
      where img = path_image and mig = override_image]
  have "Name override_image = ''registry'' @ ''/'' @ ''path/migration'' \<and> Tag path_image \<noteq> []
        \<longrightarrow> pulls (events_from [] (RunPgsqlVersionUpgrade (example_host []) path_image
                                    override_image ''14'' ''16'' []))
            = [(map toLower ''registry'' @ ''/'' @ ''path/migration'' @ '':'' @ Tag path_image,
                PullPolicy path_image, sccPullArgs [])]"
    by (elim conjE)
  with names args
  have override: "pulls (events_from [] (RunPgsqlVersionUpgrade (example_host []) path_image
                                    override_image ''14'' ''16'' []))
               = [(''registry/path/migration:tag'', ''missing'', [])]"
    by (simp add: toLower_def)
  have "EvPrepareImage ''registry/path/migration:tag'' ''missing'' []
        ''registry/path/migration:tag'' None
     \<in> set (snd (RunPgsqlVersionUpgrade (example_host []) path_image override_image
                    ''14'' ''16'' []))"
    by code_simp
  with plain override show ?thesis by simp
qed

section \<open>Script bundles\<close>

text \<open>
  Claim C8, as the code has it. Each helper-container step of an upgrade (inspection,
  database version upgrade, finalization, post-upgrade) creates a script directory of
  its own with \<^verbatim>\<open>os.MkdirTemp("", "mgradm-*")\<close> as its first action, uses only that
  directory (scripts are generated into it, results read from it, the helper container
  mounts it), and removes it as its last action on every path, whatever the result of
  the step. The remote migration obtains its directory from \<^verbatim>\<open>GenerateMigrationScript\<close>:
  when that call succeeds the step uses this directory only and removes it as its last
  action on every path; when that call fails the step returns at once and removes
  nothing. In a run of \<^verbatim>\<open>Upgrade\<close> the bundles follow one another: a bundle is removed
  before the next one is created, so no step sees the bundle of another.
\<close>

theorem script_bundle_lifecycle:
  "owns_bundle (events_from t (Inspect env serverImage pullPolicy t))
   \<and> owns_bundle (events_from t (RunPgsqlVersionUpgrade env img mig oldPgsql newPgsql t))
   \<and> owns_bundle (events_from t (RunPgsqlFinalizeScript env serverImage schemaUpdateRequired t))
   \<and> owns_bundle (events_from t (RunPostUpgradeScript env serverImage t))
   \<and> (snd (adm_utils_GenerateMigrationScript env t sourceFqdn user False) = None
        \<longrightarrow> owns_bundle (events_from t (RunMigration env serverImage pullPolicy sshAuthSocket
               sshConfigPath sshKnownhostsPath sourceFqdn user t)))
   \<and> (\<forall>e. snd (adm_utils_GenerateMigrationScript env t sourceFqdn user False) = Some e
        \<longrightarrow> events_from t (RunMigration env serverImage pullPolicy sshAuthSocket
               sshConfigPath sshKnownhostsPath sourceFqdn user t)
            = [EvGenerateMigrationScript sourceFqdn user False
                 (fst (adm_utils_GenerateMigrationScript env t sourceFqdn user False)) (Some e)])
   \<and> bundles_nested None (events_from t (Upgrade env img mig args t))"
proof -
  have "bundles_nested None (events_from t (Upgrade env img mig args t))"
    using Upgrade_nested[of t env img mig args]
    by (auto simp: nested_run_def events_from_def)
  then show ?thesis
    using Inspect_owns_bundle RunPgsqlVersionUpgrade_owns_bundle
      RunPgsqlFinalizeScript_owns_bundle RunPostUpgradeScript_owns_bundle
      RunMigration_bundle[where env = env and t = t and fqdn = sourceFqdn and user = user
        and si = serverImage and pp = pullPolicy and sock = sshAuthSocket
        and cfg = sshConfigPath and known = sshKnownhostsPath]
    by simp
qed

theorem script_bundle_lifecycle_witness:
  "events_from [] (RunMigration (example_host []) ''registry.opensuse.org/uyuni/server:latest''
       ''missing'' ''/run/user/1000/keyring/ssh'' [] [] ''source.example.com'' ''root'' [])
     = [EvGenerateMigrationScript ''source.example.com'' ''root'' False ''/tmp/mgradm-'' None,
        EvInspectHost [] None,
        EvPrepareImage ''registry.opensuse.org/uyuni/server:latest'' ''missing'' []
          ''registry.opensuse.org/uyuni/server:latest'' None,
        EvRunContainer ''uyuni-migration'' ''registry.opensuse.org/uyuni/server:latest''
          [''--security-opt'', ''label:disable'', ''-e'', ''SSH_AUTH_SOCK'',
           ''-v'', ''/run/user/1000/keyring:/run/user/1000/keyring'',
           ''-v'', ''/tmp/mgradm-:/var/lib/uyuni-tools/'']
          [''/var/lib/uyuni-tools/migrate.sh''] None,
        EvReadContainerData ''/tmp/mgradm-'' ''Europe/Berlin'' ''14'' ''16'' None,
        EvRemoveAll ''/tmp/mgradm-'' None]
   \<and> snd (adm_utils_GenerateMigrationScript (example_host []) [] ''source.example.com'' ''root''
            False) = None
   \<and> owns_bundle (events_from []
         (RunMigration (example_host []) ''registry.opensuse.org/uyuni/server:latest''
            ''missing'' ''/run/user/1000/keyring/ssh'' [] [] ''source.example.com'' ''root'' []))
   \<and> owns_bundle (events_from []
         (RunPostUpgradeScript (example_host []) ''registry.opensuse.org/uyuni/server:latest'' []))
   \<and> bundles_nested None (events_from []
         (Upgrade (example_host upgrade_facts) example_image no_image [] []))"
proof -
  have run: "events_from [] (RunMigration (example_host [])
       ''registry.opensuse.org/uyuni/server:latest''
       ''missing'' ''/run/user/1000/keyring/ssh'' [] [] ''source.example.com'' ''root'' [])
     = [EvGenerateMigrationScript ''source.example.com'' ''root'' False ''/tmp/mgradm-'' None,
        EvInspectHost [] None,
        EvPrepareImage ''registry.opensuse.org/uyuni/server:latest'' ''missing'' []
          ''registry.opensuse.org/uyuni/server:latest'' None,
        EvRunContainer ''uyuni-migration'' ''registry.opensuse.org/uyuni/server:latest''
          [''--security-opt'', ''label:disable'', ''-e'', ''SSH_AUTH_SOCK'',
           ''-v'', ''/run/user/1000/keyring:/run/user/1000/keyring'',
           ''-v'', ''/tmp/mgradm-:/var/lib/uyuni-tools/'']
          [''/var/lib/uyuni-tools/migrate.sh''] None,
        EvReadContainerData ''/tmp/mgradm-'' ''Europe/Berlin'' ''14'' ''16'' None,
        EvRemoveAll ''/tmp/mgradm-'' None]"
    by code_simp
  have gen: "snd (adm_utils_GenerateMigrationScript (example_host []) [] ''source.example.com''
                ''root'' False) = None"
    by (simp add: example_host_def)
  from gen script_bundle_lifecycle[where t = "[]" and env = "example_host []"
      and serverImage = "''registry.opensuse.org/uyuni/server:latest''"
      and pullPolicy = "''missing''" and sshAuthSocket = "''/run/user/1000/keyring/ssh''"
      and sshConfigPath = "[]" and sshKnownhostsPath = "[]"
      and sourceFqdn = "''source.example.com''" and user = "''root''"]
  have own: "owns_bundle (events_from []
         (RunMigration (example_host []) ''registry.opensuse.org/uyuni/server:latest''
            ''missing'' ''/run/user/1000/keyring/ssh'' [] [] ''source.example.com'' ''root'' []))"
    and post: "owns_bundle (events_from []
         (RunPostUpgradeScript (example_host []) ''registry.opensuse.org/uyuni/server:latest'' []))"
    by simp_all
  from script_bundle_lifecycle[where t = "[]" and env = "example_host upgrade_facts"
      and img = example_image and mig = no_image and args = "[]"]
  have "bundles_nested None (events_from []
         (Upgrade (example_host upgrade_facts) example_image no_image [] []))"
    by simp
  with run gen own post show ?thesis by simp
qed

text \<open>
  Where \<^verbatim>\<open>GenerateMigrationScript\<close> fails after it has made its directory, the remote
  migration ends without removing it.
\<close>

theorem RunMigration_leaves_bundle_counterexample:
  "RunMigration failing_migration_script_host ''registry.opensuse.org/uyuni/server:latest''
      ''missing'' ''/run/user/1000/keyring/ssh'' [] [] ''source.example.com'' ''root'' []
     = (([], [], [], Some ''cannot generate migration script: cannot write migrate.sh''),
        [EvGenerateMigrationScript ''source.example.com'' ''root'' False ''/tmp/mgradm-123''
           (Some ''cannot write migrate.sh'')])
   \<and> creates_bundle (EvGenerateMigrationScript ''source.example.com'' ''root'' False
        ''/tmp/mgradm-123'' (Some ''cannot write migrate.sh'')) = Some ''/tmp/mgradm-123''
   \<and> \<not> owns_bundle (events_from []
         (RunMigration failing_migration_script_host ''registry.opensuse.org/uyuni/server:latest''
            ''missing'' ''/run/user/1000/keyring/ssh'' [] [] ''source.example.com'' ''root'' []))"
  by code_simp

section \<open>Starting twice\<close>

text \<open>
  Claim C9. \<^verbatim>\<open>Start\<close> asks \<^verbatim>\<open>GetNode\<close> first. Where \<^verbatim>\<open>GetNode\<close> is a query (it leaves
  the cluster as it is) that succeeds once \<^verbatim>\<open>ReplicasTo\<close> has scaled the deployment to
  one replica: starting a pod that runs changes nothing and returns no error; and after a
  start that returned no error the pod runs, a second start returns no error and leaves
  the state of the first.
\<close>

theorem Start_idempotent:
  assumes query: "\<And>w. snd (GetNode k podFilter w) = w"
    and scaled: "\<And>w w'. ReplicasTo k podFilter 1 w = (None, w')
                   \<Longrightarrow> snd (fst (GetNode k podFilter w')) = None"
  shows "(snd (fst (GetNode k podFilter w)) = None \<longrightarrow> Start k podFilter w = (None, w))
       \<and> (Start k podFilter w = (None, v)
            \<longrightarrow> snd (fst (GetNode k podFilter v)) = None
              \<and> Start k podFilter v = (None, v)
              \<and> Start k podFilter (snd (Start k podFilter w)) = Start k podFilter w)"
proof -
  have running: "Start k podFilter u = (None, u)" if "snd (fst (GetNode k podFilter u)) = None" for u
  proof -
    obtain node e u' where g: "GetNode k podFilter u = ((node, e), u')"
      by (cases "GetNode k podFilter u") auto
    with that query[of u] show ?thesis by (simp add: Start_def)
  qed
  have after: "snd (fst (GetNode k podFilter v)) = None" if s: "Start k podFilter w = (None, v)"
  proof -
    obtain node e v' where g: "GetNode k podFilter w = ((node, e), v')"
      by (cases "GetNode k podFilter w") auto
    with query[of w] have v': "v' = w" by simp
    show ?thesis
    proof (cases e)
      case None
      with s g v' show ?thesis by (simp add: Start_def)
    next
      case (Some x)
      with s g v' have "ReplicasTo k podFilter 1 w = (None, v)" by (simp add: Start_def)
      then show ?thesis by (rule scaled)
    qed
  qed
  show ?thesis using running after by auto
qed

theorem Start_idempotent_witness:
  "Start example_kube ''app=uyuni'' 0 = (None, 1)
   \<and> Start example_kube ''app=uyuni'' 1 = (None, 1)
   \<and> snd (fst (GetNode example_kube ''app=uyuni'' 1)) = None"
proof -
  have query: "\<And>w. snd (GetNode example_kube ''app=uyuni'' w) = w"
    by (simp add: example_kube_def)
  have scaled: "\<And>w w'. ReplicasTo example_kube ''app=uyuni'' 1 w = (None, w')
                   \<Longrightarrow> snd (fst (GetNode example_kube ''app=uyuni'' w')) = None"
    by (auto simp: example_kube_def)
  have first: "Start example_kube ''app=uyuni'' 0 = (None, 1)"
    by (simp add: Start_def example_kube_def)
  from Start_idempotent[where k = example_kube and podFilter = "''app=uyuni''" and w = 0 and v = 1,
      OF query scaled] first
  show ?thesis by simp
qed

end
